theory Spec2Isabelle
  imports Main "HOL-Library.AList" "HOL-Library.Multiset"
begin

section \<open>JavaScript strings and numbers\<close>

text \<open>
  A string is the UTF-8 encoding of the JavaScript string. \<open>toLowerCase\<close> is modelled
  on the ASCII letters. The keywords the handlers compare against are ASCII and hold no
  \<open>k\<close>, and the Kelvin sign (which lower-cases to \<open>k\<close>) is the one character
  outside ASCII whose lower case is made of ASCII letters alone, so a string is equal to
  a keyword after \<open>toLowerCase\<close> exactly when its model is.
\<close>

definition lowerChar :: "char \<Rightarrow> char" where
  "lowerChar c =
     (case map_of (zip ''ABCDEFGHIJKLMNOPQRSTUVWXYZ'' ''abcdefghijklmnopqrstuvwxyz'') c of
        Some d \<Rightarrow> d
      | None \<Rightarrow> c)"

definition toLowerCase :: "string \<Rightarrow> string" where
  "toLowerCase s = map lowerChar s"

text \<open>\<open>x || d\<close> on an optional string field: \<open>undefined\<close> and the empty string are falsy.\<close>

definition orDefault :: "string option \<Rightarrow> string \<Rightarrow> string" where
  "orDefault v d = (case v of None \<Rightarrow> d | Some s \<Rightarrow> if s = [] then d else s)"

definition startsWith :: "string \<Rightarrow> string \<Rightarrow> bool" where
  "startsWith s p = (take (length p) s = p)"

definition endsWith :: "string \<Rightarrow> string \<Rightarrow> bool" where
  "endsWith s p = (length p \<le> length s \<and> drop (length s - length p) s = p)"

text \<open>\<open>String.prototype.includes\<close>: the argument occurs somewhere in the string.\<close>

fun str_includes :: "string \<Rightarrow> string \<Rightarrow> bool" where
  "str_includes [] sub = (sub = [])"
| "str_includes (c # cs) sub = (startsWith (c # cs) sub \<or> str_includes cs sub)"

text \<open>
  A non-negative integer in a template string (\<open>Date.now()\<close>, a count, a page
  number) is printed in decimal with no leading zero.
\<close>

definition digitChar :: "nat \<Rightarrow> char" where
  "digitChar d = ''0123456789'' ! d"

fun showNat :: "nat \<Rightarrow> string" where
  "showNat n = (if n < 10 then [digitChar n] else showNat (n div 10) @ [digitChar (n mod 10)])"

declare showNat.simps [simp del]

definition digitVal :: "char \<Rightarrow> nat" where
  "digitVal c = length (takeWhile (\<lambda>d. d \<noteq> c) ''0123456789'')"

definition readNat :: "string \<Rightarrow> nat" where
  "readNat s = foldl (\<lambda>a c. 10 * a + digitVal c) 0 s"

text \<open>
  Numbers are IEEE doubles. \<open>nearestEven num den\<close> is the quotient \<open>num / den\<close>
  rounded to the nearest integer, a tie to the even one; \<open>bitlen n\<close> is the number
  of binary digits of \<open>n\<close>.
\<close>

definition nearestEven :: "nat \<Rightarrow> nat \<Rightarrow> nat" where
  "nearestEven num den =
     (let m = num div den; r = num mod den
      in if den < 2 * r \<or> (2 * r = den \<and> odd m) then m + 1 else m)"

fun bitlen :: "nat \<Rightarrow> nat" where
  "bitlen n = (if n = 0 then 0 else 1 + bitlen (n div 2))"

declare bitlen.simps [simp del]

text \<open>
  The double nearest to a non-negative integer (53 significant bits, ties to even), as
  an integer. An integer that rounds beyond the largest double gives \<open>Infinity\<close>, which
  is the value \<open>2^1024\<close> here: it is above every finite double and equal to itself,
  as \<open>Infinity\<close> is in the comparison of a sort (\<open>Infinity - Infinity\<close> is \<open>NaN\<close>,
  which \<open>sort\<close> reads as 0).
\<close>

definition toDouble :: "nat \<Rightarrow> nat" where
  "toDouble n =
     (if n < 2 ^ 53 then n
      else min (nearestEven n (2 ^ (bitlen n - 53)) * 2 ^ (bitlen n - 53)) (2 ^ 1024))"

text \<open>
  A finite double is written \<open>(m, e)\<close> for the number \<open>m * 2^e\<close>. \<open>roundTo53\<close>
  rounds such a number with an arbitrary integer \<open>m\<close> to 53 significant bits;
  \<open>divDouble c d\<close> is the double \<open>c / d\<close> of two positive integers below \<open>2^53\<close>.
\<close>

definition roundTo53 :: "int \<Rightarrow> int \<Rightarrow> int \<times> int" where
  "roundTo53 m e =
     (if \<bar>m\<bar> < 2 ^ 53 then (m, e)
      else
        (let s = bitlen (nat \<bar>m\<bar>) - 53;
             q = int (nearestEven (nat \<bar>m\<bar>) (2 ^ s))
         in (if m < 0 then - q else q, e + int s)))"

definition divDouble :: "nat \<Rightarrow> nat \<Rightarrow> int \<times> int" where
  "divDouble c d =
     (let k = int (bitlen c) - int (bitlen d);
          l = (if (if 0 \<le> k then d * 2 ^ nat k \<le> c else d \<le> c * 2 ^ nat (- k)) then k else k - 1);
          e = l - 52
      in (int (nearestEven (c * 2 ^ nat (- e)) d), e))"

text \<open>\<open>Math.round\<close> of the double \<open>(m, e)\<close>: \<open>floor (x + 1/2)\<close>.\<close>

definition mathRound :: "int \<times> int \<Rightarrow> int" where
  "mathRound x =
     (case x of (m, e) \<Rightarrow>
        if 0 \<le> e then m * 2 ^ nat e else (m + 2 ^ (nat (- e) - 1)) div 2 ^ nat (- e))"

section \<open>Responses\<close>

datatype json =
  JNull | JBool bool | JNum int | JStr string | JArr "json list" | JObj "(string \<times> json) list"

text \<open>
  What a handler sends: \<open>res.status(n).json(v)\<close>, \<open>res.status(n).send(text)\<close>, or
  \<open>res.download(path, name)\<close> streaming the file at \<open>path\<close>.
\<close>

datatype response = Json nat json | Send nat string | Download string string

fun status :: "response \<Rightarrow> nat" where
  "status (Json n v) = n"
| "status (Send n t) = n"
| "status (Download p name) = 200"

fun jfield :: "string \<Rightarrow> json \<Rightarrow> json option" where
  "jfield k (JObj kvs) = map_of kvs k"
| "jfield k v = None"

fun field :: "string \<Rightarrow> response \<Rightarrow> json option" where
  "field k (Json n v) = jfield k v"
| "field k r = None"

section \<open>Node's \<open>path\<close> module (POSIX)\<close>

text \<open>
  The functions of \<open>path\<close> the handlers call, following Node's \<open>path.posix\<close>:
  a path is split at \<open>/\<close>, empty and \<open>.\<close> segments are dropped, and \<open>..\<close> removes
  the segment before it (above the start of a relative path it is kept, above the root
  of an absolute path it is dropped).
\<close>

type_synonym path = string

fun segments :: "string \<Rightarrow> string list" where
  "segments [] = [[]]"
| "segments (c # cs) =
     (if c = CHR ''/'' then [] # segments cs
      else (case segments cs of [] \<Rightarrow> [[c]] | s # ss \<Rightarrow> (c # s) # ss))"

fun joinWith :: "string \<Rightarrow> string list \<Rightarrow> string" where
  "joinWith sep [] = []"
| "joinWith sep [s] = s"
| "joinWith sep (s # t # ss) = s @ sep @ joinWith sep (t # ss)"

definition normStep :: "bool \<Rightarrow> string list \<Rightarrow> string \<Rightarrow> string list" where
  "normStep allowAboveRoot res seg =
     (if seg = [] \<or> seg = ''.'' then res
      else if seg = ''..'' then
        (if res \<noteq> [] \<and> last res \<noteq> ''..'' then butlast res
         else if allowAboveRoot then res @ [''..''] else res)
      else res @ [seg])"

definition normalizeString :: "string \<Rightarrow> bool \<Rightarrow> string" where
  "normalizeString p allowAboveRoot =
     joinWith ''/'' (foldl (normStep allowAboveRoot) [] (segments p))"

definition path_isAbsolute :: "path \<Rightarrow> bool" where
  "path_isAbsolute p = (p \<noteq> [] \<and> hd p = CHR ''/'')"

definition path_normalize :: "path \<Rightarrow> path" where
  "path_normalize p =
     (if p = [] then ''.''
      else
        let isAbsolute = path_isAbsolute p;
            trailingSeparator = (last p = CHR ''/'');
            q = normalizeString p (\<not> isAbsolute)
        in if q = [] then (if isAbsolute then ''/'' else if trailingSeparator then ''./'' else ''.'')
           else (if isAbsolute then ''/'' else []) @ q @ (if trailingSeparator then ''/'' else []))"

definition path_join :: "path list \<Rightarrow> path" where
  "path_join args =
     (let joined = joinWith ''/'' (filter (\<lambda>a. a \<noteq> []) args)
      in if joined = [] then ''.'' else path_normalize joined)"

text \<open>\<open>path.resolve(p)\<close> with one argument; \<open>cwd\<close> is the absolute \<open>process.cwd()\<close>.\<close>

definition path_resolve :: "path \<Rightarrow> path \<Rightarrow> path" where
  "path_resolve cwd p =
     CHR ''/'' # normalizeString (if path_isAbsolute p then p
                                 else if p = [] then cwd else cwd @ ''/'' @ p) False"

definition path_basename :: "path \<Rightarrow> string" where
  "path_basename p =
     rev (takeWhile (\<lambda>c. c \<noteq> CHR ''/'') (dropWhile (\<lambda>c. c = CHR ''/'') (rev p)))"

definition path_extname :: "path \<Rightarrow> string" where
  "path_extname p =
     (let b = path_basename p;
          e = rev (takeWhile (\<lambda>c. c \<noteq> CHR ''.'') (rev b));
          stem = take (length b - length e - 1) b
      in if CHR ''.'' \<notin> set b \<or> stem = [] \<or> b = ''..'' then [] else CHR ''.'' # e)"

text \<open>\<open>s.replace(/\\/g, '/')\<close>: every backslash becomes a slash.\<close>

definition slashes :: "string \<Rightarrow> string" where
  "slashes p = map (\<lambda>c. if c = CHR 0x5C then CHR ''/'' else c) p"

section \<open>The file system\<close>

text \<open>
  The store is an association list from normalised absolute paths to nodes, in directory
  order. The operations are those of \<open>fs.promises\<close>; each returns the error code
  (\<open>Inl\<close>) or its result. \<open>wr\<close> is the environment's answer to "can this path be
  written": a write to a path it refuses fails with \<open>EACCES\<close>. An \<open>unlink\<close> fails only
  when there is no file at the path.
\<close>

type_synonym bytes = "nat list"

datatype node = File bytes | Dir

type_synonym fsys = "(path \<times> node) list"

definition access :: "fsys \<Rightarrow> path \<Rightarrow> string + unit" where
  "access fs p = (case map_of fs p of None \<Rightarrow> Inl ''ENOENT'' | Some n \<Rightarrow> Inr ())"

definition readFile :: "fsys \<Rightarrow> path \<Rightarrow> string + bytes" where
  "readFile fs p =
     (case map_of fs p of
        None \<Rightarrow> Inl ''ENOENT''
      | Some Dir \<Rightarrow> Inl ''EISDIR''
      | Some (File b) \<Rightarrow> Inr b)"

text \<open>\<open>(await fsp.stat(p)).size\<close>; no handler reads the size of a directory.\<close>

definition stat_size :: "fsys \<Rightarrow> path \<Rightarrow> string + nat" where
  "stat_size fs p =
     (case map_of fs p of
        None \<Rightarrow> Inl ''ENOENT''
      | Some Dir \<Rightarrow> Inr 0
      | Some (File b) \<Rightarrow> Inr (length b))"

definition writeFile :: "(path \<Rightarrow> bool) \<Rightarrow> fsys \<Rightarrow> path \<Rightarrow> bytes \<Rightarrow> string + fsys" where
  "writeFile wr fs p b =
     (if \<not> wr p then Inl ''EACCES''
      else case map_of fs p of
        Some Dir \<Rightarrow> Inl ''EISDIR''
      | _ \<Rightarrow> Inr (AList.update p (File b) fs))"

definition copyFile :: "(path \<Rightarrow> bool) \<Rightarrow> fsys \<Rightarrow> path \<Rightarrow> path \<Rightarrow> string + fsys" where
  "copyFile wr fs src dst =
     (case readFile fs src of
        Inl e \<Rightarrow> Inl e
      | Inr b \<Rightarrow> writeFile wr fs dst b)"

definition unlink :: "fsys \<Rightarrow> path \<Rightarrow> string + fsys" where
  "unlink fs p =
     (case map_of fs p of
        None \<Rightarrow> Inl ''ENOENT''
      | Some Dir \<Rightarrow> Inl ''EISDIR''
      | Some (File b) \<Rightarrow> Inr (AList.delete p fs))"

text \<open>\<open>fsp.unlink(p).catch(e => console.error(...))\<close>: a failure is logged and dropped.\<close>

definition unlinkQuiet :: "fsys \<Rightarrow> path \<Rightarrow> fsys" where
  "unlinkQuiet fs p = (case unlink fs p of Inl e \<Rightarrow> fs | Inr fs' \<Rightarrow> fs')"

text \<open>\<open>Promise.all(tempFiles.map(file => fsp.unlink(file).catch(...)))\<close>.\<close>

definition unlinkAll :: "fsys \<Rightarrow> path list \<Rightarrow> fsys" where
  "unlinkAll fs ps = foldl unlinkQuiet fs ps"

text \<open>\<open>fsp.mkdir(p, { recursive: true })\<close>: an existing directory is not an error.\<close>

definition mkdir_recursive :: "(path \<Rightarrow> bool) \<Rightarrow> fsys \<Rightarrow> path \<Rightarrow> string + fsys" where
  "mkdir_recursive wr fs p =
     (case map_of fs p of
        Some Dir \<Rightarrow> Inr fs
      | Some (File b) \<Rightarrow> Inl ''EEXIST''
      | None \<Rightarrow> if wr p then Inr (AList.update p Dir fs) else Inl ''EACCES'')"

definition isChild :: "path \<Rightarrow> path \<Rightarrow> bool" where
  "isChild dir p =
     (startsWith p (dir @ ''/'') \<and> drop (length dir + 1) p \<noteq> []
      \<and> CHR ''/'' \<notin> set (drop (length dir + 1) p))"

definition readdir :: "fsys \<Rightarrow> path \<Rightarrow> string + string list" where
  "readdir fs dir =
     (case map_of fs dir of
        None \<Rightarrow> Inl ''ENOENT''
      | Some (File b) \<Rightarrow> Inl ''ENOTDIR''
      | Some Dir \<Rightarrow>
          Inr (map (\<lambda>kv. drop (length dir + 1) (fst kv)) (filter (\<lambda>kv. isChild dir (fst kv)) fs)))"

text \<open>\<open>fs.rm(dir, { recursive: true, force: true })\<close>: the directory and all below it.\<close>

definition rm_recursive :: "fsys \<Rightarrow> path \<Rightarrow> fsys" where
  "rm_recursive fs dir =
     filter (\<lambda>kv. fst kv \<noteq> dir \<and> \<not> startsWith (fst kv) (dir @ ''/'')) fs"

text \<open>
  The callback API of \<open>fs\<close> (\<open>require('fs')\<close>, not \<open>require('fs').promises\<close>):
  \<open>fs.readdir(path, callback)\<close> and \<open>fs.stat(path, callback)\<close> check their callback
  before anything else and throw a \<open>TypeError\<close> (code \<open>ERR_INVALID_ARG_TYPE\<close>) when it is
  not a function; with a callback they hand the result to it and return \<open>undefined\<close>.
  The argument \<open>cb\<close> says whether a callback was passed; \<open>invalidCallback\<close> is the
  \<open>message\<close> of the error.
\<close>

definition invalidCallback :: string where
  "invalidCallback =
     ''The '' @ [CHR 0x22] @ ''cb'' @ [CHR 0x22] @
     '' argument must be of type function. Received undefined''"

definition fs_readdir :: "fsys \<Rightarrow> path \<Rightarrow> bool \<Rightarrow> string + string list option" where
  "fs_readdir fs p cb = (if cb then Inr None else Inl invalidCallback)"

definition fs_stat :: "fsys \<Rightarrow> path \<Rightarrow> bool \<Rightarrow> string + nat option" where
  "fs_stat fs p cb = (if cb then Inr None else Inl invalidCallback)"

section \<open>Upload intake\<close>

text \<open>
  One uploaded part as multer attaches it to the request (\<open>fsize\<close> is its \<open>size\<close>).
\<close>

record upload =
  fieldname :: string
  originalname :: string
  mimetype :: string
  fsize :: nat
  path :: path

text \<open>
  \<open>storage.filename\<close> of \<open>middleware/upload.js\<close>:
  \<open>file.fieldname + '-' + Date.now() + path.extname(file.originalname)\<close>.
\<close>

definition storage_filename :: "string \<Rightarrow> string \<Rightarrow> nat \<Rightarrow> string" where
  "storage_filename fieldname' originalname' now =
     fieldname' @ ''-'' @ showNat now @ path_extname originalname'"

text \<open>\<open>uploadDir = path.join(__dirname, '..', 'uploads')\<close>.\<close>

definition uploadDir_of :: "path \<Rightarrow> path" where
  "uploadDir_of dirname = path_join [dirname, ''..'', ''uploads'']"

text \<open>
  The name of a generated PDF, \<open>`<prefix>-${Date.now()}.pdf`\<close>:
  \<open>merged-\<close>, \<open>compressed-\<close>, \<open>image-pdf-\<close>, \<open>protected-\<close>, \<open>unprotected-\<close>
  and, with the page number in the prefix, \<open>split-page-<n>-\<close>.
\<close>

definition artifactName :: "string \<Rightarrow> nat \<Rightarrow> string" where
  "artifactName prefix now = prefix @ ''-'' @ showNat now @ ''.pdf''"

section \<open>Download\<close>

text \<open>
  \<open>res.download(absolutePath, path.basename(absolutePath), cb)\<close>: the file is streamed;
  when the path is not a regular file the callback answers 500.
\<close>

definition res_download :: "fsys \<Rightarrow> path \<Rightarrow> response" where
  "res_download fs absolutePath =
     (case map_of fs absolutePath of
        Some (File b) \<Rightarrow> Download absolutePath (path_basename absolutePath)
      | _ \<Rightarrow> Send 500 ''Error downloading file'')"

text \<open>The fallback scan of lines 349-355: the first directory entry equal to the basename.\<close>

fun scanByBasename :: "path \<Rightarrow> string \<Rightarrow> string list \<Rightarrow> path \<Rightarrow> path" where
  "scanByBasename uploadDir basename [] absolutePath = absolutePath"
| "scanByBasename uploadDir basename (file # files) absolutePath =
     (if file = basename then path_join [uploadDir, file]
      else scanByBasename uploadDir basename files absolutePath)"

text \<open>
  \<open>downloadFile\<close> (lines 310-378). \<open>query_file\<close> is \<open>req.query.file\<close>;
  \<open>decodeURIComponent\<close> is the built-in, which throws a \<open>URIError\<close> (\<open>Inl\<close>) on a
  malformed escape and turns \<open>undefined\<close> into the string \<open>undefined\<close>.
\<close>

definition downloadFile ::
  "path \<Rightarrow> path \<Rightarrow> (string \<Rightarrow> string + string) \<Rightarrow> fsys \<Rightarrow> string option \<Rightarrow> response" where
  "downloadFile cwd uploadDir decodeURIComponent fs query_file =
     (case decodeURIComponent (case query_file of None \<Rightarrow> ''undefined'' | Some s \<Rightarrow> s) of
        Inl e \<Rightarrow> Send 500 ''Error downloading file''
      | Inr filePath \<Rightarrow>
          if filePath = [] then Send 400 ''File query parameter is missing''
          else
            let absolutePath =
                  (if path_isAbsolute filePath then
                     (let absolutePath = path_normalize filePath;
                          uploadsDir = path_resolve cwd uploadDir
                      in if \<not> startsWith absolutePath uploadsDir
                         then path_join [uploadDir, path_basename filePath]
                         else absolutePath)
                   else path_join [uploadDir, filePath])
            in (case access fs absolutePath of
                  Inr u \<Rightarrow> res_download fs absolutePath
                | Inl err \<Rightarrow>
                    (case readdir fs uploadDir of
                       Inl fallbackErr \<Rightarrow> Send 404 ''File not found''
                     | Inr files \<Rightarrow>
                         let absolutePath' =
                               scanByBasename uploadDir (path_basename filePath) files absolutePath
                         in (case access fs absolutePath' of
                               Inl fallbackErr \<Rightarrow> Send 404 ''File not found''
                             | Inr u \<Rightarrow> res_download fs absolutePath'))))"

text \<open>A path lies inside the store root when it is below the root directory.\<close>

definition insideRoot :: "path \<Rightarrow> path \<Rightarrow> bool" where
  "insideRoot uploadDir p = (startsWith p (uploadDir @ ''/'') \<and> ''..'' \<notin> set (segments p))"

section \<open>Listing merged PDFs\<close>

text \<open>
  \<open>listMergedPDFs\<close> (lines 16-46). It awaits \<open>fs.readdir(uploadDir)\<close> and
  \<open>fs.stat(...)\<close> of the callback API, passing no callback. An awaited \<open>undefined\<close>
  (\<open>None\<close>) cannot be iterated, and reading \<open>mtime\<close> of it throws; an entry whose
  \<open>stat\<close> throws is skipped. The date of an entry is its \<open>mtime\<close>.
\<close>

fun listLoop :: "path \<Rightarrow> fsys \<Rightarrow> string list \<Rightarrow> json list" where
  "listLoop uploadDir fs [] = []"
| "listLoop uploadDir fs (file # files) =
     (if endsWith file ''.pdf'' \<and> startsWith file ''merged-'' then
        (case fs_stat fs (path_join [uploadDir, file]) False of
           Inl err \<Rightarrow> listLoop uploadDir fs files
         | Inr None \<Rightarrow> listLoop uploadDir fs files
         | Inr (Some mtime) \<Rightarrow>
             JObj [(''name'', JStr file), (''url'', JStr (''/uploads/'' @ file)),
                   (''date'', JNum (int mtime))]
               # listLoop uploadDir fs files)
      else listLoop uploadDir fs files)"

definition listMergedPDFs :: "path \<Rightarrow> fsys \<Rightarrow> response" where
  "listMergedPDFs uploadDir fs =
     (case fs_readdir fs uploadDir False of
        Inl message \<Rightarrow>
          Json 500 (JObj [(''error'', JStr ''Failed to list merged PDFs''),
                          (''details'', JStr message)])
      | Inr None \<Rightarrow>
          Json 500 (JObj [(''error'', JStr ''Failed to list merged PDFs''),
                          (''details'', JStr ''files is not iterable'')])
      | Inr (Some files) \<Rightarrow> Json 200 (JArr (listLoop uploadDir fs files)))"

section \<open>The PDF library (pdf-lib)\<close>

text \<open>
  A loaded document is its pages (opaque page contents) and its information dictionary.
  Parsing and serialising are the library's: \<open>pdf_load\<close> is
  \<open>PDFDocument.load(bytes, options)\<close> (the flag says whether the lenient options of
  \<open>compressPDF\<close> are passed) and \<open>pdf_save\<close> is \<open>doc.save(options)\<close>; either may
  throw (\<open>Inl\<close> with the message).
\<close>

type_synonym page = nat

record pdfdoc =
  pages :: "page list"
  info :: "(string \<times> string) list"

record saveOptions =
  useObjectStreams :: bool
  objectsPerStream :: nat

record pdflib =
  pdf_load :: "bool \<Rightarrow> bytes \<Rightarrow> string + pdfdoc"
  pdf_save :: "saveOptions \<Rightarrow> pdfdoc \<Rightarrow> string + bytes"

definition defaultSave :: saveOptions where
  "defaultSave = \<lparr>useObjectStreams = True, objectsPerStream = 50\<rparr>"

definition PDFDocument_create :: pdfdoc where
  "PDFDocument_create = \<lparr>pages = [], info = []\<rparr>"

text \<open>\<open>dst.copyPages(src, indices)\<close> followed by \<open>addPage\<close> of each copy.\<close>

definition copyPages :: "pdfdoc \<Rightarrow> nat list \<Rightarrow> page list" where
  "copyPages src indices = map (\<lambda>i. pages src ! i) (filter (\<lambda>i. i < length (pages src)) indices)"

definition addPages :: "pdfdoc \<Rightarrow> page list \<Rightarrow> pdfdoc" where
  "addPages doc ps = doc\<lparr>pages := pages doc @ ps\<rparr>"

section \<open>Ordering resolution\<close>

text \<open>
  White space at the start of a string, as \<open>parseInt\<close> skips it: the ASCII white
  space and line terminators, and the UTF-8 encodings of U+00A0, U+1680, U+2000 to
  U+200A, U+2028, U+2029, U+202F, U+205F, U+3000 and U+FEFF. \<open>spaceLen\<close> is the
  number of bytes of the white-space character a string starts with, or 0.
\<close>

definition spaceLen :: "string \<Rightarrow> nat" where
  "spaceLen s =
     (if take 1 s \<in> set [[CHR 0x09], [CHR 0x0A], [CHR 0x0B], [CHR 0x0C], [CHR 0x0D], [CHR 0x20]]
      then 1
      else if take 2 s = [CHR 0xC2, CHR 0xA0] then 2
      else if take 3 s \<in> set
          [[CHR 0xE1, CHR 0x9A, CHR 0x80],
           [CHR 0xE2, CHR 0x80, CHR 0x80], [CHR 0xE2, CHR 0x80, CHR 0x81],
           [CHR 0xE2, CHR 0x80, CHR 0x82], [CHR 0xE2, CHR 0x80, CHR 0x83],
           [CHR 0xE2, CHR 0x80, CHR 0x84], [CHR 0xE2, CHR 0x80, CHR 0x85],
           [CHR 0xE2, CHR 0x80, CHR 0x86], [CHR 0xE2, CHR 0x80, CHR 0x87],
           [CHR 0xE2, CHR 0x80, CHR 0x88], [CHR 0xE2, CHR 0x80, CHR 0x89],
           [CHR 0xE2, CHR 0x80, CHR 0x8A], [CHR 0xE2, CHR 0x80, CHR 0xA8],
           [CHR 0xE2, CHR 0x80, CHR 0xA9], [CHR 0xE2, CHR 0x80, CHR 0xAF],
           [CHR 0xE2, CHR 0x81, CHR 0x9F], [CHR 0xE3, CHR 0x80, CHR 0x80],
           [CHR 0xEF, CHR 0xBB, CHR 0xBF]]
      then 3
      else 0)"

function skipSpace :: "string \<Rightarrow> string" where
  "skipSpace s = (if spaceLen s = 0 then s else skipSpace (drop (spaceLen s) s))"
  by pat_completeness auto
termination
proof (relation "measure length")
  show "wf (measure length)" by simp
next
  fix s :: string
  assume "spaceLen s \<noteq> 0"
  then have "s \<noteq> []" and "0 < spaceLen s"
    by (auto simp: spaceLen_def)
  then show "(drop (spaceLen s) s, s) \<in> measure length" by simp
qed

declare skipSpace.simps [simp del]

text \<open>
  \<open>parseInt(s)\<close> of an optional form field: leading white space, a sign, then either
  \<open>0x\<close> and hexadecimal digits or decimal digits; \<open>None\<close> is \<open>NaN\<close>. A missing
  field (\<open>undefined\<close>) gives \<open>NaN\<close>. The result is the double nearest to the integer
  read (\<open>toDouble\<close>), with its sign.
\<close>

definition isDigit :: "char \<Rightarrow> bool" where
  "isDigit c = (c \<in> set ''0123456789'')"

definition hexVal :: "char \<Rightarrow> nat option" where
  "hexVal c =
     map_of (zip ''0123456789abcdefABCDEF''
               [0, 1, 2, 3, 4, 5, 6, 7, 8, 9, 10, 11, 12, 13, 14, 15, 10, 11, 12, 13, 14, 15]) c"

definition readHex :: "string \<Rightarrow> nat" where
  "readHex s = foldl (\<lambda>a c. 16 * a + (case hexVal c of None \<Rightarrow> 0 | Some v \<Rightarrow> v)) 0 s"

definition parseDigits :: "string \<Rightarrow> nat option" where
  "parseDigits u =
     (if startsWith u ''0x'' \<or> startsWith u ''0X'' then
        (let ds = takeWhile (\<lambda>c. hexVal c \<noteq> None) (drop 2 u)
         in if ds = [] then None else Some (readHex ds))
      else
        (let ds = takeWhile isDigit u in if ds = [] then None else Some (readNat ds)))"

definition parseInt :: "string option \<Rightarrow> int option" where
  "parseInt v =
     (case v of
        None \<Rightarrow> None
      | Some s \<Rightarrow>
          (case skipSpace s of
             [] \<Rightarrow> None
           | c # cs \<Rightarrow>
               if c = CHR ''-'' then map_option (\<lambda>n. - int (toDouble n)) (parseDigits cs)
               else if c = CHR ''+'' then map_option (\<lambda>n. int (toDouble n)) (parseDigits cs)
               else map_option (\<lambda>n. int (toDouble n)) (parseDigits (c # cs))))"

text \<open>
  Lines 66-73 (\<open>mergePDFs\<close>) and 660-667 (\<open>imageToPDF\<close>): each file is paired with
  \<open>parseInt(req.body['order_' + k])\<close>, \<open>k\<close> the number of files collected so far, or
  with \<open>k\<close> itself when that is \<open>NaN\<close>. \<open>body\<close> gives a field of the form as
  the string \<open>parseInt\<close> reads (it applies \<open>ToString\<close> to its argument), and
  \<open>None\<close> for a field that is absent.
\<close>

fun collectOrdered ::
  "(string \<Rightarrow> string option) \<Rightarrow> upload list \<Rightarrow> (upload \<times> int) list \<Rightarrow> (upload \<times> int) list" where
  "collectOrdered body [] orderedFiles = orderedFiles"
| "collectOrdered body (file # files) orderedFiles =
     (let orderIndex = parseInt (body (''order_'' @ showNat (length orderedFiles)))
      in collectOrdered body files
           (orderedFiles @
              [(file, case orderIndex of None \<Rightarrow> int (length orderedFiles) | Some k \<Rightarrow> k)]))"

text \<open>\<open>orderedFiles.sort((a, b) => a.order - b.order)\<close>; the sort is stable.\<close>

definition sortByOrder :: "(upload \<times> int) list \<Rightarrow> (upload \<times> int) list" where
  "sortByOrder orderedFiles = sort_key snd orderedFiles"

definition orderFiles :: "(string \<Rightarrow> string option) \<Rightarrow> upload list \<Rightarrow> upload list" where
  "orderFiles body files = map fst (sortByOrder (collectOrdered body files []))"

section \<open>Merge\<close>

text \<open>
  The loop of lines 79-121 over the ordered files. It carries the merged document and
  \<open>tempFiles\<close>; a throw (\<open>Inl\<close>) carries the message of the re-thrown error and
  \<open>tempFiles\<close> as they are at that moment. (\<open>fileDetails\<close> is only logged.)
\<close>

definition processFailed :: "upload \<Rightarrow> string \<Rightarrow> string" where
  "processFailed file message = ''Failed to process '' @ originalname file @ '': '' @ message"

fun mergeLoop ::
  "pdflib \<Rightarrow> fsys \<Rightarrow> upload list \<Rightarrow> pdfdoc \<Rightarrow> path list
     \<Rightarrow> (string \<times> path list) + (pdfdoc \<times> path list)" where
  "mergeLoop lib fs [] mergedPdf tempFiles = Inr (mergedPdf, tempFiles)"
| "mergeLoop lib fs (file # files) mergedPdf tempFiles =
     (if \<not> str_includes (mimetype file) ''pdf''
      then Inl (processFailed file (''Invalid file type: '' @ mimetype file), tempFiles)
      else
        (case readFile fs (path file) of
           Inl err \<Rightarrow> Inl (processFailed file err, tempFiles)
         | Inr pdfBytes \<Rightarrow>
             (case pdf_load lib False pdfBytes of
                Inl err \<Rightarrow> Inl (processFailed file err, tempFiles @ [path file])
              | Inr pdfDoc \<Rightarrow>
                  if length (pages pdfDoc) = 0
                  then Inl (processFailed file ''PDF contains no pages'', tempFiles @ [path file])
                  else mergeLoop lib fs files
                         (addPages mergedPdf (copyPages pdfDoc [0..<length (pages pdfDoc)]))
                         (tempFiles @ [path file]))))"

definition mergeFailed :: "string \<Rightarrow> response" where
  "mergeFailed message =
     Json 500 (JObj [(''error'', JStr ''PDF merge operation failed''),
                     (''details'', JStr message),
                     (''suggestion'', JStr ''Please ensure all files are valid PDFs and try again'')])"

text \<open>
  \<open>mergePDFs\<close> (lines 49-184). \<open>files\<close> is \<open>req.files\<close>, \<open>body\<close> is \<open>req.body\<close>,
  \<open>now\<close> is the value of \<open>Date.now()\<close> at line 125. The result is the response and the
  file system when it is sent.
\<close>

definition mergeTooFew :: "nat \<Rightarrow> response" where
  "mergeTooFew n =
     Json 400 (JObj [(''error'', JStr ''At least 2 PDFs required for merging''),
                     (''details'', JStr (''Received '' @ showNat n @ '' files''))])"

definition mergePDFs ::
  "pdflib \<Rightarrow> (path \<Rightarrow> bool) \<Rightarrow> path \<Rightarrow> path \<Rightarrow> nat \<Rightarrow> fsys \<Rightarrow> upload list option
     \<Rightarrow> (string \<Rightarrow> string option) \<Rightarrow> response \<times> fsys" where
  "mergePDFs lib wr cwd uploadDir now fs files body =
     (case files of
        None \<Rightarrow> (mergeTooFew 0, fs)
      | Some fl \<Rightarrow>
          if length fl < 2 then (mergeTooFew (length fl), fs)
          else
            (case mergeLoop lib fs (orderFiles body fl) PDFDocument_create [] of
               Inl (message, tempFiles) \<Rightarrow> (mergeFailed message, unlinkAll fs tempFiles)
             | Inr (mergedPdf, tempFiles) \<Rightarrow>
                 (case pdf_save lib defaultSave mergedPdf of
                    Inl message \<Rightarrow> (mergeFailed message, unlinkAll fs tempFiles)
                  | Inr mergedPdfBytes \<Rightarrow>
                      (let outputFilename = artifactName ''merged'' now;
                           outputPath = path_join [uploadDir, outputFilename];
                           absolutePath = path_resolve cwd outputPath
                       in case mkdir_recursive wr fs uploadDir of
                            Inl message \<Rightarrow> (mergeFailed message, unlinkAll fs tempFiles)
                          | Inr fs1 \<Rightarrow>
                              (case writeFile wr fs1 outputPath mergedPdfBytes of
                                 Inl message \<Rightarrow> (mergeFailed message, unlinkAll fs1 tempFiles)
                               | Inr fs2 \<Rightarrow>
                                   (Json 200 (JObj
                                      [(''mergedPdfPath'', JStr absolutePath),
                                       (''url'', JStr (''/uploads/'' @ outputFilename)),
                                       (''message'', JStr ''PDFs merged successfully''),
                                       (''details'', JObj
                                          [(''totalPages'', JNum (int (length (pages mergedPdf)))),
                                           (''fileCount'', JNum (int (length fl)))])]),
                                    fs2))))))"

section \<open>Split\<close>

text \<open>
  Deferred cleanup: \<open>setTimeout(..., delay)\<close> leaves a timer behind; it runs after the
  response, when \<open>delay\<close> milliseconds have passed.
\<close>

datatype cleanup = Unlink path | RmDir path

type_synonym timer = "nat \<times> cleanup list"

fun runCleanup :: "fsys \<Rightarrow> cleanup \<Rightarrow> fsys" where
  "runCleanup fs (Unlink p) = unlinkQuiet fs p"
| "runCleanup fs (RmDir p) = rm_recursive fs p"

definition fireTimer :: "fsys \<Rightarrow> timer \<Rightarrow> fsys" where
  "fireTimer fs t = foldl runCleanup fs (snd t)"

text \<open>
  One turn of the loop of lines 236-267 for page index \<open>i\<close>: the body of the \<open>try\<close>.
  \<open>None\<close> is a caught error (the page is skipped); the file system comes back in both
  cases, since \<open>mkdir\<close> may have run before the failure.
\<close>

definition splitEntry :: "path \<Rightarrow> path \<Rightarrow> string \<Rightarrow> nat \<Rightarrow> bytes \<Rightarrow> json" where
  "splitEntry cwd outputPath outputFilename i splitPdfBytes =
     JObj [(''fullPath'', JStr (slashes (path_resolve cwd outputPath))),
           (''pageNumber'', JNum (int (i + 1))),
           (''filename'', JStr outputFilename),
           (''url'', JStr (''/uploads/'' @ outputFilename)),
           (''size'', JNum (int (length splitPdfBytes)))]"

definition splitPage ::
  "pdflib \<Rightarrow> (path \<Rightarrow> bool) \<Rightarrow> path \<Rightarrow> path \<Rightarrow> (nat \<Rightarrow> nat) \<Rightarrow> pdfdoc \<Rightarrow> nat \<Rightarrow> fsys
     \<Rightarrow> fsys \<times> (json \<times> path) option" where
  "splitPage lib wr cwd uploadDir now pdfDoc i fs =
     (let newPdf = addPages PDFDocument_create (copyPages pdfDoc [i])
      in case pdf_save lib \<lparr>useObjectStreams = False, objectsPerStream = 50\<rparr> newPdf of
           Inl err \<Rightarrow> (fs, None)
         | Inr splitPdfBytes \<Rightarrow>
             (let outputFilename = artifactName (''split-page-'' @ showNat (i + 1)) (now i);
                  outputPath = path_join [uploadDir, outputFilename]
              in case mkdir_recursive wr fs uploadDir of
                   Inl err \<Rightarrow> (fs, None)
                 | Inr fs1 \<Rightarrow>
                     (case writeFile wr fs1 outputPath splitPdfBytes of
                        Inl err \<Rightarrow> (fs1, None)
                      | Inr fs2 \<Rightarrow>
                          (fs2, Some (splitEntry cwd outputPath outputFilename i splitPdfBytes,
                                      outputPath)))))"

fun splitLoop ::
  "pdflib \<Rightarrow> (path \<Rightarrow> bool) \<Rightarrow> path \<Rightarrow> path \<Rightarrow> (nat \<Rightarrow> nat) \<Rightarrow> pdfdoc \<Rightarrow> nat list
     \<Rightarrow> fsys \<times> json list \<times> path list \<Rightarrow> fsys \<times> json list \<times> path list" where
  "splitLoop lib wr cwd uploadDir now pdfDoc [] st = st"
| "splitLoop lib wr cwd uploadDir now pdfDoc (i # is) (fs, splitResults, tempFiles) =
     (case splitPage lib wr cwd uploadDir now pdfDoc i fs of
        (fs', None) \<Rightarrow> splitLoop lib wr cwd uploadDir now pdfDoc is (fs', splitResults, tempFiles)
      | (fs', Some (entry, outputPath)) \<Rightarrow>
          splitLoop lib wr cwd uploadDir now pdfDoc is
            (fs', splitResults @ [entry], tempFiles @ [outputPath]))"

text \<open>
  \<open>splitPDF\<close> (lines 187-307). \<open>file\<close> is \<open>req.file\<close>; \<open>now i\<close> is \<open>Date.now()\<close>
  when page index \<open>i\<close> is named. The result is the response, the file system when it is
  sent, and the timers left running.
\<close>

definition splitPDF ::
  "pdflib \<Rightarrow> (path \<Rightarrow> bool) \<Rightarrow> path \<Rightarrow> path \<Rightarrow> (nat \<Rightarrow> nat) \<Rightarrow> fsys \<Rightarrow> upload option
     \<Rightarrow> response \<times> fsys \<times> timer list" where
  "splitPDF lib wr cwd uploadDir now fs file =
     (case file of
        None \<Rightarrow> (Json 400 (JObj [(''error'', JStr ''No PDF file uploaded'')]), fs, [])
      | Some f \<Rightarrow>
          if \<not> str_includes (mimetype f) ''pdf'' then
            (Json 400 (JObj [(''error'', JStr ''Only PDF files are allowed'')]),
             unlinkQuiet fs (path f), [])
          else
            (case access fs (path f) of
               Inl err \<Rightarrow>
                 (Json 400 (JObj [(''error'', JStr ''Uploaded file is not accessible'')]), fs, [])
             | Inr u \<Rightarrow>
                 (case (case readFile fs (path f) of
                          Inl err \<Rightarrow> Inl err
                        | Inr pdfBytes \<Rightarrow> pdf_load lib False pdfBytes) of
                    Inl err \<Rightarrow>
                      (Json 400 (JObj [(''error'', JStr ''Invalid or corrupted PDF file'')]),
                       unlinkQuiet fs (path f), [])
                  | Inr pdfDoc \<Rightarrow>
                      (let pageCount = length (pages pdfDoc)
                       in if pageCount \<le> 1 then
                            (Json 400 (JObj
                               [(''error'', JStr ''PDF must have more than one page to split'')]),
                             unlinkQuiet fs (path f), [])
                          else
                            (case splitLoop lib wr cwd uploadDir now pdfDoc [0..<pageCount]
                                    (fs, [], [path f]) of
                               (fs', splitResults, tempFiles) \<Rightarrow>
                                 if length splitResults = 0 then
                                   (Json 500 (JObj
                                      [(''error'', JStr ''Failed to split any pages''),
                                       (''details'', JStr ''All page splitting attempts failed'')]),
                                    unlinkAll fs' tempFiles, [])
                                 else
                                   (Json 200 (JObj
                                      [(''success'', JBool True),
                                       (''message'', JStr (''PDF split into '' @
                                          showNat (length splitResults) @ '' pages'')),
                                       (''pages'', JArr splitResults),
                                       (''originalFile'', JStr (originalname f))]),
                                    fs', [(3600000, map Unlink tempFiles)]))))))"

section \<open>Compress\<close>

text \<open>
  \<open>Math.round(size / 1024)\<close>: the division by a power of two is exact and
  \<open>Math.round\<close> rounds a half up.
\<close>

definition sizeKB :: "nat \<Rightarrow> nat" where
  "sizeKB n = (n + 512) div 1024"

text \<open>
  \<open>Math.round((1 - compressedStats.size / fileStats.size) * 100)\<close> of line 539 for a
  non-empty original, each operation rounded to a double: the quotient, its difference
  from 1 and the product with 100. (Sizes are below \<open>2^53\<close>; an upload has at most
  100 MB.)
\<close>

definition roundedRatio :: "nat \<Rightarrow> nat \<Rightarrow> int" where
  "roundedRatio csize osize =
     (case (if csize = 0 then (0, 0) else divDouble csize osize) of
        (m, e) \<Rightarrow>
          (case roundTo53 (2 ^ nat (- e) - m) e of
             (m1, e1) \<Rightarrow> mathRound (roundTo53 (m1 * 100) e1)))"

text \<open>
  The two fields computed from it (lines 548-554). For an empty original the quotient is
  \<open>NaN\<close> (both sizes 0; \<open>Math.max(0, NaN)\<close> is \<open>NaN\<close>, sent as \<open>null\<close>) or
  \<open>-Infinity\<close> (reported as 0).
\<close>

definition ratioPositive :: "nat \<Rightarrow> nat \<Rightarrow> bool" where
  "ratioPositive csize osize = (osize \<noteq> 0 \<and> 0 < roundedRatio csize osize)"

definition reportedRatio :: "nat \<Rightarrow> nat \<Rightarrow> json" where
  "reportedRatio csize osize =
     (if osize = 0 then (if csize = 0 then JNull else JNum 0)
      else JNum (max 0 (roundedRatio csize osize)))"

text \<open>
  Lines 430-471: the library pass. Every error inside it is caught (\<open>pdfError\<close>) and
  the duplicate written before stays as it is.
\<close>

definition stripMetadata :: "pdfdoc \<Rightarrow> pdfdoc" where
  "stripMetadata pdfDoc =
     pdfDoc\<lparr>info :=
       AList.update ''Creator'' ''DocHelper''
        (AList.update ''Producer'' ''DocHelper''
          (AList.update ''Keywords'' []
            (AList.update ''Subject'' []
              (AList.update ''Author'' []
                (AList.update ''Title'' [] (info pdfDoc))))))\<rparr>"

definition compressionOptions :: "string \<Rightarrow> saveOptions" where
  "compressionOptions compressionLevel =
     \<lparr>useObjectStreams = True,
      objectsPerStream = (if compressionLevel = ''high'' then 100
                          else if compressionLevel = ''medium'' then 50 else 20)\<rparr>"

definition compressLibPass ::
  "pdflib \<Rightarrow> (path \<Rightarrow> bool) \<Rightarrow> fsys \<Rightarrow> path \<Rightarrow> bytes \<Rightarrow> string \<Rightarrow> fsys" where
  "compressLibPass lib wr fs outputPath pdfBytes compressionLevel =
     (case pdf_load lib True pdfBytes of
        Inl pdfError \<Rightarrow> fs
      | Inr pdfDoc \<Rightarrow>
          (case pdf_save lib (compressionOptions compressionLevel) (stripMetadata pdfDoc) of
             Inl pdfError \<Rightarrow> fs
           | Inr compressedBytes \<Rightarrow>
               if length compressedBytes < length pdfBytes then
                 (case writeFile wr fs outputPath compressedBytes of
                    Inl pdfError \<Rightarrow> fs
                  | Inr fs' \<Rightarrow> fs')
               else fs))"

text \<open>
  Lines 474-534, run for the level \<open>high\<close>: the output file is deflated (level 9)
  into a temporary file; \<open>deflate\<close> is zlib's. The test
  \<open>compressedStats.size < currentBytes.length * 0.9\<close> compares an integer with a
  double product whose error is far below the distance of \<open>0.9 * length\<close> from the
  next integer, so it is the test \<open>10 * size < 9 * length\<close>.
  Every error is caught (\<open>zlibError\<close>); the temporary file is removed only when none
  occurred after it was written.
\<close>

definition compressZlibPass ::
  "(nat \<Rightarrow> bytes \<Rightarrow> bytes) \<Rightarrow> (path \<Rightarrow> bool) \<Rightarrow> path \<Rightarrow> nat \<Rightarrow> fsys \<Rightarrow> path \<Rightarrow> fsys" where
  "compressZlibPass deflate wr uploadDir now fs outputPath =
     (case readFile fs outputPath of
        Inl zlibError \<Rightarrow> fs
      | Inr currentBytes \<Rightarrow>
          (let tempCompressedPath = path_join [uploadDir, ''temp-'' @ showNat now @ ''.bin'']
           in case writeFile wr fs tempCompressedPath (deflate 9 currentBytes) of
                Inl zlibError \<Rightarrow> fs
              | Inr fs1 \<Rightarrow>
                  (case stat_size fs1 tempCompressedPath of
                     Inl zlibError \<Rightarrow> fs1
                   | Inr compressedSize \<Rightarrow>
                       if 10 * compressedSize < 9 * length currentBytes then
                         (case readFile fs1 tempCompressedPath of
                            Inl zlibError \<Rightarrow> fs1
                          | Inr compressedData \<Rightarrow>
                              (case writeFile wr fs1 outputPath
                                      (take 1024 currentBytes @ compressedData) of
                                 Inl zlibError \<Rightarrow> fs1
                               | Inr fs2 \<Rightarrow> unlinkQuiet fs2 tempCompressedPath))
                       else unlinkQuiet fs1 tempCompressedPath)))"

definition compressFallback :: "upload \<Rightarrow> nat \<Rightarrow> string \<Rightarrow> path \<Rightarrow> response" where
  "compressFallback f originalSizeKB outputFilename fullPath =
     Json 200 (JObj
       [(''success'', JBool True),
        (''message'', JStr ''PDF could not be compressed but is available for download''),
        (''originalFile'', JStr (originalname f)),
        (''originalSize'', JNum (int originalSizeKB)),
        (''compressedSize'', JNum (int originalSizeKB)),
        (''compressionRatio'', JNum 0),
        (''url'', JStr (''/uploads/'' @ outputFilename)),
        (''fullPath'', JStr fullPath)])"

text \<open>
  The body of the \<open>try\<close> of line 417. \<open>Inl\<close> is an error that reaches the
  \<open>catch\<close> of line 559, with the file system at that moment.
\<close>

definition compressBinary ::
  "pdflib \<Rightarrow> (nat \<Rightarrow> bytes \<Rightarrow> bytes) \<Rightarrow> (path \<Rightarrow> bool) \<Rightarrow> path \<Rightarrow> path \<Rightarrow> (nat \<Rightarrow> nat) \<Rightarrow> fsys
     \<Rightarrow> upload \<Rightarrow> string \<Rightarrow> nat \<Rightarrow> bytes \<Rightarrow> string \<Rightarrow> path
     \<Rightarrow> (string \<times> fsys) + (response \<times> fsys)" where
  "compressBinary lib deflate wr cwd uploadDir now fs f compressionLevel fileSize pdfBytes
       outputFilename outputPath =
     (case copyFile wr fs (path f) outputPath of
        Inl err \<Rightarrow> Inl (err, fs)
      | Inr fs1 \<Rightarrow>
          (let fs2 = compressLibPass lib wr fs1 outputPath pdfBytes compressionLevel;
               fs3 = (if compressionLevel = ''high''
                      then compressZlibPass deflate wr uploadDir (now 485) fs2 outputPath
                      else fs2)
           in case stat_size fs3 outputPath of
                Inl err \<Rightarrow> Inl (err, fs3)
              | Inr compressedSize \<Rightarrow>
                  Inr (Json 200 (JObj
                         [(''success'', JBool True),
                          (''message'', JStr
                             (if ratioPositive compressedSize fileSize
                              then ''PDF compressed successfully - reduced by '' @
                                   showNat (nat (roundedRatio compressedSize fileSize)) @ ''%''
                              else ''PDF processed successfully (no size reduction achieved)'')),
                          (''originalFile'', JStr (originalname f)),
                          (''originalSize'', JNum (int (sizeKB fileSize))),
                          (''compressedSize'', JNum (int (sizeKB compressedSize))),
                          (''compressionRatio'', reportedRatio compressedSize fileSize),
                          (''url'', JStr (''/uploads/'' @ outputFilename)),
                          (''fullPath'', JStr (path_resolve cwd outputPath))]),
                       unlinkQuiet fs3 (path f))))"

text \<open>
  The body of the \<open>try\<close> of line 402, with the \<open>catch\<close> of line 559 inside it.
  \<open>Inl\<close> is an error that reaches the \<open>catch\<close> of line 580.
\<close>

definition compressTry ::
  "pdflib \<Rightarrow> (nat \<Rightarrow> bytes \<Rightarrow> bytes) \<Rightarrow> (path \<Rightarrow> bool) \<Rightarrow> path \<Rightarrow> path \<Rightarrow> (nat \<Rightarrow> nat) \<Rightarrow> fsys
     \<Rightarrow> upload \<Rightarrow> string \<Rightarrow> (string \<times> fsys) + (response \<times> fsys)" where
  "compressTry lib deflate wr cwd uploadDir now fs f compressionLevel =
     (case stat_size fs (path f) of
        Inl err \<Rightarrow> Inl (err, fs)
      | Inr fileSize \<Rightarrow>
          (let outputFilename = artifactName ''compressed'' (now 408);
               outputPath = path_join [uploadDir, outputFilename]
           in case readFile fs (path f) of
                Inl err \<Rightarrow> Inl (err, fs)
              | Inr pdfBytes \<Rightarrow>
                  (case compressBinary lib deflate wr cwd uploadDir now fs f compressionLevel
                          fileSize pdfBytes outputFilename outputPath of
                     Inr r \<Rightarrow> Inr r
                   | Inl (err, fsB) \<Rightarrow>
                       (case copyFile wr fsB (path f) outputPath of
                          Inl err' \<Rightarrow> Inl (err', fsB)
                        | Inr fs1 \<Rightarrow>
                            Inr (compressFallback f (sizeKB fileSize) outputFilename
                                   (path_resolve cwd outputPath),
                                 unlinkQuiet fs1 (path f))))))"

text \<open>
  \<open>compressPDF\<close> (lines 381-629). \<open>now l\<close> is \<open>Date.now()\<close> at source line \<open>l\<close>
  (408, 485 and 586); \<open>compressionLevel\<close> is the body field.
\<close>

definition compressPDF ::
  "pdflib \<Rightarrow> (nat \<Rightarrow> bytes \<Rightarrow> bytes) \<Rightarrow> (path \<Rightarrow> bool) \<Rightarrow> path \<Rightarrow> path \<Rightarrow> (nat \<Rightarrow> nat) \<Rightarrow> fsys
     \<Rightarrow> upload option \<Rightarrow> string option \<Rightarrow> response \<times> fsys" where
  "compressPDF lib deflate wr cwd uploadDir now fs file compressionLevel =
     (case file of
        None \<Rightarrow> (Json 400 (JObj [(''error'', JStr ''No PDF file uploaded'')]), fs)
      | Some f \<Rightarrow>
          if \<not> str_includes (mimetype f) ''pdf'' then
            (Json 400 (JObj [(''error'', JStr ''Only PDF files are allowed'')]),
             unlinkQuiet fs (path f))
          else
            (case compressTry lib deflate wr cwd uploadDir now fs f
                    (orDefault compressionLevel ''medium'') of
               Inr r \<Rightarrow> r
             | Inl (err, fsA) \<Rightarrow>
                 (let outputFilename = artifactName ''compressed'' (now 586);
                      outputPath = path_join [uploadDir, outputFilename];
                      failed = Json 500 (JObj [(''error'', JStr ''Failed to process PDF''),
                                               (''details'', JStr err)])
                  in case copyFile wr fsA (path f) outputPath of
                       Inl fallbackErr \<Rightarrow> (failed, unlinkQuiet fsA (path f))
                     | Inr fs1 \<Rightarrow>
                         (case stat_size fs1 (path f) of
                            Inl fallbackErr \<Rightarrow> (failed, unlinkQuiet fs1 (path f))
                          | Inr fileSize \<Rightarrow>
                              (compressFallback f (sizeKB fileSize) outputFilename
                                 (path_resolve cwd outputPath),
                               unlinkQuiet fs1 (path f))))))"

section \<open>Image to PDF: page dimensions\<close>

text \<open>
  Lines 672-704 of \<open>controllers/pdfOperations.js\<close>: the \<open>switch\<close> on
  \<open>pageSize.toLowerCase()\<close> followed by the swap for landscape. The result is
  \<open>(pageWidth, pageHeight)\<close> in points.
\<close>

definition pageSizeTable :: "string \<Rightarrow> nat \<times> nat" where
  "pageSizeTable k =
     (if k = ''a4'' then (595, 842)
      else if k = ''letter'' then (612, 792)
      else if k = ''legal'' then (612, 1008)
      else if k = ''a3'' then (842, 1191)
      else if k = ''a5'' then (420, 595)
      else (595, 842))"

definition pageDimensions :: "string \<Rightarrow> string \<Rightarrow> nat \<times> nat" where
  "pageDimensions pageSize orientation =
     (let (pageWidth, pageHeight) = pageSizeTable (toLowerCase pageSize)
      in if toLowerCase orientation = ''landscape''
         then (pageHeight, pageWidth) else (pageWidth, pageHeight))"

text \<open>The two body fields with their defaults (lines 655-656).\<close>

definition requestPageDimensions :: "string option \<Rightarrow> string option \<Rightarrow> nat \<times> nat" where
  "requestPageDimensions pageSize orientation =
     pageDimensions (orDefault pageSize ''a4'') (orDefault orientation ''portrait'')"

section \<open>Image to PDF\<close>

text \<open>
  The collaborators: \<open>sharp_metadata\<close> is \<open>sharp(path).metadata()\<close> on the file's
  bytes, \<open>kit_image\<close> says whether PDFKit's \<open>image()\<close> can embed them (it throws
  otherwise), and \<open>kit_render\<close> is the byte stream PDFKit produces for a document. A
  PDFKit page is its size and the upload embedded on it, if any; where the image is laid
  out on the page (a floating-point scaling) is not part of the page model.
\<close>

record imageInfo =
  width :: nat
  height :: nat
  format :: string

record kitPage =
  pageWidth :: nat
  pageHeight :: nat
  image :: "path option"

record imglib =
  sharp_metadata :: "bytes \<Rightarrow> string + imageInfo"
  kit_image :: "bytes \<Rightarrow> bool"
  kit_render :: "kitPage list \<Rightarrow> bytes"

text \<open>
  The loop of lines 727-784. It carries the pages of the PDFKit document,
  \<open>tempFiles\<close> and \<open>imageDetails\<close>. A failure of \<open>metadata()\<close> skips the file
  before it is tracked; a failure of \<open>image()\<close> comes after \<open>addPage\<close>.
\<close>

fun imageLoop ::
  "imglib \<Rightarrow> fsys \<Rightarrow> nat \<times> nat \<Rightarrow> upload list \<Rightarrow> kitPage list \<times> path list \<times> json list
     \<Rightarrow> kitPage list \<times> path list \<times> json list" where
  "imageLoop lib fs dims [] st = st"
| "imageLoop lib fs dims (file # files) (pdfPages, tempFiles, imageDetails) =
     (case (case readFile fs (path file) of
              Inl err \<Rightarrow> Inl err
            | Inr b \<Rightarrow> map_sum id (\<lambda>i. (i, b)) (sharp_metadata lib b)) of
        Inl err \<Rightarrow> imageLoop lib fs dims files (pdfPages, tempFiles, imageDetails)
      | Inr (imageInfo, b) \<Rightarrow>
          if kit_image lib b then
            imageLoop lib fs dims files
              (pdfPages @ [\<lparr>pageWidth = fst dims, pageHeight = snd dims, image = Some (path file)\<rparr>],
               tempFiles @ [path file],
               imageDetails @
                 [JObj [(''name'', JStr (originalname file)),
                        (''originalSize'', JNum (int (fsize file))),
                        (''dimensions'', JStr (showNat (width imageInfo) @ ''x'' @
                                               showNat (height imageInfo))),
                        (''format'', JStr (format imageInfo)),
                        (''pageSize'', JStr (showNat (fst dims) @ ''x'' @ showNat (snd dims)))]])
          else
            imageLoop lib fs dims files
              (pdfPages @ [\<lparr>pageWidth = fst dims, pageHeight = snd dims, image = None\<rparr>],
               tempFiles @ [path file],
               imageDetails))"

text \<open>
  \<open>imageToPDF\<close> (lines 632-860). \<open>files\<close> is \<open>req.files\<close>, \<open>pageSize\<close> and
  \<open>orientation\<close> are the body fields, \<open>now\<close> is \<open>Date.now()\<close> at line 707. The
  write stream finishes with the rendered document at \<open>outputPath\<close>, or fails
  (its \<open>error\<close> event rejects the awaited promise).
\<close>

definition imageToPDF ::
  "imglib \<Rightarrow> (path \<Rightarrow> bool) \<Rightarrow> path \<Rightarrow> path \<Rightarrow> nat \<Rightarrow> fsys \<Rightarrow> upload list option
     \<Rightarrow> string option \<Rightarrow> string option \<Rightarrow> (string \<Rightarrow> string option) \<Rightarrow> response \<times> fsys" where
  "imageToPDF lib wr cwd uploadDir now fs files pageSize orientation body =
     (case files of
        None \<Rightarrow> (Json 400 (JObj [(''error'', JStr ''No image files uploaded'')]), fs)
      | Some fl \<Rightarrow>
          if length fl = 0 then (Json 400 (JObj [(''error'', JStr ''No image files uploaded'')]), fs)
          else
            (case find (\<lambda>file. \<not> startsWith (mimetype file) ''image/'') fl of
               Some file \<Rightarrow>
                 (Json 400 (JObj [(''error'', JStr (''Invalid file type: '' @ mimetype file @
                                     ''. Only image files are allowed.''))]),
                  unlinkAll fs (map path fl))
             | None \<Rightarrow>
                 (let dims = requestPageDimensions pageSize orientation;
                      outputFilename = artifactName ''image-pdf'' now;
                      outputPath = path_join [uploadDir, outputFilename];
                      absolutePath = path_resolve cwd outputPath
                  in case imageLoop lib fs dims (orderFiles body fl) ([], [], []) of
                       (pdfPages, tempFiles, imageDetails) \<Rightarrow>
                         (case writeFile wr fs outputPath (kit_render lib pdfPages) of
                            Inl message \<Rightarrow>
                              (Json 500 (JObj
                                 [(''error'', JStr ''Image to PDF conversion failed''),
                                  (''details'', JStr message),
                                  (''suggestion'', JStr
                                     ''Please ensure all files are valid images and try again'')]),
                               unlinkQuiet (unlinkAll fs tempFiles) outputPath)
                          | Inr fs1 \<Rightarrow>
                              (Json 200 (JObj
                                 [(''fullPath'', JStr absolutePath),
                                  (''url'', JStr (''/uploads/'' @ outputFilename)),
                                  (''message'', JStr (''Successfully created PDF with '' @
                                     showNat (length imageDetails) @ '' images'')),
                                  (''details'', JObj
                                     [(''totalPages'', JNum (int (length imageDetails))),
                                      (''fileCount'', JNum (int (length fl))),
                                      (''pageSize'', JStr (orDefault pageSize ''a4'')),
                                      (''orientation'', JStr (orDefault orientation ''portrait''))])]),
                               unlinkAll fs1 tempFiles)))))"

section \<open>Protect and unprotect\<close>

text \<open>
  \<open>execFilePromise('qpdf', args)\<close>. The tool is given its arguments and the bytes of
  the input file (\<open>None\<close> when it cannot be read); it exits with 0 and the output
  (\<open>Inr\<close>), or the promise is rejected with an error that carries \<open>message\<close> and
  \<open>stderr\<close>, the tool having possibly left a partial output behind.
\<close>

record execError =
  errMessage :: string
  errStderr :: string
  partialOutput :: "bytes option"

type_synonym qpdf = "string list \<Rightarrow> bytes option \<Rightarrow> execError + bytes"

definition execFile_qpdf ::
  "qpdf \<Rightarrow> (path \<Rightarrow> bool) \<Rightarrow> fsys \<Rightarrow> string list \<Rightarrow> path \<Rightarrow> path \<Rightarrow> (execError + unit) \<times> fsys" where
  "execFile_qpdf tool wr fs args inputFile outputPath =
     (case tool args (case readFile fs inputFile of Inl e \<Rightarrow> None | Inr b \<Rightarrow> Some b) of
        Inl qpdfError \<Rightarrow>
          (Inl qpdfError,
           case partialOutput qpdfError of
             None \<Rightarrow> fs
           | Some b \<Rightarrow> (case writeFile wr fs outputPath b of Inl e \<Rightarrow> fs | Inr fs' \<Rightarrow> fs'))
      | Inr out \<Rightarrow>
          (case writeFile wr fs outputPath out of
             Inl e \<Rightarrow>
               (Inl \<lparr>errMessage = ''Command failed: qpdf'', errStderr = e, partialOutput = None\<rparr>, fs)
           | Inr fs' \<Rightarrow> (Inr (), fs')))"

text \<open>\<open>qpdfError.stderr || qpdfError.message\<close>.\<close>

definition errDetails :: "execError \<Rightarrow> string" where
  "errDetails e = (if errStderr e = [] then errMessage e else errStderr e)"

text \<open>
  The handler-level \<open>catch\<close> of \<open>protectPDF\<close> and \<open>unprotectPDF\<close> (lines 1347-1369
  and 1468-1490): the upload is unlinked when it is still there.
\<close>

definition handlerCleanup :: "fsys \<Rightarrow> path \<Rightarrow> fsys" where
  "handlerCleanup fs p = (case access fs p of Inl accessError \<Rightarrow> fs | Inr u \<Rightarrow> unlinkQuiet fs p)"

text \<open>
  \<open>protectPDF\<close> (lines 1243-1370); \<open>password\<close> is the body field, \<open>now\<close> is
  \<open>Date.now()\<close> at line 1270.
\<close>

definition protectPDF ::
  "qpdf \<Rightarrow> (path \<Rightarrow> bool) \<Rightarrow> path \<Rightarrow> path \<Rightarrow> nat \<Rightarrow> fsys \<Rightarrow> upload option \<Rightarrow> string option
     \<Rightarrow> response \<times> fsys" where
  "protectPDF tool wr cwd uploadDir now fs file password =
     (case file of
        None \<Rightarrow> (Json 400 (JObj [(''error'', JStr ''No PDF file uploaded'')]), fs)
      | Some f \<Rightarrow>
          (let inputFile = path f
           in if \<not> str_includes (mimetype f) ''pdf'' then
                (Json 400 (JObj [(''error'', JStr ''Only PDF files are allowed'')]),
                 unlinkQuiet fs inputFile)
              else if orDefault password [] = [] then
                (Json 400 (JObj [(''error'', JStr ''Password is required'')]),
                 unlinkQuiet fs inputFile)
              else
                (let outputFilename = artifactName ''protected'' now;
                     outputPath = path_join [uploadDir, outputFilename];
                     qpdfArgs = [''--encrypt'', orDefault password [], orDefault password [], ''128'',
                                 ''--print=full'', ''--modify=none'', ''--extract=n'', ''--use-aes=y'',
                                 ''--'', inputFile, outputPath]
                 in case mkdir_recursive wr fs uploadDir of
                      Inl message \<Rightarrow>
                        (Json 500 (JObj [(''error'', JStr ''Failed to protect PDF''),
                                         (''details'', JStr message)]),
                         handlerCleanup fs inputFile)
                    | Inr fs1 \<Rightarrow>
                        (case execFile_qpdf tool wr fs1 qpdfArgs inputFile outputPath of
                           (Inr u, fs2) \<Rightarrow>
                             (Json 200 (JObj
                                [(''success'', JBool True),
                                 (''message'', JStr ''PDF protected successfully with password using qpdf''),
                                 (''originalFile'', JStr (originalname f)),
                                 (''fullPath'', JStr (path_resolve cwd outputPath)),
                                 (''url'', JStr (''/uploads/'' @ outputFilename))]),
                              unlinkQuiet fs2 inputFile)
                         | (Inl qpdfError, fs2) \<Rightarrow>
                             (Json 500 (JObj
                                [(''error'', JStr ''Failed to protect PDF using qpdf''),
                                 (''details'', JStr (errDetails qpdfError))]),
                              unlinkQuiet (unlinkQuiet fs2 inputFile) outputPath)))))"

text \<open>\<open>unprotectPDF\<close> (lines 1373-1491); \<open>now\<close> is \<open>Date.now()\<close> at line 1400.\<close>

definition unprotectPDF ::
  "qpdf \<Rightarrow> (path \<Rightarrow> bool) \<Rightarrow> path \<Rightarrow> path \<Rightarrow> nat \<Rightarrow> fsys \<Rightarrow> upload option \<Rightarrow> string option
     \<Rightarrow> response \<times> fsys" where
  "unprotectPDF tool wr cwd uploadDir now fs file password =
     (case file of
        None \<Rightarrow> (Json 400 (JObj [(''error'', JStr ''No PDF file uploaded'')]), fs)
      | Some f \<Rightarrow>
          (let inputFile = path f
           in if \<not> str_includes (mimetype f) ''pdf'' then
                (Json 400 (JObj [(''error'', JStr ''Only PDF files are allowed'')]),
                 unlinkQuiet fs inputFile)
              else if orDefault password [] = [] then
                (Json 400 (JObj [(''error'', JStr ''Password is required'')]),
                 unlinkQuiet fs inputFile)
              else
                (let outputFilename = artifactName ''unprotected'' now;
                     outputPath = path_join [uploadDir, outputFilename];
                     qpdfArgs = [''--password='' @ orDefault password [], ''--decrypt'',
                                 inputFile, outputPath]
                 in case mkdir_recursive wr fs uploadDir of
                      Inl message \<Rightarrow>
                        (Json 500 (JObj [(''error'', JStr ''Failed to unprotect PDF''),
                                         (''details'', JStr message)]),
                         handlerCleanup fs inputFile)
                    | Inr fs1 \<Rightarrow>
                        (case execFile_qpdf tool wr fs1 qpdfArgs inputFile outputPath of
                           (Inr u, fs2) \<Rightarrow>
                             (Json 200 (JObj
                                [(''success'', JBool True),
                                 (''message'', JStr ''PDF unprotected successfully''),
                                 (''originalFile'', JStr (originalname f)),
                                 (''fullPath'', JStr (path_resolve cwd outputPath)),
                                 (''url'', JStr (''/uploads/'' @ outputFilename))]),
                              unlinkQuiet fs2 inputFile)
                         | (Inl qpdfError, fs2) \<Rightarrow>
                             (if errStderr qpdfError \<noteq> [] \<and> str_includes (errStderr qpdfError) ''password''
                              then Json 401 (JObj
                                     [(''error'', JStr ''Incorrect password for the PDF''),
                                      (''details'', JStr ''Please check the password and try again'')])
                              else Json 500 (JObj
                                     [(''error'', JStr ''Failed to unprotect PDF''),
                                      (''details'', JStr (errDetails qpdfError))]),
                              unlinkQuiet (unlinkQuiet fs2 inputFile) outputPath)))))"

section \<open>Text extraction\<close>

text \<open>
  \<open>extractText\<close> with \<open>delfile\<close> of \<open>utils.js\<close>. \<open>recognize\<close> is Tesseract's
  on the file's bytes. \<open>delfile\<close> calls \<open>fs.unlink(filepath, callback)\<close> and returns:
  the removal is under way when the response is sent on the next line, which is a timer
  of delay 0 here.
\<close>

definition delfile :: "path \<Rightarrow> timer" where
  "delfile filepath = (0, [Unlink filepath])"

definition extractText ::
  "(bytes option \<Rightarrow> string + string) \<Rightarrow> fsys \<Rightarrow> upload option \<Rightarrow> response \<times> fsys \<times> timer list" where
  "extractText recognize fs file =
     (case file of
        None \<Rightarrow> (Json 400 (JObj [(''message'', JStr ''File upload failed'')]), fs, [])
      | Some f \<Rightarrow>
          (case recognize (case readFile fs (path f) of Inl e \<Rightarrow> None | Inr b \<Rightarrow> Some b) of
             Inr text \<Rightarrow>
               (Json 200 (JObj [(''message'', JStr ''File uploaded successfully''),
                                (''text'', JStr text)]),
                fs, [delfile (path f)])
           | Inl err \<Rightarrow>
               (Json 500 (JObj [(''message'', JStr ''Error processing image''),
                                (''error'', JStr err)]),
                fs, [delfile (path f)])))"

section \<open>PDF to image\<close>

text \<open>
  The collaborators: \<open>pdfjs_getDocument\<close> gives the number of pages PDF.js finds,
  \<open>pdfjs_render\<close> renders page \<open>i\<close> on a canvas and encodes it (the image buffer and
  the viewport's width and height), \<open>text_render\<close> is the fallback of lines 1084-1138
  (pdf-parse and a text-only canvas) on a one-page document, and \<open>archive_zip\<close> is
  archiver on the named contents.
\<close>

record rasterlib =
  pdfjs_getDocument :: "bytes \<Rightarrow> string + nat"
  pdfjs_render :: "bytes \<Rightarrow> nat \<Rightarrow> nat \<Rightarrow> string \<Rightarrow> string + (bytes \<times> json \<times> json)"
  text_render :: "bytes \<Rightarrow> nat \<Rightarrow> nat \<Rightarrow> nat \<Rightarrow> string \<Rightarrow> string + bytes"
  archive_zip :: "(string \<times> bytes) list \<Rightarrow> string + bytes"

text \<open>An entry of \<open>imageResults\<close> with its \<open>filename\<close> and \<open>fullPath\<close>.\<close>

type_synonym imageResult = "json \<times> string \<times> path"

definition imageEntry ::
  "path \<Rightarrow> nat \<Rightarrow> string \<Rightarrow> nat \<Rightarrow> nat \<Rightarrow> json \<Rightarrow> json \<Rightarrow> json" where
  "imageEntry fullPath pageNumber outputFilename timestamp fileSize w h =
     JObj [(''fullPath'', JStr fullPath),
           (''pageNumber'', JNum (int pageNumber)),
           (''filename'', JStr outputFilename),
           (''url'', JStr (''/uploads/pdf-images-'' @ showNat timestamp @ ''/'' @ outputFilename)),
           (''size'', JNum (int fileSize)),
           (''width'', w),
           (''height'', h)]"

text \<open>
  One turn of the loop of lines 950-1006 for page number \<open>i\<close>: the file system, what
  was pushed on \<open>tempFiles\<close>, and the result unless the page was skipped.
\<close>

definition renderPage ::
  "rasterlib \<Rightarrow> (path \<Rightarrow> bool) \<Rightarrow> path \<Rightarrow> path \<Rightarrow> nat \<Rightarrow> string \<Rightarrow> nat \<Rightarrow> bytes \<Rightarrow> nat \<Rightarrow> fsys
     \<Rightarrow> fsys \<times> path list \<times> imageResult option" where
  "renderPage rlib wr cwd batchDir timestamp imageFormat quality data i fs =
     (case pdfjs_render rlib data i quality imageFormat of
        Inl pageErr \<Rightarrow> (fs, [], None)
      | Inr (imageBuffer, w, h) \<Rightarrow>
          (let outputFilename = ''page-'' @ showNat i @ ''-'' @ showNat timestamp @ ''.'' @ imageFormat;
               outputPath = path_join [batchDir, outputFilename]
           in case writeFile wr fs outputPath imageBuffer of
                Inl pageErr \<Rightarrow> (fs, [], None)
              | Inr fs1 \<Rightarrow>
                  (case stat_size fs1 outputPath of
                     Inl pageErr \<Rightarrow> (fs1, [outputPath], None)
                   | Inr fileSize \<Rightarrow>
                       (let fullPath = slashes (path_resolve cwd outputPath)
                        in (fs1, [outputPath],
                            Some (imageEntry fullPath i outputFilename timestamp fileSize w h,
                                  outputFilename, fullPath))))))"

fun renderLoop ::
  "rasterlib \<Rightarrow> (path \<Rightarrow> bool) \<Rightarrow> path \<Rightarrow> path \<Rightarrow> nat \<Rightarrow> string \<Rightarrow> nat \<Rightarrow> bytes \<Rightarrow> nat list
     \<Rightarrow> fsys \<times> imageResult list \<times> path list \<Rightarrow> fsys \<times> imageResult list \<times> path list" where
  "renderLoop rlib wr cwd batchDir timestamp imageFormat quality data [] st = st"
| "renderLoop rlib wr cwd batchDir timestamp imageFormat quality data (i # is)
       (fs, imageResults, tempFiles) =
     (case renderPage rlib wr cwd batchDir timestamp imageFormat quality data i fs of
        (fs', pushed, r) \<Rightarrow>
          renderLoop rlib wr cwd batchDir timestamp imageFormat quality data is
            (fs', imageResults @ (case r of None \<Rightarrow> [] | Some e \<Rightarrow> [e]), tempFiles @ pushed))"

text \<open>
  The zip of lines 1013-1036 and 1171-1190: archiver reads each \<open>fullPath\<close> and the
  archive is written to \<open>zipPath\<close>; any failure rejects the awaited promise.
\<close>

definition makeZip ::
  "rasterlib \<Rightarrow> (path \<Rightarrow> bool) \<Rightarrow> fsys \<Rightarrow> path \<Rightarrow> imageResult list \<Rightarrow> string + fsys" where
  "makeZip rlib wr fs zipPath imageResults =
     (case those (map (\<lambda>(entry, filename, fullPath).
                          case readFile fs fullPath of
                            Inl e \<Rightarrow> None
                          | Inr b \<Rightarrow> Some (filename, b)) imageResults) of
        None \<Rightarrow> Inl ''ENOENT''
      | Some contents \<Rightarrow>
          (case archive_zip rlib contents of
             Inl e \<Rightarrow> Inl e
           | Inr z \<Rightarrow> writeFile wr fs zipPath z))"

definition imagesResponse ::
  "upload \<Rightarrow> imageResult list \<Rightarrow> string \<Rightarrow> string \<Rightarrow> string \<Rightarrow> bool \<Rightarrow> response" where
  "imagesResponse f imageResults zipFilename imageFormat imageQuality simple =
     Json 200 (JObj
       ([(''success'', JBool True),
         (''message'', JStr (''PDF converted to '' @ showNat (length imageResults) @ '' images'' @
            (if simple then '' (simple extraction method used)'' else []))),
         (''images'', JArr (map fst imageResults)),
         (''zipUrl'', JStr (''/uploads/'' @ zipFilename)),
         (''format'', JStr imageFormat),
         (''quality'', JStr imageQuality),
         (''originalFile'', JStr (originalname f))] @
        (if simple
         then [(''note'', JStr
                 ''Basic conversion was used. Images may show text only without formatting.'')]
         else [])))"

text \<open>
  The body of the \<open>try\<close> of line 930. \<open>Inl\<close> is the error caught at line 1066, with
  the file system, \<open>imageResults\<close> and \<open>tempFiles\<close> at that moment.
\<close>

definition rasterize ::
  "rasterlib \<Rightarrow> (path \<Rightarrow> bool) \<Rightarrow> path \<Rightarrow> path \<Rightarrow> path \<Rightarrow> nat \<Rightarrow> string \<Rightarrow> string \<Rightarrow> nat \<Rightarrow> fsys
     \<Rightarrow> upload
     \<Rightarrow> (string \<times> fsys \<times> imageResult list \<times> path list) + (response \<times> fsys \<times> timer list)" where
  "rasterize rlib wr cwd uploadDir batchDir timestamp imageFormat imageQuality quality fs f =
     (case readFile fs (path f) of
        Inl error \<Rightarrow> Inl (error, fs, [], [path f])
      | Inr data \<Rightarrow>
          (case pdfjs_getDocument rlib data of
             Inl error \<Rightarrow> Inl (error, fs, [], [path f])
           | Inr numPages \<Rightarrow>
               (case renderLoop rlib wr cwd batchDir timestamp imageFormat quality data
                       [1..<numPages + 1] (fs, [], [path f]) of
                  (fs1, imageResults, tempFiles) \<Rightarrow>
                    if length imageResults = 0
                    then Inl (''Failed to convert any pages to images'', fs1, imageResults, tempFiles)
                    else
                      (let zipFilename = ''pdf-images-'' @ showNat timestamp @ ''.zip'';
                           zipPath = path_join [uploadDir, zipFilename]
                       in case makeZip rlib wr fs1 zipPath imageResults of
                            Inl error \<Rightarrow> Inl (error, fs1, imageResults, tempFiles)
                          | Inr fs2 \<Rightarrow>
                              Inr (imagesResponse f imageResults zipFilename imageFormat
                                     imageQuality False,
                                   fs2,
                                   [(3600000, [Unlink (path f)]),
                                    (86400000, [RmDir batchDir, Unlink zipPath])])))))"

text \<open>One turn of the fallback loop of lines 1080-1161 for page index \<open>i\<close>.\<close>

definition textPage ::
  "pdflib \<Rightarrow> rasterlib \<Rightarrow> (path \<Rightarrow> bool) \<Rightarrow> path \<Rightarrow> path \<Rightarrow> nat \<Rightarrow> string \<Rightarrow> nat \<Rightarrow> pdfdoc \<Rightarrow> nat
     \<Rightarrow> fsys \<Rightarrow> fsys \<times> imageResult option" where
  "textPage lib rlib wr cwd batchDir timestamp imageFormat quality pdfDoc i fs =
     (case pdf_save lib defaultSave (addPages PDFDocument_create (copyPages pdfDoc [i])) of
        Inl pageErr \<Rightarrow> (fs, None)
      | Inr pdfBytes \<Rightarrow>
          (case text_render rlib pdfBytes i (length (pages pdfDoc)) quality imageFormat of
             Inl pageErr \<Rightarrow> (fs, None)
           | Inr imageBuffer \<Rightarrow>
               (let outputFilename =
                      ''page-'' @ showNat (i + 1) @ ''-'' @ showNat timestamp @ ''.'' @ imageFormat;
                    outputPath = path_join [batchDir, outputFilename]
                in case writeFile wr fs outputPath imageBuffer of
                     Inl pageErr \<Rightarrow> (fs, None)
                   | Inr fs1 \<Rightarrow>
                       (case stat_size fs1 outputPath of
                          Inl pageErr \<Rightarrow> (fs1, None)
                        | Inr fileSize \<Rightarrow>
                            (let fullPath = slashes (path_resolve cwd outputPath)
                             in (fs1, Some (imageEntry fullPath (i + 1) outputFilename timestamp
                                              fileSize (JNum 800) (JNum 1200),
                                            outputFilename, fullPath)))))))"

fun textLoop ::
  "pdflib \<Rightarrow> rasterlib \<Rightarrow> (path \<Rightarrow> bool) \<Rightarrow> path \<Rightarrow> path \<Rightarrow> nat \<Rightarrow> string \<Rightarrow> nat \<Rightarrow> pdfdoc
     \<Rightarrow> nat list \<Rightarrow> fsys \<times> imageResult list \<times> bool \<Rightarrow> fsys \<times> imageResult list \<times> bool" where
  "textLoop lib rlib wr cwd batchDir timestamp imageFormat quality pdfDoc [] st = st"
| "textLoop lib rlib wr cwd batchDir timestamp imageFormat quality pdfDoc (i # is)
       (fs, imageResults, pdfParsed) =
     (case textPage lib rlib wr cwd batchDir timestamp imageFormat quality pdfDoc i fs of
        (fs', None) \<Rightarrow>
          textLoop lib rlib wr cwd batchDir timestamp imageFormat quality pdfDoc is
            (fs', imageResults, pdfParsed)
      | (fs', Some e) \<Rightarrow>
          textLoop lib rlib wr cwd batchDir timestamp imageFormat quality pdfDoc is
            (fs', imageResults @ [e], True))"

text \<open>
  The \<open>catch\<close> of line 1066: the fallback, and on its failure the cleanup of lines
  1205-1224 followed by the handler-level \<open>catch\<close>. \<open>fs.rm\<close> is called with a callback
  and is under way when the response is sent (a timer of delay 0).
\<close>

definition textFallback ::
  "pdflib \<Rightarrow> rasterlib \<Rightarrow> (path \<Rightarrow> bool) \<Rightarrow> path \<Rightarrow> path \<Rightarrow> path \<Rightarrow> nat \<Rightarrow> string \<Rightarrow> string \<Rightarrow> nat
     \<Rightarrow> pdfdoc \<Rightarrow> upload \<Rightarrow> string \<Rightarrow> fsys \<Rightarrow> imageResult list \<Rightarrow> path list
     \<Rightarrow> response \<times> fsys \<times> timer list" where
  "textFallback lib rlib wr cwd uploadDir batchDir timestamp imageFormat imageQuality quality
       pdfDoc f error fs imageResults tempFiles =
     (let failed = (\<lambda>fsx.
            (Json 500 (JObj
               [(''error'', JStr ''Failed to convert PDF to images''),
                (''details'', JStr (''PDF to Image conversion failed: '' @ error)),
                (''suggestion'', JStr
                   ''Please try a different PDF file or use a different conversion method'')]),
             unlinkAll fsx tempFiles,
             [(0, [RmDir batchDir])]))
      in case (case readFile fs (path f) of
                 Inl parseErr \<Rightarrow> (fs, imageResults, False)
               | Inr dataBuffer \<Rightarrow>
                   textLoop lib rlib wr cwd batchDir timestamp imageFormat quality pdfDoc
                     [0..<length (pages pdfDoc)] (fs, imageResults, False)) of
           (fs1, imageResults1, pdfParsed) \<Rightarrow>
             if \<not> pdfParsed then failed fs1
             else
               (let zipFilename = ''pdf-images-'' @ showNat timestamp @ ''.zip'';
                    zipPath = path_join [uploadDir, zipFilename]
                in case makeZip rlib wr fs1 zipPath imageResults1 of
                     Inl fallbackError \<Rightarrow> failed fs1
                   | Inr fs2 \<Rightarrow>
                       (imagesResponse f imageResults1 zipFilename imageFormat imageQuality True,
                        fs2, [])))"

text \<open>
  \<open>pdfToImage\<close> (lines 863-1240); \<open>imageFormat\<close> and \<open>imageQuality\<close> are the body
  fields, \<open>now\<close> is \<open>Date.now()\<close> at line 921.
\<close>

definition pdfToImage ::
  "pdflib \<Rightarrow> rasterlib \<Rightarrow> (path \<Rightarrow> bool) \<Rightarrow> path \<Rightarrow> path \<Rightarrow> nat \<Rightarrow> fsys \<Rightarrow> upload option
     \<Rightarrow> string option \<Rightarrow> string option \<Rightarrow> response \<times> fsys \<times> timer list" where
  "pdfToImage lib rlib wr cwd uploadDir now fs file imageFormat imageQuality =
     (case file of
        None \<Rightarrow> (Json 400 (JObj [(''error'', JStr ''No PDF file uploaded'')]), fs, [])
      | Some f \<Rightarrow>
          if \<not> str_includes (mimetype f) ''pdf'' then
            (Json 400 (JObj [(''error'', JStr ''Only PDF files are allowed'')]),
             unlinkQuiet fs (path f), [])
          else
            (let imageFormat' = toLowerCase (orDefault imageFormat ''png'');
                 imageQuality' = orDefault imageQuality ''medium'';
                 quality = (if imageQuality' = ''high'' then 100
                            else if imageQuality' = ''low'' then 60 else 80)
             in case access fs (path f) of
                  Inl err \<Rightarrow>
                    (Json 400 (JObj [(''error'', JStr ''Uploaded file is not accessible'')]), fs, [])
                | Inr u \<Rightarrow>
                    (case (case readFile fs (path f) of
                             Inl err \<Rightarrow> Inl err
                           | Inr pdfBytes \<Rightarrow> pdf_load lib False pdfBytes) of
                       Inl err \<Rightarrow>
                         (Json 400 (JObj [(''error'', JStr ''Invalid or corrupted PDF file'')]),
                          unlinkQuiet fs (path f), [])
                     | Inr pdfDoc \<Rightarrow>
                         if length (pages pdfDoc) = 0 then
                           (Json 400 (JObj [(''error'', JStr ''PDF has no pages to convert'')]),
                            unlinkQuiet fs (path f), [])
                         else
                           (let timestamp = now;
                                batchDir = path_join [uploadDir, ''pdf-images-'' @ showNat timestamp]
                            in case mkdir_recursive wr fs batchDir of
                                 Inl message \<Rightarrow>
                                   (Json 500 (JObj
                                      [(''error'', JStr ''Failed to convert PDF to images''),
                                       (''details'', JStr message),
                                       (''suggestion'', JStr
                                          ''Please try a different PDF file or use a different conversion method'')]),
                                    fs, [])
                               | Inr fs0 \<Rightarrow>
                                   (case rasterize rlib wr cwd uploadDir batchDir timestamp
                                           imageFormat' imageQuality' quality fs0 f of
                                      Inr r \<Rightarrow> r
                                    | Inl (error, fs1, imageResults, tempFiles) \<Rightarrow>
                                        textFallback lib rlib wr cwd uploadDir batchDir timestamp
                                          imageFormat' imageQuality' quality pdfDoc f error fs1
                                          imageResults tempFiles)))))"

section \<open>Notions used by the properties\<close>

text \<open>There is a regular file at the path.\<close>

definition isFile :: "fsys \<Rightarrow> path \<Rightarrow> bool" where
  "isFile fs p = (case map_of fs p of Some (File b) \<Rightarrow> True | _ \<Rightarrow> False)"


text \<open>The order index a file at arrival position \<open>k\<close> is sorted by.\<close>

definition resolvedIndex :: "(string \<Rightarrow> string option) \<Rightarrow> nat \<Rightarrow> int" where
  "resolvedIndex body k =
     (case parseInt (body (''order_'' @ showNat k)) of None \<Rightarrow> int k | Some v \<Rightarrow> v)"

text \<open>
  Split: where page index \<open>i\<close> is written, and whether its turn of the loop succeeds
  in a store whose upload directory exists (the one-page document is saved, the output
  path can be written and is not a directory).
\<close>

definition splitOutputPath :: "path \<Rightarrow> (nat \<Rightarrow> nat) \<Rightarrow> nat \<Rightarrow> path" where
  "splitOutputPath uploadDir now i =
     path_join [uploadDir, artifactName (''split-page-'' @ showNat (i + 1)) (now i)]"

definition savedPage :: "pdflib \<Rightarrow> pdfdoc \<Rightarrow> nat \<Rightarrow> string + bytes" where
  "savedPage lib pdfDoc i =
     pdf_save lib \<lparr>useObjectStreams = False, objectsPerStream = 50\<rparr>
       (addPages PDFDocument_create (copyPages pdfDoc [i]))"

definition pageSplits ::
  "pdflib \<Rightarrow> (path \<Rightarrow> bool) \<Rightarrow> path \<Rightarrow> (nat \<Rightarrow> nat) \<Rightarrow> fsys \<Rightarrow> pdfdoc \<Rightarrow> nat \<Rightarrow> bool" where
  "pageSplits lib wr uploadDir now fs pdfDoc i =
     ((case savedPage lib pdfDoc i of Inl err \<Rightarrow> False | Inr b \<Rightarrow> True)
      \<and> wr (splitOutputPath uploadDir now i)
      \<and> map_of fs (splitOutputPath uploadDir now i) \<noteq> Some Dir)"

definition pageEntry :: "pdflib \<Rightarrow> path \<Rightarrow> path \<Rightarrow> (nat \<Rightarrow> nat) \<Rightarrow> pdfdoc \<Rightarrow> nat \<Rightarrow> json" where
  "pageEntry lib cwd uploadDir now pdfDoc i =
     splitEntry cwd (splitOutputPath uploadDir now i)
       (artifactName (''split-page-'' @ showNat (i + 1)) (now i)) i
       (case savedPage lib pdfDoc i of Inl err \<Rightarrow> [] | Inr b \<Rightarrow> b)"

text \<open>
  Image to PDF: whether \<open>metadata()\<close> succeeds on an upload, whether PDFKit embeds it,
  and the page the loop leaves for it.
\<close>

definition hasMetadata :: "imglib \<Rightarrow> fsys \<Rightarrow> upload \<Rightarrow> bool" where
  "hasMetadata lib fs file =
     (case readFile fs (path file) of
        Inl err \<Rightarrow> False
      | Inr b \<Rightarrow> (case sharp_metadata lib b of Inl err \<Rightarrow> False | Inr i \<Rightarrow> True))"

definition embeds :: "imglib \<Rightarrow> fsys \<Rightarrow> upload \<Rightarrow> bool" where
  "embeds lib fs file =
     (case readFile fs (path file) of Inl err \<Rightarrow> False | Inr b \<Rightarrow> kit_image lib b)"

definition pageFor :: "imglib \<Rightarrow> fsys \<Rightarrow> nat \<times> nat \<Rightarrow> upload \<Rightarrow> kitPage" where
  "pageFor lib fs dims file =
     \<lparr>pageWidth = fst dims, pageHeight = snd dims,
      image = (if embeds lib fs file then Some (path file) else None)\<rparr>"

section \<open>Example requests\<close>

text \<open>
  A deployment with the application in \<open>/app\<close>: the upload directory is
  \<open>/app/uploads\<close>, beside it are the server's own files and another directory whose
  name starts like the root's.
\<close>

definition demoStore :: fsys where
  "demoStore =
     [(''/app/uploads'', Dir),
      (''/app/uploads/merged-1.pdf'', File [1, 2, 3]),
      (''/app/server.js'', File [7]),
      (''/app/uploads-old/secret.pdf'', File [9])]"

text \<open>
  A PDF library for the examples: the empty file does not parse, any other file is a
  document with one page per byte, and saving writes one byte per page.
\<close>

definition demoLib :: pdflib where
  "demoLib =
     \<lparr>pdf_load = (\<lambda>lenient b. if b = [] then Inl ''Failed to parse PDF document''
                                else Inr \<lparr>pages = b, info = []\<rparr>),
      pdf_save = (\<lambda>opts d. Inr (pages d))\<rparr>"

definition pdfUpload :: "string \<Rightarrow> path \<Rightarrow> upload" where
  "pdfUpload name p =
     \<lparr>fieldname = ''pdfs'', originalname = name, mimetype = ''application/pdf'',
      fsize = 0, path = p\<rparr>"

definition mergeStore :: fsys where
  "mergeStore =
     [(''/app/uploads'', Dir),
      (''/app/uploads/pdfs-1.pdf'', File []),
      (''/app/uploads/pdfs-2.pdf'', File [1, 2])]"

text \<open>
  A 2000-byte upload that pdf-lib cannot parse and zlib deflates to 1700 bytes (the
  handler looks at the lengths only; the byte values stand for such a file).
\<close>

definition compressStore :: fsys where
  "compressStore =
     [(''/app/uploads'', Dir), (''/app/uploads/pdf-1.pdf'', File (replicate 2000 0))]"

definition failingLib :: pdflib where
  "failingLib =
     \<lparr>pdf_load = (\<lambda>lenient b. Inl ''No PDF header found''),
      pdf_save = (\<lambda>opts d. Inr (pages d))\<rparr>"

definition orderStore :: fsys where
  "orderStore =
     [(''/app/uploads'', Dir),
      (''/app/uploads/pdfs-1.pdf'', File [10, 11]),
      (''/app/uploads/pdfs-2.pdf'', File [20])]"

definition reversedOrder :: "string \<Rightarrow> string option" where
  "reversedOrder = [''order_0'' \<mapsto> ''1'', ''order_1'' \<mapsto> ''0'']"

text \<open>
  An image library for the examples: the empty file has no metadata, a file starting
  with \<open>G\<close> (a GIF) has metadata but cannot be embedded, and the rendered document
  lists width, height and the length of the embedded path (0 for a blank page) of
  every page.
\<close>

definition demoKit :: imglib where
  "demoKit =
     \<lparr>sharp_metadata = (\<lambda>b. if b = [] then Inl ''Input file is missing or of an unsupported image format''
                             else Inr \<lparr>width = 100, height = 50, format = ''png''\<rparr>),
      kit_image = (\<lambda>b. take 1 b \<noteq> [71]),
      kit_render = (\<lambda>ps. concat (map (\<lambda>p. [pageWidth p, pageHeight p,
                                  (case image p of None \<Rightarrow> 0 | Some s \<Rightarrow> length s)]) ps))\<rparr>"

definition imageUpload :: "string \<Rightarrow> string \<Rightarrow> path \<Rightarrow> upload" where
  "imageUpload name mime p =
     \<lparr>fieldname = ''images'', originalname = name, mimetype = mime, fsize = 0, path = p\<rparr>"

definition imageStore :: fsys where
  "imageStore =
     [(''/app/uploads'', Dir),
      (''/app/uploads/images-1.png'', File [1]),
      (''/app/uploads/images-2.gif'', File [71, 73, 70]),
      (''/app/uploads/images-3.png'', File [3])]"

definition imageOrder :: "string \<Rightarrow> string option" where
  "imageOrder = [''order_0'' \<mapsto> ''2'', ''order_1'' \<mapsto> ''0'', ''order_2'' \<mapsto> ''1'']"

definition splitStore :: fsys where
  "splitStore = [(''/app/uploads'', Dir), (''/app/uploads/pdf-1.pdf'', File [10, 11])]"

definition gifStore :: fsys where
  "gifStore =
     [(''/app/uploads'', Dir),
      (''/app/uploads/images-1.gif'', File [71, 73, 70]),
      (''/app/uploads/images-2.png'', File [])]"

text \<open>
  A rasteriser for the examples: PDF.js finds one page per byte, every page renders to
  a one-byte image, the text fallback always fails, and the archive is the
  concatenation of its members.
\<close>

definition demoRaster :: rasterlib where
  "demoRaster =
     \<lparr>pdfjs_getDocument = (\<lambda>data. Inr (length data)),
      pdfjs_render = (\<lambda>data i quality imageFormat. Inr ([i], JNum 100, JNum 200)),
      text_render = (\<lambda>b i n quality imageFormat. Inl ''no text''),
      archive_zip = (\<lambda>contents. Inr (concat (map snd contents)))\<rparr>"

section \<open>Properties\<close>

lemmas fs_defs = access_def readFile_def stat_size_def writeFile_def copyFile_def unlink_def
  unlinkQuiet_def unlinkAll_def mkdir_recursive_def readdir_def isChild_def rm_recursive_def
  isFile_def startsWith_def endsWith_def

lemmas path_defs = path_join_def path_normalize_def normalizeString_def normStep_def
  path_isAbsolute_def path_resolve_def path_basename_def path_extname_def slashes_def
  uploadDir_of_def

lemmas parse_defs = parseInt_def parseDigits_def skipSpace.simps spaceLen_def toDouble_def
  isDigit_def readNat_def digitVal_def hexVal_def readHex_def showNat.simps digitChar_def

subsection \<open>Decimal numerals\<close>

lemma digitVal_digitChar: "d < 10 \<Longrightarrow> digitVal (digitChar d) = d"
proof -
  assume "d < 10"
  then have "d = 0 \<or> d = 1 \<or> d = 2 \<or> d = 3 \<or> d = 4 \<or> d = 5 \<or> d = 6
    \<or> d = 7 \<or> d = 8 \<or> d = 9" by arith
  then show ?thesis
    by (elim disjE) (simp_all add: digitVal_def digitChar_def)
qed

lemma readNat_showNat: "readNat (showNat n) = n"
proof (induction n rule: showNat.induct)
  case (1 n)
  show ?case
  proof (cases "n < 10")
    case True
    then show ?thesis
      by (subst showNat.simps) (simp add: readNat_def digitVal_digitChar)
  next
    case False
    with 1 have "readNat (showNat (n div 10)) = n div 10" by simp
    with False show ?thesis
      by (subst showNat.simps) (simp add: readNat_def digitVal_digitChar)
  qed
qed

lemma showNat_eq_iff: "showNat a = showNat b \<longleftrightarrow> a = b"
  by (metis readNat_showNat)

subsection \<open>The file system\<close>

lemma map_of_unlinkQuiet:
  "map_of (unlinkQuiet fs p) q = (if q = p \<and> isFile fs p then None else map_of fs q)"
  by (auto simp: unlinkQuiet_def unlink_def isFile_def delete_conv' split: option.splits node.splits)

lemma isFile_unlinkQuiet: "isFile (unlinkQuiet fs p) q = (isFile fs q \<and> q \<noteq> p)"
  by (auto simp: isFile_def map_of_unlinkQuiet split: option.splits node.splits)

lemma isFile_unlinkAll: "isFile (unlinkAll fs ps) q = (isFile fs q \<and> q \<notin> set ps)"
  unfolding unlinkAll_def
  by (induction ps arbitrary: fs) (auto simp: isFile_unlinkQuiet)

lemma isFile_writeFile:
  "writeFile wr fs p b = Inr fs' \<Longrightarrow> isFile fs' q = (q = p \<or> isFile fs q)"
  by (auto simp: writeFile_def isFile_def update_conv' split: if_splits option.splits node.splits)

lemma isFile_mkdir:
  "mkdir_recursive wr fs p = Inr fs' \<Longrightarrow> isFile fs' q = isFile fs q"
  by (auto simp: mkdir_recursive_def isFile_def update_conv' split: if_splits option.splits node.splits)

lemma isFile_copyFile:
  "copyFile wr fs src dst = Inr fs' \<Longrightarrow> isFile fs' q = (q = dst \<or> isFile fs q)"
  by (auto simp: copyFile_def isFile_writeFile split: sum.splits)

lemma access_isFile: "access fs p = Inl e \<Longrightarrow> \<not> isFile fs p"
  by (auto simp: access_def isFile_def split: option.splits)

lemma readFile_isFile: "readFile fs p = Inr b \<Longrightarrow> isFile fs p"
  by (auto simp: readFile_def isFile_def split: option.splits node.splits)

subsection \<open>Download\<close>

text \<open>
  Claim C1 (the code departs from it). A reference pointing outside the store root must
  never make \<open>downloadFile\<close> return a file outside the root. The relative reference
  \<open>../server.js\<close> is joined to the root with no containment check and the server's own
  source is streamed; the absolute reference \<open>/app/uploads-old/secret.pdf\<close> passes the
  check of line 327, which compares string prefixes. Neither file is inside the root.
\<close>

theorem downloadFile_escapes_root:
  "downloadFile ''/app'' (uploadDir_of ''/app/middleware'') Inr demoStore (Some ''../server.js'')
     = Download ''/app/server.js'' ''server.js''
   \<and> \<not> insideRoot (uploadDir_of ''/app/middleware'') ''/app/server.js''
   \<and> downloadFile ''/app'' (uploadDir_of ''/app/middleware'') Inr demoStore
         (Some ''/app/uploads-old/secret.pdf'')
     = Download ''/app/uploads-old/secret.pdf'' ''secret.pdf''
   \<and> \<not> insideRoot (uploadDir_of ''/app/middleware'') ''/app/uploads-old/secret.pdf''"
  by (simp add: downloadFile_def demoStore_def res_download_def insideRoot_def
      fs_defs path_defs Let_def)

subsection \<open>Listing merged PDFs\<close>

text \<open>
  Claim C4 (the code departs from it). Listing merged PDFs must answer 200 with one
  entry per \<open>merged-*.pdf\<close> file. The handler calls the callback API of \<open>fs\<close> with no
  callback, so every request ends in its \<open>catch\<close> with status 500, also when the
  directory holds \<open>merged-1.pdf\<close>.
\<close>

theorem listMergedPDFs_always_fails:
  "listMergedPDFs uploadDir fs =
     Json 500 (JObj [(''error'', JStr ''Failed to list merged PDFs''),
                     (''details'', JStr invalidCallback)])
   \<and> isFile demoStore ''/app/uploads/merged-1.pdf''
   \<and> status (listMergedPDFs ''/app/uploads'' demoStore) = 500"
  by (simp add: listMergedPDFs_def fs_readdir_def demoStore_def isFile_def)

subsection \<open>Merge\<close>

text \<open>
  Claim C2 (the code departs from it). A merge with a corrupt input must fail with 500,
  persist no merged output and remove every uploaded input. With the corrupt file first
  in the order, \<open>tempFiles\<close> holds only that file when the loop throws: the request
  fails with 500 and writes no output, but the second upload is still in the store.
\<close>

theorem mergePDFs_leaves_later_uploads:
  "mergePDFs demoLib (\<lambda>p. True) ''/app'' ''/app/uploads'' 3 mergeStore
     (Some [pdfUpload ''corrupt.pdf'' ''/app/uploads/pdfs-1.pdf'',
            pdfUpload ''good.pdf'' ''/app/uploads/pdfs-2.pdf'']) (\<lambda>k. None)
   = (mergeFailed ''Failed to process corrupt.pdf: Failed to parse PDF document'',
      [(''/app/uploads'', Dir), (''/app/uploads/pdfs-2.pdf'', File [1, 2])])
   \<and> isFile [(''/app/uploads'', Dir), (''/app/uploads/pdfs-2.pdf'', File [1, 2])]
        ''/app/uploads/pdfs-2.pdf''"
  by (simp add: mergePDFs_def orderFiles_def sortByOrder_def parseInt_def demoLib_def
      pdfUpload_def mergeStore_def processFailed_def fs_defs)

subsection \<open>Compress\<close>

text \<open>
  Claim C5 (the code departs from it). A successful compress response must never report
  a compressed size above the original size. At level \<open>high\<close> the deflated size (1700)
  is compared with 90% of the current size (2000), and then the first 1024 bytes of the
  current file are put in front of the deflated data: the output has 2724 bytes, and the
  response reports 3 KB compressed for 2 KB original, with ratio 0.
\<close>

theorem compressPDF_high_reports_growth:
  "fst (compressPDF failingLib (\<lambda>level b. replicate 1700 1) (\<lambda>p. True) ''/app'' ''/app/uploads''
          (\<lambda>l. l) compressStore (Some (pdfUpload ''doc.pdf'' ''/app/uploads/pdf-1.pdf''))
          (Some ''high''))
   = Json 200 (JObj
       [(''success'', JBool True),
        (''message'', JStr ''PDF processed successfully (no size reduction achieved)''),
        (''originalFile'', JStr ''doc.pdf''),
        (''originalSize'', JNum 2),
        (''compressedSize'', JNum 3),
        (''compressionRatio'', JNum 0),
        (''url'', JStr ''/uploads/compressed-408.pdf''),
        (''fullPath'', JStr ''/app/uploads/compressed-408.pdf'')])"
  by (simp add: compressPDF_def compressTry_def compressBinary_def compressLibPass_def
      compressZlibPass_def failingLib_def pdfUpload_def compressStore_def orDefault_def
      artifactName_def fs_defs path_defs showNat.simps digitChar_def sizeKB_def
      reportedRatio_def roundedRatio_def ratioPositive_def divDouble_def roundTo53_def
      mathRound_def nearestEven_def bitlen.simps Let_def)

subsection \<open>Storage names\<close>

text \<open>
  Claim C6, as stated, fails: two parts of one \<open>pdfs\<close> upload stored in the same
  millisecond, \<open>a.pdf\<close> and \<open>b.pdf\<close>, are given the same storage name, and two merge
  outputs of the same millisecond have the same name.
\<close>

theorem storage_filename_collision:
  "storage_filename ''pdfs'' ''a.pdf'' 1700000000000 = storage_filename ''pdfs'' ''b.pdf'' 1700000000000
   \<and> ''a.pdf'' \<noteq> ''b.pdf''
   \<and> artifactName ''merged'' 1700000000000 = artifactName ''merged'' 1700000000000"
  by (simp add: storage_filename_def path_extname_def path_basename_def)

text \<open>
  Claim C6, amended. Two parts with the same field name and the same original extension
  have distinct storage names exactly when their timestamps differ, and two outputs of
  the same operation have distinct names exactly when their timestamps differ.
\<close>

theorem storage_filename_distinct_iff:
  "(path_extname o1 = path_extname o2 \<longrightarrow>
      (storage_filename f o1 t1 = storage_filename f o2 t2) = (t1 = t2))
   \<and> (artifactName prefix t1 = artifactName prefix t2) = (t1 = t2)"
  by (simp add: storage_filename_def artifactName_def showNat_eq_iff)

theorem storage_filename_distinct_iff_witness:
  "path_extname ''a.pdf'' = path_extname ''b.pdf''
   \<and> storage_filename ''pdfs'' ''a.pdf'' 1700000000000 \<noteq> storage_filename ''pdfs'' ''b.pdf'' 1700000000001
   \<and> artifactName ''merged'' 1700000000000 \<noteq> artifactName ''merged'' 1700000000001"
  using storage_filename_distinct_iff [of "''a.pdf''" "''b.pdf''" "''pdfs''" 1700000000000 1700000000001 "''merged''"]
  by (simp add: path_extname_def path_basename_def)

subsection \<open>Ordering resolution\<close>

lemma collectOrdered_eq:
  "collectOrdered body files acc =
     acc @ zip files (map (resolvedIndex body) [length acc..<length acc + length files])"
proof (induction files arbitrary: acc)
  case Nil
  then show ?case by simp
next
  case (Cons u us)
  have "[length acc..<length acc + length (u # us)] =
        length acc # [Suc (length acc)..<Suc (length acc) + length us]"
    by (simp add: upt_rec)
  then show ?case
    by (simp add: Cons.IH resolvedIndex_def Let_def)
qed

lemma collectOrdered_zip:
  "collectOrdered body files [] = zip files (map (resolvedIndex body) [0..<length files])"
  by (simp add: collectOrdered_eq)

lemma orderFiles_mset: "mset (orderFiles body files) = mset files"
proof -
  have "mset (map fst (sort_key snd (collectOrdered body files []))) =
        mset (map fst (collectOrdered body files []))"
    by (metis mset_map mset_sort)
  then show ?thesis
    by (simp add: orderFiles_def sortByOrder_def collectOrdered_zip)
qed



lemma imageLoop_eq:
  "imageLoop lib fs dims files (pdfPages, tempFiles, imageDetails) = (P, T, D) \<Longrightarrow>
     P = pdfPages @ map (pageFor lib fs dims) (filter (hasMetadata lib fs) files)
     \<and> T = tempFiles @ map path (filter (hasMetadata lib fs) files)
     \<and> length D = length imageDetails
          + length (filter (\<lambda>f. hasMetadata lib fs f \<and> embeds lib fs f) files)"
proof (induction files arbitrary: pdfPages tempFiles imageDetails)
  case Nil
  then show ?case by simp
next
  case (Cons u us)
  show ?case
  proof (cases "hasMetadata lib fs u")
    case False
    then have "imageLoop lib fs dims us (pdfPages, tempFiles, imageDetails) = (P, T, D)"
      using Cons.prems by (auto simp: hasMetadata_def split: sum.splits)
    from Cons.IH [OF this] False show ?thesis by simp
  next
    case True
    then obtain b i where r: "readFile fs (path u) = Inr b"
      and m: "sharp_metadata lib b = Inr i"
      by (auto simp: hasMetadata_def split: sum.splits)
    show ?thesis
    proof (cases "kit_image lib b")
      case True
      then have e: "embeds lib fs u" by (simp add: embeds_def r)
      from Cons.prems r m True obtain d where
        "imageLoop lib fs dims us
           (pdfPages @ [pageFor lib fs dims u], tempFiles @ [path u], imageDetails @ [d])
         = (P, T, D)"
        by (simp add: pageFor_def e)
      from Cons.IH [OF this] \<open>hasMetadata lib fs u\<close> e show ?thesis by simp
    next
      case False
      then have e: "\<not> embeds lib fs u" by (simp add: embeds_def r)
      from Cons.prems r m False have
        "imageLoop lib fs dims us
           (pdfPages @ [pageFor lib fs dims u], tempFiles @ [path u], imageDetails)
         = (P, T, D)"
        by (simp add: pageFor_def e)
      from Cons.IH [OF this] \<open>hasMetadata lib fs u\<close> e show ?thesis by simp
    qed
  qed
qed



lemma map_of_unlinkAll_other: "q \<notin> set ps \<Longrightarrow> map_of (unlinkAll fs ps) q = map_of fs q"
  unfolding unlinkAll_def
  by (induction ps arbitrary: fs) (auto simp: map_of_unlinkQuiet)

lemma map_of_writeFile:
  "writeFile wr fs p b = Inr fs' \<Longrightarrow> map_of fs' = (map_of fs)(p \<mapsto> File b)"
  by (auto simp: writeFile_def update_conv' split: if_splits option.splits node.splits)


lemma image_success_output:
  assumes "imageToPDF lib wr cwd uploadDir now fs (Some files) pageSize orientation body = (resp, fs')"
    and "status resp = 200"
    and "path_join [uploadDir, artifactName ''image-pdf'' now] \<notin> set (map path files)"
  shows "map_of fs' (path_join [uploadDir, artifactName ''image-pdf'' now]) =
           Some (File (kit_render lib
             (map (pageFor lib fs (requestPageDimensions pageSize orientation))
                (filter (hasMetadata lib fs) (orderFiles body files)))))"
proof -
  let ?out = "path_join [uploadDir, artifactName ''image-pdf'' now]"
  let ?dims = "requestPageDimensions pageSize orientation"
  obtain P T D where loop: "imageLoop lib fs ?dims (orderFiles body files) ([], [], []) = (P, T, D)"
    by (metis prod_cases3)
  from imageLoop_eq [OF loop] have
    P: "P = map (pageFor lib fs ?dims) (filter (hasMetadata lib fs) (orderFiles body files))" and
    T: "T = map path (filter (hasMetadata lib fs) (orderFiles body files))"
    by simp_all
  from assms(1,2) loop obtain fs1 where
    w: "writeFile wr fs ?out (kit_render lib P) = Inr fs1" and
    f: "fs' = unlinkAll fs1 T"
    by (auto simp: imageToPDF_def Let_def split: if_splits option.splits sum.splits)
  have "set (orderFiles body files) = set files"
    by (metis orderFiles_mset set_mset_mset)
  with assms(3) T have "?out \<notin> set T" by auto
  then have "map_of fs' ?out = map_of fs1 ?out"
    by (simp add: f map_of_unlinkAll_other)
  with map_of_writeFile [OF w] P show ?thesis by simp
qed











lemma mergePDFs_reversed:
  "mergePDFs demoLib (\<lambda>p. True) ''/app'' ''/app/uploads'' 3 orderStore
           (Some [pdfUpload ''a.pdf'' ''/app/uploads/pdfs-1.pdf'',
                  pdfUpload ''b.pdf'' ''/app/uploads/pdfs-2.pdf'']) reversedOrder = 
   (Json 200
   (JObj
     [(''mergedPdfPath'', JStr ''/app/uploads/merged-3.pdf''),
      (''url'', JStr ''/uploads/merged-3.pdf''),
      (''message'', JStr ''PDFs merged successfully''),
      (''details'', JObj [(''totalPages'', JNum 3), (''fileCount'', JNum 2)])]),
  [(''/app/uploads'', Dir), (''/app/uploads/pdfs-1.pdf'', File [10, 11]),
   (''/app/uploads/pdfs-2.pdf'', File [20]),
   (''/app/uploads/merged-3.pdf'', File [20, 10, 11])])"
  by (simp add: mergePDFs_def orderFiles_def sortByOrder_def demoLib_def
      pdfUpload_def orderStore_def reversedOrder_def artifactName_def defaultSave_def
      PDFDocument_create_def addPages_def copyPages_def fs_defs path_defs parse_defs Let_def)

lemma imageToPDF_three:
  "imageToPDF demoKit (\<lambda>p. True) ''/app'' ''/app/uploads'' 4 imageStore
         (Some [imageUpload ''one.png'' ''image/png'' ''/app/uploads/images-1.png'',
                imageUpload ''two.gif'' ''image/gif'' ''/app/uploads/images-2.gif'',
                imageUpload ''three.png'' ''image/png'' ''/app/uploads/images-3.png''])
         (Some ''letter'') (Some ''landscape'') imageOrder =
   (Json 200
   (JObj
     [(''fullPath'', JStr ''/app/uploads/image-pdf-4.pdf''),
      (''url'', JStr ''/uploads/image-pdf-4.pdf''),
      (''message'', JStr ''Successfully created PDF with 2 images''),
      (''details'',
       JObj
        [(''totalPages'', JNum 2), (''fileCount'', JNum 3),
         (''pageSize'', JStr ''letter''),
         (''orientation'', JStr ''landscape'')])]),
  [(''/app/uploads'', Dir),
   (''/app/uploads/image-pdf-4.pdf'',
    File [792, 612, 0, 792, 612, 25, 792, 612, 25])])"
  by (simp add: imageToPDF_def orderFiles_def sortByOrder_def demoKit_def
      imageUpload_def imageStore_def imageOrder_def artifactName_def 
      requestPageDimensions_def pageDimensions_def pageSizeTable_def orDefault_def
      toLowerCase_def lowerChar_def
      fs_defs path_defs parse_defs Let_def)


subsection \<open>Split\<close>

lemma splitPage_eq:
  assumes "map_of fs uploadDir = Some Dir"
  shows "splitPage lib wr cwd uploadDir now pdfDoc i fs =
     (if pageSplits lib wr uploadDir now fs pdfDoc i
      then (AList.update (splitOutputPath uploadDir now i)
              (File (case savedPage lib pdfDoc i of Inl err \<Rightarrow> [] | Inr b \<Rightarrow> b)) fs,
            Some (pageEntry lib cwd uploadDir now pdfDoc i, splitOutputPath uploadDir now i))
      else (fs, None))"
  using assms
  by (auto simp: splitPage_def pageSplits_def savedPage_def pageEntry_def splitOutputPath_def
      mkdir_recursive_def writeFile_def Let_def split: sum.splits option.splits node.splits)

lemma splitLoop_eq:
  assumes "splitLoop lib wr cwd uploadDir now pdfDoc is (fs, R, T) = (fs', R', T')"
    and "map_of fs uploadDir = Some Dir"
    and "\<forall>q. (map_of fs q = Some Dir) = (map_of fs0 q = Some Dir)"
  shows "R' = R @ map (pageEntry lib cwd uploadDir now pdfDoc)
                    (filter (pageSplits lib wr uploadDir now fs0 pdfDoc) is)
     \<and> T' = T @ map (splitOutputPath uploadDir now)
                    (filter (pageSplits lib wr uploadDir now fs0 pdfDoc) is)
     \<and> (\<forall>q. isFile fs' q =
            (isFile fs q \<or> q \<in> splitOutputPath uploadDir now `
                set (filter (pageSplits lib wr uploadDir now fs0 pdfDoc) is)))"
  using assms
proof (induction "is" arbitrary: fs R T)
  case Nil
  then show ?case by simp
next
  case (Cons i js)
  have same: "pageSplits lib wr uploadDir now fs pdfDoc i = pageSplits lib wr uploadDir now fs0 pdfDoc i"
    using Cons.prems(3) by (simp add: pageSplits_def)
  show ?case
  proof (cases "pageSplits lib wr uploadDir now fs0 pdfDoc i")
    case False
    with same Cons.prems(1,2) have
      "splitLoop lib wr cwd uploadDir now pdfDoc js (fs, R, T) = (fs', R', T')"
      by (simp add: splitPage_eq)
    from Cons.IH [OF this Cons.prems(2,3)] False show ?thesis by simp
  next
    case True
    let ?p = "splitOutputPath uploadDir now i"
    let ?fs = "AList.update ?p (File (case savedPage lib pdfDoc i of Inl err \<Rightarrow> [] | Inr b \<Rightarrow> b)) fs"
    from True same Cons.prems(1,2) have loop:
      "splitLoop lib wr cwd uploadDir now pdfDoc js
         (?fs, R @ [pageEntry lib cwd uploadDir now pdfDoc i], T @ [?p]) = (fs', R', T')"
      by (simp add: splitPage_eq)
    from True have nd: "map_of fs0 ?p \<noteq> Some Dir" by (simp add: pageSplits_def)
    with Cons.prems(3) have nd': "map_of fs ?p \<noteq> Some Dir" by simp
    with Cons.prems(2) have ne: "?p \<noteq> uploadDir" by auto
    have d: "map_of ?fs uploadDir = Some Dir"
      using Cons.prems(2) ne by (simp add: update_conv')
    have s: "\<forall>q. (map_of ?fs q = Some Dir) = (map_of fs0 q = Some Dir)"
      using Cons.prems(3) nd by (auto simp: update_conv')
    have f: "\<And>q. isFile ?fs q = (q = ?p \<or> isFile fs q)"
      by (auto simp: isFile_def update_conv')
    from Cons.IH [OF loop d s] True f show ?thesis by auto
  qed
qed



lemma split_unfold:
  assumes "str_includes (mimetype f) ''pdf''"
    and "readFile fs (path f) = Inr pdfBytes"
    and "pdf_load lib False pdfBytes = Inr pdfDoc"
  shows "splitPDF lib wr cwd uploadDir now fs (Some f) =
     (if length (pages pdfDoc) \<le> 1 then
        (Json 400 (JObj [(''error'', JStr ''PDF must have more than one page to split'')]),
         unlinkQuiet fs (path f), [])
      else
        (case splitLoop lib wr cwd uploadDir now pdfDoc [0..<length (pages pdfDoc)]
                (fs, [], [path f]) of
           (fs', splitResults, tempFiles) \<Rightarrow>
             if length splitResults = 0 then
               (Json 500 (JObj
                  [(''error'', JStr ''Failed to split any pages''),
                   (''details'', JStr ''All page splitting attempts failed'')]),
                unlinkAll fs' tempFiles, [])
             else
               (Json 200 (JObj
                  [(''success'', JBool True),
                   (''message'', JStr (''PDF split into '' @
                      showNat (length splitResults) @ '' pages'')),
                   (''pages'', JArr splitResults),
                   (''originalFile'', JStr (originalname f))]),
                fs', [(3600000, map Unlink tempFiles)])))"
proof -
  have acc: "access fs (path f) = Inr ()"
    using assms(2) by (auto simp: access_def readFile_def split: option.splits)
  show ?thesis
    unfolding splitPDF_def by (simp add: assms acc Let_def)
qed

lemma digitChar_digit: "d < 10 \<Longrightarrow> digitChar d \<in> set ''0123456789''"
  unfolding digitChar_def by (rule nth_mem) simp

lemma showNat_digits: "set (showNat n) \<subseteq> set ''0123456789''"
proof (induction n rule: showNat.induct)
  case (1 n)
  show ?case
  proof (cases "n < 10")
    case True
    with digitChar_digit [of n] show ?thesis
      by (subst showNat.simps) simp
  next
    case False
    with 1 have "set (showNat (n div 10)) \<subseteq> set ''0123456789''" by simp
    moreover have "digitChar (n mod 10) \<in> set ''0123456789''"
      by (rule digitChar_digit) simp
    ultimately show ?thesis
      using False by (subst showNat.simps) simp
  qed
qed

lemma showNat_no_dash: "CHR ''-'' \<notin> set (showNat n)"
  using showNat_digits [of n] by auto

lemma showNat_no_slash: "CHR ''/'' \<notin> set (showNat n)"
  using showNat_digits [of n] by auto

lemma append_sep_eq:
  assumes "c \<notin> set xs" and "c \<notin> set ys" and "xs @ c # r = ys @ c # r'"
  shows "xs = ys"
proof -
  from assms(1) have "takeWhile (\<lambda>d. d \<noteq> c) (xs @ c # r) = xs"
    by (auto simp: takeWhile_tail)
  moreover from assms(2) have "takeWhile (\<lambda>d. d \<noteq> c) (ys @ c # r') = ys"
    by (auto simp: takeWhile_tail)
  ultimately show ?thesis using assms(3) by simp
qed

lemma segments_nonempty: "segments s \<noteq> []"
  by (induction s) (auto split: list.splits)

lemma segments_append: "segments (xs @ CHR ''/'' # ys) = segments xs @ segments ys"
proof (induction xs)
  case Nil
  then show ?case by simp
next
  case (Cons c cs)
  obtain s ss where "segments cs = s # ss"
    using segments_nonempty [of cs] by (cases "segments cs") auto
  with Cons show ?case by simp
qed

lemma segments_no_slash: "CHR ''/'' \<notin> set s \<Longrightarrow> segments s = [s]"
  by (induction s) auto

lemma joinWith_snoc:
  "joinWith sep (R @ [n]) = (if R = [] then n else joinWith sep R @ sep @ n)"
  by (induction sep R rule: joinWith.induct) simp_all

lemma path_join_file:
  assumes "CHR ''/'' \<notin> set n" and "n \<noteq> []" and "n \<noteq> ''.''" and "n \<noteq> ''..''"
  shows "path_join [u, n] =
     (if u = [] then n
      else (if path_isAbsolute u then ''/'' else []) @
           (if foldl (normStep (\<not> path_isAbsolute u)) [] (segments u) = [] then n
            else joinWith ''/'' (foldl (normStep (\<not> path_isAbsolute u)) [] (segments u))
                   @ ''/'' @ n))"
proof (cases "u = []")
  case True
  from assms(1,2) have h: "hd n \<noteq> CHR ''/''" and l: "last n \<noteq> CHR ''/''"
    by (metis hd_in_set, metis last_in_set)
  from True assms h l show ?thesis
    by (simp add: path_join_def path_normalize_def path_isAbsolute_def normalizeString_def
        segments_no_slash normStep_def Let_def)
next
  case False
  let ?j = "u @ ''/'' @ n"
  have abs: "path_isAbsolute ?j = path_isAbsolute u"
    using False by (simp add: path_isAbsolute_def)
  from assms(1,2) have l: "last ?j \<noteq> CHR ''/''"
    by (metis last_in_set last_appendR append_is_Nil_conv)
  have seg: "segments ?j = segments u @ [n]"
    using assms(1) by (simp add: segments_append segments_no_slash)
  have st: "foldl (normStep a) [] (segments ?j) = foldl (normStep a) [] (segments u) @ [n]" for a
    unfolding seg using assms by (simp add: normStep_def)
  have j: "joinWith ''/'' (filter (\<lambda>a. a \<noteq> []) [u, n]) = ?j"
    using False assms(2) by simp
  have ne: "?j \<noteq> []" using False by simp
  show ?thesis
    unfolding path_join_def j Let_def path_normalize_def normalizeString_def st abs
    using False ne l assms(2) by (simp add: joinWith_snoc)
qed

lemma path_join_inj:
  assumes "CHR ''/'' \<notin> set n" and "n \<noteq> []" and "n \<noteq> ''.''" and "n \<noteq> ''..''"
    and "CHR ''/'' \<notin> set m" and "m \<noteq> []" and "m \<noteq> ''.''" and "m \<noteq> ''..''"
    and "path_join [u, n] = path_join [u, m]"
  shows "n = m"
  using assms(9)
  unfolding path_join_file [OF assms(1,2,3,4)] path_join_file [OF assms(5,6,7,8)]
  by (simp split: if_splits)

lemma splitOutputPath_inj:
  assumes "splitOutputPath uploadDir now i = splitOutputPath uploadDir now j"
  shows "i = j"
proof -
  let ?n = "\<lambda>i. artifactName (''split-page-'' @ showNat (i + 1)) (now i)"
  have g1: "CHR ''/'' \<notin> set (?n k)" for k
    by (simp add: artifactName_def showNat_no_slash)
  have g2: "?n k \<noteq> []" and g3: "?n k \<noteq> ''.''" and g4: "?n k \<noteq> ''..''" for k
    by (simp_all add: artifactName_def)
  have "?n i = ?n j"
    by (rule path_join_inj [OF g1 g2 g3 g4 g1 g2 g3 g4 assms [unfolded splitOutputPath_def]])
  then have "showNat (i + 1) @ CHR ''-'' # (showNat (now i) @ ''.pdf'')
           = showNat (j + 1) @ CHR ''-'' # (showNat (now j) @ ''.pdf'')"
    by (simp add: artifactName_def)
  then have "showNat (i + 1) = showNat (j + 1)"
    by (rule append_sep_eq [OF showNat_no_dash showNat_no_dash])
  then show ?thesis by (simp add: showNat_eq_iff)
qed

lemma splitLoop_files:
  assumes "splitLoop lib wr cwd uploadDir now pdfDoc is (fs, R, T) = (fs', R', T')"
    and "map_of fs uploadDir = Some Dir"
    and "\<forall>q. (map_of fs q = Some Dir) = (map_of fs0 q = Some Dir)"
    and "distinct is"
  shows "(\<forall>i\<in>set (filter (pageSplits lib wr uploadDir now fs0 pdfDoc) is).
            map_of fs' (splitOutputPath uploadDir now i) =
              Some (File (case savedPage lib pdfDoc i of Inl err \<Rightarrow> [] | Inr b \<Rightarrow> b)))
     \<and> (\<forall>q. q \<notin> splitOutputPath uploadDir now `
                  set (filter (pageSplits lib wr uploadDir now fs0 pdfDoc) is)
            \<longrightarrow> map_of fs' q = map_of fs q)"
  using assms
proof (induction "is" arbitrary: fs R T)
  case Nil
  then show ?case by simp
next
  case (Cons i js)
  have same: "pageSplits lib wr uploadDir now fs pdfDoc i = pageSplits lib wr uploadDir now fs0 pdfDoc i"
    using Cons.prems(3) by (simp add: pageSplits_def)
  from Cons.prems(4) have dj: "distinct js" and nj: "i \<notin> set js" by simp_all
  show ?case
  proof (cases "pageSplits lib wr uploadDir now fs0 pdfDoc i")
    case False
    with same Cons.prems(1,2) have
      "splitLoop lib wr cwd uploadDir now pdfDoc js (fs, R, T) = (fs', R', T')"
      by (simp add: splitPage_eq)
    from Cons.IH [OF this Cons.prems(2,3) dj] False show ?thesis by simp
  next
    case True
    let ?p = "splitOutputPath uploadDir now i"
    let ?fs = "AList.update ?p (File (case savedPage lib pdfDoc i of Inl err \<Rightarrow> [] | Inr b \<Rightarrow> b)) fs"
    from True same Cons.prems(1,2) have loop:
      "splitLoop lib wr cwd uploadDir now pdfDoc js
         (?fs, R @ [pageEntry lib cwd uploadDir now pdfDoc i], T @ [?p]) = (fs', R', T')"
      by (simp add: splitPage_eq)
    from True have nd: "map_of fs0 ?p \<noteq> Some Dir" by (simp add: pageSplits_def)
    with Cons.prems(3) have nd': "map_of fs ?p \<noteq> Some Dir" by simp
    with Cons.prems(2) have ne: "?p \<noteq> uploadDir" by auto
    have d: "map_of ?fs uploadDir = Some Dir"
      using Cons.prems(2) ne by (simp add: update_conv')
    have s: "\<forall>q. (map_of ?fs q = Some Dir) = (map_of fs0 q = Some Dir)"
      using Cons.prems(3) nd by (auto simp: update_conv')
    note ih = Cons.IH [OF loop d s dj]
    have out: "?p \<notin> splitOutputPath uploadDir now `
                  set (filter (pageSplits lib wr uploadDir now fs0 pdfDoc) js)"
    proof
      assume "?p \<in> splitOutputPath uploadDir now `
                  set (filter (pageSplits lib wr uploadDir now fs0 pdfDoc) js)"
      then obtain k where k: "k \<in> set js" and "?p = splitOutputPath uploadDir now k"
        by auto
      from splitOutputPath_inj [OF this(2)] k nj show False by simp
    qed
    with ih have here: "map_of fs' ?p = map_of ?fs ?p" by blast
    have A: "\<forall>k\<in>set (filter (pageSplits lib wr uploadDir now fs0 pdfDoc) (i # js)).
            map_of fs' (splitOutputPath uploadDir now k) =
              Some (File (case savedPage lib pdfDoc k of Inl err \<Rightarrow> [] | Inr b \<Rightarrow> b))"
      using ih here True by (auto simp: update_conv')
    have B: "\<forall>q. q \<notin> splitOutputPath uploadDir now `
                  set (filter (pageSplits lib wr uploadDir now fs0 pdfDoc) (i # js))
            \<longrightarrow> map_of fs' q = map_of fs q"
    proof (intro allI impI)
      fix q
      assume q: "q \<notin> splitOutputPath uploadDir now `
                  set (filter (pageSplits lib wr uploadDir now fs0 pdfDoc) (i # js))"
      with True have "q \<noteq> ?p" and
        "q \<notin> splitOutputPath uploadDir now `
                  set (filter (pageSplits lib wr uploadDir now fs0 pdfDoc) js)"
        by auto
      with ih show "map_of fs' q = map_of fs q"
        by (simp add: update_conv')
    qed
    from A B show ?thesis by (rule conjI)
  qed
qed

lemma projr_case: "\<not> isl x \<Longrightarrow> (case x of Inl err \<Rightarrow> [] | Inr b \<Rightarrow> b) = projr x"
  by (cases x) simp_all

text \<open>
  Claim C8. For a split request whose upload is a PDF that loads, in a store whose upload
  directory exists. With at most one page the answer is 400, the upload is removed and no
  artifact is created. With \<open>N > 1\<close> pages, the turn for page index \<open>i\<close> succeeds
  when pdf-lib saves the document that holds page \<open>i\<close> alone and the output path
  \<open>split-page-(i+1)-(time).pdf\<close> in the upload directory can be written. Every page
  whose turn succeeds has its single-page document at its own output path (the paths of
  different pages differ) and no other file is created; these are all \<open>N\<close> pages when
  every turn succeeds. When no turn succeeds the answer is 500, the upload is removed and
  nothing new is left in the store; otherwise the answer is 200 and its \<open>pages\<close> field
  lists exactly the written pages, each with its path, page number, name, URL and size.
\<close>

theorem splitPDF_outcomes:
  assumes "str_includes (mimetype f) ''pdf''"
    and "readFile fs (path f) = Inr pdfBytes"
    and "pdf_load lib False pdfBytes = Inr pdfDoc"
    and "map_of fs uploadDir = Some Dir"
    and "splitPDF lib wr cwd uploadDir now fs (Some f) = (resp, fs', timers)"
    and "name = (\<lambda>i. ''split-page-'' @ showNat (i + 1) @ ''-'' @ showNat (now i) @ ''.pdf'')"
    and "out = (\<lambda>i. path_join [uploadDir, name i])"
    and "saved = (\<lambda>i. pdf_save lib \<lparr>useObjectStreams = False, objectsPerStream = 50\<rparr>
                         \<lparr>pages = [pages pdfDoc ! i], info = []\<rparr>)"
    and "succeeds = (\<lambda>i. \<not> isl (saved i) \<and> wr (out i) \<and> map_of fs (out i) \<noteq> Some Dir)"
    and "written = filter succeeds [0..<length (pages pdfDoc)]"
  shows "(length (pages pdfDoc) \<le> 1 \<longrightarrow>
            status resp = 400 \<and> \<not> isFile fs' (path f) \<and> (\<forall>q. isFile fs' q \<longrightarrow> isFile fs q))
     \<and> (1 < length (pages pdfDoc) \<and> written = [] \<longrightarrow>
            status resp = 500 \<and> \<not> isFile fs' (path f) \<and> (\<forall>q. isFile fs' q \<longrightarrow> isFile fs q))
     \<and> (1 < length (pages pdfDoc) \<and> written \<noteq> [] \<longrightarrow>
            status resp = 200
          \<and> field ''pages'' resp = Some (JArr (map (\<lambda>i.
               JObj [(''fullPath'', JStr (slashes (path_resolve cwd (out i)))),
                     (''pageNumber'', JNum (int i + 1)),
                     (''filename'', JStr (name i)),
                     (''url'', JStr (''/uploads/'' @ name i)),
                     (''size'', JNum (int (length (projr (saved i)))))]) written))
          \<and> distinct (map out written)
          \<and> list_all (\<lambda>i. map_of fs' (out i) = Some (File (projr (saved i)))) written
          \<and> (\<forall>q. isFile fs' q = (isFile fs q \<or> q \<in> set (map out written))))
     \<and> (1 < length (pages pdfDoc) \<and> list_all succeeds [0..<length (pages pdfDoc)] \<longrightarrow>
            field ''message'' resp =
              Some (JStr (''PDF split into '' @ showNat (length (pages pdfDoc)) @ '' pages''))
          \<and> distinct (map out [0..<length (pages pdfDoc)])
          \<and> list_all (\<lambda>i. map_of fs' (out i) = Some (File (projr (saved i))))
               [0..<length (pages pdfDoc)])"
proof -
  let ?N = "length (pages pdfDoc)"
  let ?P = "pageSplits lib wr uploadDir now fs pdfDoc"
  let ?done = "filter ?P [0..<?N]"
  have out: "splitOutputPath uploadDir now = out"
    by (rule ext) (simp add: splitOutputPath_def artifactName_def assms(6,7))
  have sv: "savedPage lib pdfDoc i = saved i" if "i < ?N" for i
    using that
    by (simp add: savedPage_def addPages_def PDFDocument_create_def copyPages_def assms(8))
  have P: "?P i = succeeds i" if "i < ?N" for i
    by (cases "saved i") (simp_all add: pageSplits_def sv [OF that] out assms(9))
  have dn: "?done = written"
    unfolding assms(10) by (rule filter_cong) (simp_all add: P)
  have wN: "i < ?N" and wS: "succeeds i" if "i \<in> set written" for i
    using that by (simp_all add: assms(10))
  have bytes: "(case savedPage lib pdfDoc i of Inl err \<Rightarrow> [] | Inr b \<Rightarrow> b) = projr (saved i)"
    if "i \<in> set written" for i
    using wS [OF that] by (simp add: sv [OF wN [OF that]] projr_case assms(9))
  have entry: "pageEntry lib cwd uploadDir now pdfDoc i =
        JObj [(''fullPath'', JStr (slashes (path_resolve cwd (out i)))),
              (''pageNumber'', JNum (int i + 1)),
              (''filename'', JStr (name i)),
              (''url'', JStr (''/uploads/'' @ name i)),
              (''size'', JNum (int (length (projr (saved i)))))]"
    if "i \<in> set written" for i
    unfolding pageEntry_def splitEntry_def bytes [OF that] out
    by (simp add: artifactName_def assms(6))
  have inj: "inj_on out (set xs)" for xs
    by (rule inj_onI) (metis out splitOutputPath_inj)
  have dist: "distinct (map out xs)" if "distinct xs" for xs
    using that inj by (simp add: distinct_map)
  note u = split_unfold [OF assms(1,2,3), of wr cwd uploadDir now]
  obtain fs1 R T where loop:
    "splitLoop lib wr cwd uploadDir now pdfDoc [0..<?N] (fs, [], [path f]) = (fs1, R, T)"
    by (metis prod_cases3)
  have same: "\<forall>q. (map_of fs q = Some Dir) = (map_of fs q = Some Dir)" by simp
  from splitLoop_eq [OF loop assms(4) same] have
    R: "R = map (pageEntry lib cwd uploadDir now pdfDoc) written" and
    T: "T = path f # map out written" and
    F: "\<And>q. isFile fs1 q = (isFile fs q \<or> q \<in> out ` set written)"
    by (simp_all add: dn out)
  from splitLoop_files [OF loop assms(4) same] have
    C: "\<And>i. i \<in> set written \<Longrightarrow> map_of fs1 (out i) = Some (File (projr (saved i)))"
    by (simp add: dn out bytes)
  have R': "R = map (\<lambda>i.
               JObj [(''fullPath'', JStr (slashes (path_resolve cwd (out i)))),
                     (''pageNumber'', JNum (int i + 1)),
                     (''filename'', JStr (name i)),
                     (''url'', JStr (''/uploads/'' @ name i)),
                     (''size'', JNum (int (length (projr (saved i)))))]) written"
    unfolding R by (rule map_cong) (simp_all add: entry)
  have lenR: "length R = length written" by (simp add: R)
  have A: "status resp = 400 \<and> \<not> isFile fs' (path f) \<and> (\<forall>q. isFile fs' q \<longrightarrow> isFile fs q)"
    if "?N \<le> 1"
  proof -
    from that u assms(5) have "resp = Json 400 (JObj
                 [(''error'', JStr ''PDF must have more than one page to split'')])"
      and "fs' = unlinkQuiet fs (path f)"
      by simp_all
    then show ?thesis
      by (simp add: isFile_unlinkQuiet)
  qed
  have B0: "status resp = 500 \<and> \<not> isFile fs' (path f) \<and> (\<forall>q. isFile fs' q \<longrightarrow> isFile fs q)"
    if "1 < ?N \<and> written = []"
  proof -
    from that R have "R = []" by simp
    with u assms(5) loop that have "status resp = 500" and "fs' = unlinkAll fs1 T"
      by auto
    moreover from that T have "T = [path f]" by simp
    moreover from that F have "\<And>q. isFile fs1 q = isFile fs q" by simp
    ultimately show ?thesis
      by (simp add: isFile_unlinkAll)
  qed
  have ok: "resp = Json 200 (JObj
                  [(''success'', JBool True),
                   (''message'', JStr (''PDF split into '' @
                      showNat (length written) @ '' pages'')),
                   (''pages'', JArr R),
                   (''originalFile'', JStr (originalname f))]) \<and> fs' = fs1"
    if "1 < ?N" and "written \<noteq> []"
  proof -
    from that R have "R \<noteq> []" by simp
    with u assms(5) loop that(1) lenR show ?thesis
      by auto
  qed
  have B1: "status resp = 200
          \<and> field ''pages'' resp = Some (JArr (map (\<lambda>i.
               JObj [(''fullPath'', JStr (slashes (path_resolve cwd (out i)))),
                     (''pageNumber'', JNum (int i + 1)),
                     (''filename'', JStr (name i)),
                     (''url'', JStr (''/uploads/'' @ name i)),
                     (''size'', JNum (int (length (projr (saved i)))))]) written))
          \<and> distinct (map out written)
          \<and> list_all (\<lambda>i. map_of fs' (out i) = Some (File (projr (saved i)))) written
          \<and> (\<forall>q. isFile fs' q = (isFile fs q \<or> q \<in> set (map out written)))"
    if "1 < ?N \<and> written \<noteq> []"
  proof -
    from that ok have r: "resp = Json 200 (JObj
                  [(''success'', JBool True),
                   (''message'', JStr (''PDF split into '' @
                      showNat (length written) @ '' pages'')),
                   (''pages'', JArr R),
                   (''originalFile'', JStr (originalname f))])" and f: "fs' = fs1"
      by simp_all
    have 1: "status resp = 200" by (simp add: r)
    have 2: "field ''pages'' resp = Some (JArr R)" by (simp add: r)
    have 3: "distinct (map out written)"
      by (rule dist) (simp add: assms(10))
    have 4: "list_all (\<lambda>i. map_of fs' (out i) = Some (File (projr (saved i)))) written"
      by (simp add: list_all_iff f C)
    have 5: "\<forall>q. isFile fs' q = (isFile fs q \<or> q \<in> set (map out written))"
      by (simp add: f F)
    from 1 2 [unfolded R'] 3 4 5 show ?thesis by (intro conjI)
  qed
  have B2: "field ''message'' resp =
              Some (JStr (''PDF split into '' @ showNat ?N @ '' pages''))
          \<and> distinct (map out [0..<?N])
          \<and> list_all (\<lambda>i. map_of fs' (out i) = Some (File (projr (saved i)))) [0..<?N]"
    if "1 < ?N \<and> list_all succeeds [0..<?N]"
  proof -
    from that have w: "written = [0..<?N]"
      by (simp add: assms(10) list_all_iff)
    with that have ne: "written \<noteq> []" by auto
    from that ne ok have r: "resp = Json 200 (JObj
                  [(''success'', JBool True),
                   (''message'', JStr (''PDF split into '' @
                      showNat (length written) @ '' pages'')),
                   (''pages'', JArr R),
                   (''originalFile'', JStr (originalname f))])" and f: "fs' = fs1"
      by simp_all
    have 1: "field ''message'' resp = Some (JStr (''PDF split into '' @ showNat ?N @ '' pages''))"
      by (simp add: r w)
    have 2: "distinct (map out [0..<?N])"
      by (rule dist) simp
    have 3: "list_all (\<lambda>i. map_of fs' (out i) = Some (File (projr (saved i)))) [0..<?N]"
      using C by (simp add: list_all_iff f w)
    from 1 2 3 show ?thesis by (intro conjI)
  qed
  show ?thesis
  proof (intro conjI)
    show "?N \<le> 1 \<longrightarrow>
            status resp = 400 \<and> \<not> isFile fs' (path f) \<and> (\<forall>q. isFile fs' q \<longrightarrow> isFile fs q)"
      by (rule impI) (rule A)
    show "1 < ?N \<and> written = [] \<longrightarrow>
            status resp = 500 \<and> \<not> isFile fs' (path f) \<and> (\<forall>q. isFile fs' q \<longrightarrow> isFile fs q)"
      by (rule impI) (rule B0)
    show "1 < ?N \<and> written \<noteq> [] \<longrightarrow>
            status resp = 200
          \<and> field ''pages'' resp = Some (JArr (map (\<lambda>i.
               JObj [(''fullPath'', JStr (slashes (path_resolve cwd (out i)))),
                     (''pageNumber'', JNum (int i + 1)),
                     (''filename'', JStr (name i)),
                     (''url'', JStr (''/uploads/'' @ name i)),
                     (''size'', JNum (int (length (projr (saved i)))))]) written))
          \<and> distinct (map out written)
          \<and> list_all (\<lambda>i. map_of fs' (out i) = Some (File (projr (saved i)))) written
          \<and> (\<forall>q. isFile fs' q = (isFile fs q \<or> q \<in> set (map out written)))"
      by (rule impI) (rule B1)
    show "1 < ?N \<and> list_all succeeds [0..<?N] \<longrightarrow>
            field ''message'' resp =
              Some (JStr (''PDF split into '' @ showNat ?N @ '' pages''))
          \<and> distinct (map out [0..<?N])
          \<and> list_all (\<lambda>i. map_of fs' (out i) = Some (File (projr (saved i)))) [0..<?N]"
      by (rule impI) (rule B2)
  qed
qed

theorem splitPDF_outcomes_witness:
  "status (fst (splitPDF demoLib (\<lambda>p. True) ''/app'' ''/app/uploads'' (\<lambda>i. 5) splitStore
             (Some (pdfUpload ''doc.pdf'' ''/app/uploads/pdf-1.pdf'')))) = 200
   \<and> field ''pages'' (fst (splitPDF demoLib (\<lambda>p. True) ''/app'' ''/app/uploads'' (\<lambda>i. 5) splitStore
             (Some (pdfUpload ''doc.pdf'' ''/app/uploads/pdf-1.pdf''))))
       = Some (JArr
           [JObj [(''fullPath'', JStr ''/app/uploads/split-page-1-5.pdf''),
                  (''pageNumber'', JNum 1),
                  (''filename'', JStr ''split-page-1-5.pdf''),
                  (''url'', JStr ''/uploads/split-page-1-5.pdf''),
                  (''size'', JNum 1)],
            JObj [(''fullPath'', JStr ''/app/uploads/split-page-2-5.pdf''),
                  (''pageNumber'', JNum 2),
                  (''filename'', JStr ''split-page-2-5.pdf''),
                  (''url'', JStr ''/uploads/split-page-2-5.pdf''),
                  (''size'', JNum 1)]])
   \<and> map_of (fst (snd (splitPDF demoLib (\<lambda>p. True) ''/app'' ''/app/uploads'' (\<lambda>i. 5) splitStore
             (Some (pdfUpload ''doc.pdf'' ''/app/uploads/pdf-1.pdf'')))))
        ''/app/uploads/split-page-1-5.pdf'' = Some (File [10])
   \<and> map_of (fst (snd (splitPDF demoLib (\<lambda>p. True) ''/app'' ''/app/uploads'' (\<lambda>i. 5) splitStore
             (Some (pdfUpload ''doc.pdf'' ''/app/uploads/pdf-1.pdf'')))))
        ''/app/uploads/split-page-2-5.pdf'' = Some (File [11])
   \<and> status (fst (splitPDF demoLib (\<lambda>p. False) ''/app'' ''/app/uploads'' (\<lambda>i. 5) splitStore
             (Some (pdfUpload ''doc.pdf'' ''/app/uploads/pdf-1.pdf'')))) = 500
   \<and> \<not> isFile (fst (snd (splitPDF demoLib (\<lambda>p. False) ''/app'' ''/app/uploads'' (\<lambda>i. 5) splitStore
             (Some (pdfUpload ''doc.pdf'' ''/app/uploads/pdf-1.pdf'')))))
        ''/app/uploads/pdf-1.pdf''
   \<and> status (fst (splitPDF demoLib (\<lambda>p. True) ''/app'' ''/app/uploads'' (\<lambda>i. 5) orderStore
             (Some (pdfUpload ''b.pdf'' ''/app/uploads/pdfs-2.pdf'')))) = 400
   \<and> \<not> isFile (fst (snd (splitPDF demoLib (\<lambda>p. True) ''/app'' ''/app/uploads'' (\<lambda>i. 5) orderStore
             (Some (pdfUpload ''b.pdf'' ''/app/uploads/pdfs-2.pdf'')))))
        ''/app/uploads/pdfs-2.pdf''"
proof -
  let ?f = "pdfUpload ''doc.pdf'' ''/app/uploads/pdf-1.pdf''"
  let ?g = "pdfUpload ''b.pdf'' ''/app/uploads/pdfs-2.pdf''"
  let ?doc = "\<lparr>pages = [10, 11], info = []\<rparr>"
  let ?one = "\<lparr>pages = [20], info = []\<rparr>"
  let ?r = "splitPDF demoLib (\<lambda>p. True) ''/app'' ''/app/uploads'' (\<lambda>i. 5) splitStore (Some ?f)"
  let ?s = "splitPDF demoLib (\<lambda>p. False) ''/app'' ''/app/uploads'' (\<lambda>i. 5) splitStore (Some ?f)"
  let ?t = "splitPDF demoLib (\<lambda>p. True) ''/app'' ''/app/uploads'' (\<lambda>i. 5) orderStore (Some ?g)"
  have h1: "str_includes (mimetype ?f) ''pdf''" "str_includes (mimetype ?g) ''pdf''"
    by (simp_all add: pdfUpload_def startsWith_def)
  have h2: "readFile splitStore (path ?f) = Inr [10, 11]"
    by (simp add: pdfUpload_def splitStore_def readFile_def)
  have g2: "readFile orderStore (path ?g) = Inr [20]"
    by (simp add: pdfUpload_def orderStore_def readFile_def)
  have h3: "pdf_load demoLib False [10, 11] = Inr ?doc" "pdf_load demoLib False [20] = Inr ?one"
    by (simp_all add: demoLib_def)
  have h4: "map_of splitStore ''/app/uploads'' = Some Dir" "map_of orderStore ''/app/uploads'' = Some Dir"
    by (simp_all add: splitStore_def orderStore_def)
  have h5: "?r = (fst ?r, fst (snd ?r), snd (snd ?r))" "?s = (fst ?s, fst (snd ?s), snd (snd ?s))"
    "?t = (fst ?t, fst (snd ?t), snd (snd ?t))"
    by simp_all
  have a: "status (fst ?r) = 200
     \<and> field ''pages'' (fst ?r)
       = Some (JArr
           [JObj [(''fullPath'', JStr ''/app/uploads/split-page-1-5.pdf''),
                  (''pageNumber'', JNum 1),
                  (''filename'', JStr ''split-page-1-5.pdf''),
                  (''url'', JStr ''/uploads/split-page-1-5.pdf''),
                  (''size'', JNum 1)],
            JObj [(''fullPath'', JStr ''/app/uploads/split-page-2-5.pdf''),
                  (''pageNumber'', JNum 2),
                  (''filename'', JStr ''split-page-2-5.pdf''),
                  (''url'', JStr ''/uploads/split-page-2-5.pdf''),
                  (''size'', JNum 1)]])
     \<and> map_of (fst (snd ?r)) ''/app/uploads/split-page-1-5.pdf'' = Some (File [10])
     \<and> map_of (fst (snd ?r)) ''/app/uploads/split-page-2-5.pdf'' = Some (File [11])"
    using splitPDF_outcomes [OF h1(1) h2 h3(1) h4(1) h5(1) refl refl refl refl refl]
    by (simp add: upt_rec showNat.simps digitChar_def path_defs demoLib_def splitStore_def)
  have b: "status (fst ?s) = 500 \<and> \<not> isFile (fst (snd ?s)) ''/app/uploads/pdf-1.pdf''"
    using splitPDF_outcomes [OF h1(1) h2 h3(1) h4(1) h5(2) refl refl refl refl refl]
    by (simp add: pdfUpload_def)
  have c: "status (fst ?t) = 400 \<and> \<not> isFile (fst (snd ?t)) ''/app/uploads/pdfs-2.pdf''"
    using splitPDF_outcomes [OF h1(2) g2 h3(2) h4(2) h5(3) refl refl refl refl refl]
    by (simp add: pdfUpload_def)
  show ?thesis
    by (intro conjI a [THEN conjunct1] a [THEN conjunct2, THEN conjunct1]
        a [THEN conjunct2, THEN conjunct2, THEN conjunct1]
        a [THEN conjunct2, THEN conjunct2, THEN conjunct2]
        b [THEN conjunct1] b [THEN conjunct2] c [THEN conjunct1] c [THEN conjunct2])
qed


subsection \<open>Image to PDF\<close>

lemma writeFile_ok:
  "wr p \<Longrightarrow> map_of fs p \<noteq> Some Dir \<Longrightarrow> writeFile wr fs p b = Inr (AList.update p (File b) fs)"
  by (auto simp: writeFile_def split: option.splits node.splits)

text \<open>
  Claim C10, amended. If every uploaded file passes the image MIME check, every image
  fails in the loop and the output stream finishes, \<open>imageToPDF\<close> answers 200 with
  \<open>details.totalPages\<close> 0 and writes a PDF artifact that holds one blank page for each
  image whose metadata was read (its failure came after \<open>addPage\<close>); the artifact has
  no page when every image fails at the metadata step.
\<close>

theorem imageToPDF_all_fail:
  assumes ne: "files \<noteq> []"
    and mime: "list_all (\<lambda>f. startsWith (mimetype f) ''image/'') files"
    and fail: "list_all (\<lambda>f. \<not> (hasMetadata lib fs f \<and> embeds lib fs f)) files"
    and w: "wr (path_join [uploadDir, artifactName ''image-pdf'' now])"
    and nd: "map_of fs (path_join [uploadDir, artifactName ''image-pdf'' now]) \<noteq> Some Dir"
    and fresh: "path_join [uploadDir, artifactName ''image-pdf'' now] \<notin> set (map path files)"
    and run: "imageToPDF lib wr cwd uploadDir now fs (Some files) pageSize orientation body = (resp, fs')"
  shows "status resp = 200
     \<and> (\<exists>d. field ''details'' resp = Some d \<and> jfield ''totalPages'' d = Some (JNum 0))
     \<and> map_of fs' (path_join [uploadDir, artifactName ''image-pdf'' now]) =
         Some (File (kit_render lib
           (map (\<lambda>f. \<lparr>pageWidth = fst (requestPageDimensions pageSize orientation),
                       pageHeight = snd (requestPageDimensions pageSize orientation),
                       image = None\<rparr>)
              (filter (hasMetadata lib fs) (orderFiles body files)))))
     \<and> (list_all (\<lambda>f. \<not> hasMetadata lib fs f) files \<longrightarrow>
          map_of fs' (path_join [uploadDir, artifactName ''image-pdf'' now]) =
            Some (File (kit_render lib [])))"
proof -
  let ?out = "path_join [uploadDir, artifactName ''image-pdf'' now]"
  let ?dims = "requestPageDimensions pageSize orientation"
  let ?ord = "orderFiles body files"
  have set_ord: "set ?ord = set files"
    by (metis orderFiles_mset set_mset_mset)
  obtain P T D where loop: "imageLoop lib fs ?dims ?ord ([], [], []) = (P, T, D)"
    by (metis prod_cases3)
  from fail set_ord have none: "filter (\<lambda>f. hasMetadata lib fs f \<and> embeds lib fs f) ?ord = []"
    by (auto simp: list_all_iff filter_empty_conv)
  from imageLoop_eq [OF loop] none have
    P: "P = map (pageFor lib fs ?dims) (filter (hasMetadata lib fs) ?ord)" and
    T: "T = map path (filter (hasMetadata lib fs) ?ord)" and
    D: "D = []"
    by simp_all
  have blank: "map (pageFor lib fs ?dims) (filter (hasMetadata lib fs) ?ord) =
      map (\<lambda>f. \<lparr>pageWidth = fst ?dims, pageHeight = snd ?dims, image = None\<rparr>)
        (filter (hasMetadata lib fs) ?ord)"
    using fail set_ord by (auto simp: list_all_iff pageFor_def)
  from mime have fnd: "find (\<lambda>file. \<not> startsWith (mimetype file) ''image/'') files = None"
    by (simp add: find_None_iff list_all_iff)
  from ne have len: "length files \<noteq> 0" by simp
  have wok: "writeFile wr fs ?out (kit_render lib P) = Inr (AList.update ?out (File (kit_render lib P)) fs)"
    using w nd by (rule writeFile_ok)
  have u: "imageToPDF lib wr cwd uploadDir now fs (Some files) pageSize orientation body =
      (Json 200 (JObj
         [(''fullPath'', JStr (path_resolve cwd ?out)),
          (''url'', JStr (''/uploads/'' @ artifactName ''image-pdf'' now)),
          (''message'', JStr (''Successfully created PDF with '' @ showNat (length D) @ '' images'')),
          (''details'', JObj
             [(''totalPages'', JNum (int (length D))),
              (''fileCount'', JNum (int (length files))),
              (''pageSize'', JStr (orDefault pageSize ''a4'')),
              (''orientation'', JStr (orDefault orientation ''portrait''))])]),
       unlinkAll (AList.update ?out (File (kit_render lib P)) fs) T)"
    unfolding imageToPDF_def using ne by (simp add: fnd loop wok Let_def)
  with run have r: "resp = Json 200 (JObj
         [(''fullPath'', JStr (path_resolve cwd ?out)),
          (''url'', JStr (''/uploads/'' @ artifactName ''image-pdf'' now)),
          (''message'', JStr (''Successfully created PDF with '' @ showNat (length D) @ '' images'')),
          (''details'', JObj
             [(''totalPages'', JNum (int (length D))),
              (''fileCount'', JNum (int (length files))),
              (''pageSize'', JStr (orDefault pageSize ''a4'')),
              (''orientation'', JStr (orDefault orientation ''portrait''))])])"
    and f: "fs' = unlinkAll (AList.update ?out (File (kit_render lib P)) fs) T"
    by simp_all
  from fresh T set_ord have "?out \<notin> set T" by auto
  then have "map_of fs' ?out = Some (File (kit_render lib P))"
    by (simp add: f map_of_unlinkAll_other update_conv')
  with r D P blank have main: "status resp = 200
     \<and> (\<exists>d. field ''details'' resp = Some d \<and> jfield ''totalPages'' d = Some (JNum 0))
     \<and> map_of fs' ?out =
         Some (File (kit_render lib
           (map (\<lambda>f. \<lparr>pageWidth = fst ?dims, pageHeight = snd ?dims, image = None\<rparr>)
              (filter (hasMetadata lib fs) ?ord))))"
    by simp
  have "filter (hasMetadata lib fs) ?ord = []" if "list_all (\<lambda>f. \<not> hasMetadata lib fs f) files"
    using that set_ord by (auto simp: list_all_iff filter_empty_conv)
  with main show ?thesis by simp
qed


lemma imageToPDF_gif:
  "imageToPDF demoKit (\<lambda>p. True) ''/app'' ''/app/uploads'' 4 gifStore
     (Some [imageUpload ''anim.gif'' ''image/gif'' ''/app/uploads/images-1.gif'',
            imageUpload ''empty.png'' ''image/png'' ''/app/uploads/images-2.png''])
     None None (\<lambda>k. None)
   = (Json 200 (JObj
        [(''fullPath'', JStr ''/app/uploads/image-pdf-4.pdf''),
         (''url'', JStr ''/uploads/image-pdf-4.pdf''),
         (''message'', JStr ''Successfully created PDF with 0 images''),
         (''details'', JObj
            [(''totalPages'', JNum 0), (''fileCount'', JNum 2),
             (''pageSize'', JStr ''a4''), (''orientation'', JStr ''portrait'')])]),
      [(''/app/uploads'', Dir),
       (''/app/uploads/images-2.png'', File []),
       (''/app/uploads/image-pdf-4.pdf'',
        File (kit_render demoKit [\<lparr>pageWidth = 595, pageHeight = 842, image = None\<rparr>]))])"
  by (simp add: imageToPDF_def orderFiles_def sortByOrder_def demoKit_def
      imageUpload_def gifStore_def artifactName_def
      requestPageDimensions_def pageDimensions_def pageSizeTable_def orDefault_def
      toLowerCase_def lowerChar_def fs_defs path_defs parse_defs Let_def)

text \<open>
  Claim C10, as stated, fails: with a GIF whose metadata is read but which PDFKit cannot
  embed, and an empty file, both images fail and the answer is 200 with
  \<open>totalPages\<close> 0, but the artifact written has one (blank) page, not zero pages.
\<close>

theorem imageToPDF_zero_pages_counterexample:
  "list_all (\<lambda>f. startsWith (mimetype f) ''image/'')
     [imageUpload ''anim.gif'' ''image/gif'' ''/app/uploads/images-1.gif'',
      imageUpload ''empty.png'' ''image/png'' ''/app/uploads/images-2.png'']
   \<and> list_all (\<lambda>f. \<not> (hasMetadata demoKit gifStore f \<and> embeds demoKit gifStore f))
     [imageUpload ''anim.gif'' ''image/gif'' ''/app/uploads/images-1.gif'',
      imageUpload ''empty.png'' ''image/png'' ''/app/uploads/images-2.png'']
   \<and> status (fst (imageToPDF demoKit (\<lambda>p. True) ''/app'' ''/app/uploads'' 4 gifStore
        (Some [imageUpload ''anim.gif'' ''image/gif'' ''/app/uploads/images-1.gif'',
               imageUpload ''empty.png'' ''image/png'' ''/app/uploads/images-2.png''])
        None None (\<lambda>k. None))) = 200
   \<and> map_of (snd (imageToPDF demoKit (\<lambda>p. True) ''/app'' ''/app/uploads'' 4 gifStore
        (Some [imageUpload ''anim.gif'' ''image/gif'' ''/app/uploads/images-1.gif'',
               imageUpload ''empty.png'' ''image/png'' ''/app/uploads/images-2.png''])
        None None (\<lambda>k. None))) ''/app/uploads/image-pdf-4.pdf''
       = Some (File (kit_render demoKit [\<lparr>pageWidth = 595, pageHeight = 842, image = None\<rparr>]))
   \<and> kit_render demoKit [\<lparr>pageWidth = 595, pageHeight = 842, image = None\<rparr>]
       \<noteq> kit_render demoKit []"
  unfolding imageToPDF_gif
  by (simp add: hasMetadata_def embeds_def demoKit_def imageUpload_def gifStore_def fs_defs)

theorem imageToPDF_all_fail_witness:
  "status (fst (imageToPDF demoKit (\<lambda>p. True) ''/app'' ''/app/uploads'' 4 gifStore
        (Some [imageUpload ''anim.gif'' ''image/gif'' ''/app/uploads/images-1.gif'',
               imageUpload ''empty.png'' ''image/png'' ''/app/uploads/images-2.png''])
        None None (\<lambda>k. None))) = 200
   \<and> field ''details'' (fst (imageToPDF demoKit (\<lambda>p. True) ''/app'' ''/app/uploads'' 4 gifStore
        (Some [imageUpload ''anim.gif'' ''image/gif'' ''/app/uploads/images-1.gif'',
               imageUpload ''empty.png'' ''image/png'' ''/app/uploads/images-2.png''])
        None None (\<lambda>k. None)))
       = Some (JObj [(''totalPages'', JNum 0), (''fileCount'', JNum 2),
                     (''pageSize'', JStr ''a4''), (''orientation'', JStr ''portrait'')])
   \<and> map_of (snd (imageToPDF demoKit (\<lambda>p. True) ''/app'' ''/app/uploads'' 4 gifStore
        (Some [imageUpload ''anim.gif'' ''image/gif'' ''/app/uploads/images-1.gif'',
               imageUpload ''empty.png'' ''image/png'' ''/app/uploads/images-2.png''])
        None None (\<lambda>k. None))) ''/app/uploads/image-pdf-4.pdf''
       = Some (File (kit_render demoKit [\<lparr>pageWidth = 595, pageHeight = 842, image = None\<rparr>]))"
proof -
  let ?files = "[imageUpload ''anim.gif'' ''image/gif'' ''/app/uploads/images-1.gif'',
                 imageUpload ''empty.png'' ''image/png'' ''/app/uploads/images-2.png'']"
  let ?r = "imageToPDF demoKit (\<lambda>p. True) ''/app'' ''/app/uploads'' 4 gifStore (Some ?files)
              None None (\<lambda>k. None)"
  have j: "path_join [''/app/uploads'', artifactName ''image-pdf'' 4] = ''/app/uploads/image-pdf-4.pdf''"
    by (simp add: artifactName_def path_defs parse_defs)
  have h1: "?files \<noteq> []" by simp
  have h2: "list_all (\<lambda>f. startsWith (mimetype f) ''image/'') ?files"
    by (simp add: imageUpload_def startsWith_def)
  have h3: "list_all (\<lambda>f. \<not> (hasMetadata demoKit gifStore f \<and> embeds demoKit gifStore f)) ?files"
    by (simp add: hasMetadata_def embeds_def demoKit_def imageUpload_def gifStore_def fs_defs)
  have h4: "(\<lambda>p. True) (path_join [''/app/uploads'', artifactName ''image-pdf'' 4])" by simp
  have h5: "map_of gifStore (path_join [''/app/uploads'', artifactName ''image-pdf'' 4]) \<noteq> Some Dir"
    unfolding j by (simp add: gifStore_def)
  have h6: "path_join [''/app/uploads'', artifactName ''image-pdf'' 4] \<notin> set (map path ?files)"
    unfolding j by (simp add: imageUpload_def)
  have h7: "?r = (fst ?r, snd ?r)" by simp
  have o: "orderFiles (\<lambda>k. None) ?files = ?files"
    by (simp add: orderFiles_def sortByOrder_def parseInt_def)
  have m: "filter (hasMetadata demoKit gifStore) ?files
             = [imageUpload ''anim.gif'' ''image/gif'' ''/app/uploads/images-1.gif'']"
    by (simp add: hasMetadata_def demoKit_def imageUpload_def gifStore_def fs_defs)
  have d: "requestPageDimensions None None = (595, 842)"
    by (simp add: requestPageDimensions_def pageDimensions_def pageSizeTable_def orDefault_def
        toLowerCase_def lowerChar_def)
  from imageToPDF_all_fail [OF h1 h2 h3 h4 h5 h6 h7]
  show ?thesis
    unfolding o m d j by (simp add: imageToPDF_gif)
qed

subsection \<open>Source cleanup\<close>

lemma compressPDF_removes_upload:
  "\<not> isFile (snd (compressPDF lib deflate wr cwd uploadDir now fs (Some f) level)) (path f)"
  by (auto simp: compressPDF_def compressTry_def compressBinary_def isFile_unlinkQuiet Let_def
      split: sum.splits prod.splits)

lemma protectPDF_removes_upload:
  "\<not> isFile (snd (protectPDF tool wr cwd uploadDir now fs (Some f) password)) (path f)"
  by (auto simp: protectPDF_def handlerCleanup_def isFile_unlinkQuiet Let_def
      dest: access_isFile split: sum.splits prod.splits)

lemma unprotectPDF_removes_upload:
  "\<not> isFile (snd (unprotectPDF tool wr cwd uploadDir now fs (Some f) password)) (path f)"
  by (auto simp: unprotectPDF_def handlerCleanup_def isFile_unlinkQuiet Let_def
      dest: access_isFile split: sum.splits prod.splits)

lemma splitPage_keeps:
  "splitPage lib wr cwd uploadDir now pdfDoc i fs = (fs', r) \<Longrightarrow> isFile fs q \<Longrightarrow> isFile fs' q"
  by (auto simp: splitPage_def Let_def isFile_mkdir isFile_writeFile split: sum.splits)

lemma splitLoop_keeps:
  "splitLoop lib wr cwd uploadDir now pdfDoc is (fs, R, T) = (fs', R', T') \<Longrightarrow>
     (isFile fs q \<longrightarrow> isFile fs' q) \<and> (\<exists>rest. T' = T @ rest)"
proof (induction "is" arbitrary: fs R T)
  case Nil
  then show ?case by simp
next
  case (Cons i js)
  obtain fs1 r where p: "splitPage lib wr cwd uploadDir now pdfDoc i fs = (fs1, r)"
    by (metis prod.exhaust)
  show ?case
  proof (cases r)
    case None
    with p Cons.prems have
      "splitLoop lib wr cwd uploadDir now pdfDoc js (fs1, R, T) = (fs', R', T')"
      by simp
    from Cons.IH [OF this] splitPage_keeps [OF p] show ?thesis by blast
  next
    case (Some e)
    obtain entry outputPath where e: "e = (entry, outputPath)" by (metis prod.exhaust)
    with Some p Cons.prems have
      "splitLoop lib wr cwd uploadDir now pdfDoc js (fs1, R @ [entry], T @ [outputPath])
         = (fs', R', T')"
      by simp
    from Cons.IH [OF this] splitPage_keeps [OF p] show ?thesis by auto
  qed
qed

lemma splitPDF_cleanup:
  assumes "splitPDF lib wr cwd uploadDir now fs (Some f) = (resp, fs', timers)"
  shows "(status resp \<noteq> 200 \<longrightarrow> \<not> isFile fs' (path f))
     \<and> (status resp = 200 \<longrightarrow>
          isFile fs' (path f) \<and> (\<exists>rest. timers = [(3600000, Unlink (path f) # rest)]))"
proof (cases "str_includes (mimetype f) ''pdf''")
  case False
  with assms show ?thesis
    by (auto simp: splitPDF_def isFile_unlinkQuiet)
next
  case pdf: True
  show ?thesis
  proof (cases "access fs (path f)")
    case (Inl e)
    with assms pdf access_isFile [OF Inl] show ?thesis
      by (auto simp: splitPDF_def)
  next
    case acc: (Inr u)
    show ?thesis
    proof (cases "case readFile fs (path f) of Inl err \<Rightarrow> Inl err
                  | Inr pdfBytes \<Rightarrow> pdf_load lib False pdfBytes")
      case (Inl e)
      with assms pdf acc show ?thesis
        by (auto simp: splitPDF_def isFile_unlinkQuiet)
    next
      case (Inr pdfDoc)
      then obtain pdfBytes where rd: "readFile fs (path f) = Inr pdfBytes"
        and ld: "pdf_load lib False pdfBytes = Inr pdfDoc"
        by (auto split: sum.splits)
      note u = split_unfold [OF pdf rd ld, of wr cwd uploadDir now]
      from rd have isf: "isFile fs (path f)" by (rule readFile_isFile)
      show ?thesis
      proof (cases "length (pages pdfDoc) \<le> 1")
        case True
        with u assms show ?thesis
          by (auto simp: isFile_unlinkQuiet)
      next
        case False
        obtain fs1 R T where loop:
          "splitLoop lib wr cwd uploadDir now pdfDoc [0..<length (pages pdfDoc)] (fs, [], [path f])
             = (fs1, R, T)"
          by (metis prod_cases3)
        from splitLoop_keeps [OF loop, of "path f"] isf obtain rest where
          k: "isFile fs1 (path f)" and T: "T = path f # rest"
          by auto
        show ?thesis
        proof (cases "R = []")
          case True
          with u assms False loop have "status resp = 500" and "fs' = unlinkAll fs1 T"
            by auto
          with T show ?thesis by (simp add: isFile_unlinkAll)
        next
          case False
          with u assms \<open>\<not> length (pages pdfDoc) \<le> 1\<close> loop have
            "status resp = 200" and "fs' = fs1" and "timers = [(3600000, map Unlink T)]"
            by auto
          with k T show ?thesis by simp
        qed
      qed
    qed
  qed
qed


lemma renderPage_keeps:
  "renderPage rlib wr cwd batchDir timestamp imageFormat quality data i fs = (fs', pushed, r) \<Longrightarrow>
     isFile fs q \<Longrightarrow> isFile fs' q"
  by (auto simp: renderPage_def Let_def isFile_writeFile split: sum.splits prod.splits)

lemma renderLoop_keeps:
  "renderLoop rlib wr cwd batchDir timestamp imageFormat quality data is (fs, R, T) = (fs', R', T') \<Longrightarrow>
     (isFile fs q \<longrightarrow> isFile fs' q) \<and> (\<exists>rest. T' = T @ rest)"
proof (induction "is" arbitrary: fs R T)
  case Nil
  then show ?case by simp
next
  case (Cons i js)
  obtain fs1 pushed r where
    p: "renderPage rlib wr cwd batchDir timestamp imageFormat quality data i fs = (fs1, pushed, r)"
    by (metis prod_cases3)
  with Cons.prems have
    "renderLoop rlib wr cwd batchDir timestamp imageFormat quality data js
       (fs1, R @ (case r of None \<Rightarrow> [] | Some e \<Rightarrow> [e]), T @ pushed) = (fs', R', T')"
    by simp
  from Cons.IH [OF this] renderPage_keeps [OF p] show ?case by auto
qed

lemma makeZip_keeps:
  "makeZip rlib wr fs zipPath R = Inr fs' \<Longrightarrow> isFile fs q \<Longrightarrow> isFile fs' q"
  by (auto simp: makeZip_def isFile_writeFile split: option.splits sum.splits)

lemma note_absent:
  "field ''note'' (imagesResponse f R zipFilename imageFormat imageQuality False) = None"
  "field ''note'' (imagesResponse f R zipFilename imageFormat imageQuality True) \<noteq> None"
  "status (imagesResponse f R zipFilename imageFormat imageQuality simple) = 200"
  by (simp_all add: imagesResponse_def)

lemma rasterize_ok:
  assumes "rasterize rlib wr cwd uploadDir batchDir timestamp imageFormat imageQuality quality fs0 f
             = Inr (resp, fs2, timers)"
  shows "status resp = 200 \<and> field ''note'' resp = None
     \<and> (isFile fs0 (path f) \<longrightarrow> isFile fs2 (path f))
     \<and> (3600000, [Unlink (path f)]) \<in> set timers"
proof -
  from assms obtain data numPages where
    rd: "readFile fs0 (path f) = Inr data" and
    gd: "pdfjs_getDocument rlib data = Inr numPages"
    by (auto simp: rasterize_def split: sum.splits)
  obtain fs1 R T where loop:
    "renderLoop rlib wr cwd batchDir timestamp imageFormat quality data [1..<numPages + 1]
       (fs0, [], [path f]) = (fs1, R, T)"
    by (metis prod_cases3)
  from assms rd gd loop have
    z: "makeZip rlib wr fs1 (path_join [uploadDir, ''pdf-images-'' @ showNat timestamp @ ''.zip'']) R
          = Inr fs2" and
    r: "resp = imagesResponse f R (''pdf-images-'' @ showNat timestamp @ ''.zip'') imageFormat
                 imageQuality False" and
    t: "timers = [(3600000, [Unlink (path f)]),
                  (86400000, [RmDir batchDir,
                     Unlink (path_join [uploadDir, ''pdf-images-'' @ showNat timestamp @ ''.zip''])])]"
    by (auto simp: rasterize_def Let_def split: if_splits sum.splits)
  from renderLoop_keeps [OF loop, of "path f"] makeZip_keeps [OF z, of "path f"]
  have "isFile fs0 (path f) \<longrightarrow> isFile fs2 (path f)" by blast
  with r t show ?thesis by (simp add: note_absent)
qed

lemma rasterize_err:
  assumes "rasterize rlib wr cwd uploadDir batchDir timestamp imageFormat imageQuality quality fs0 f
             = Inl (e, fs1, R, T)"
  shows "path f \<in> set T"
proof (cases "readFile fs0 (path f)")
  case (Inl a)
  with assms show ?thesis by (auto simp: rasterize_def)
next
  case rd: (Inr data)
  show ?thesis
  proof (cases "pdfjs_getDocument rlib data")
    case (Inl a)
    with assms rd show ?thesis by (auto simp: rasterize_def)
  next
    case (Inr numPages)
    obtain fs1' R' T' where loop:
      "renderLoop rlib wr cwd batchDir timestamp imageFormat quality data [1..<numPages + 1]
         (fs0, [], [path f]) = (fs1', R', T')"
      by (metis prod_cases3)
    from renderLoop_keeps [OF loop] obtain rest where "T' = path f # rest" by auto
    moreover from assms rd Inr loop have "T = T'"
      by (auto simp: rasterize_def Let_def split: if_splits sum.splits)
    ultimately show ?thesis by simp
  qed
qed

lemma textFallback_outcome:
  assumes "textFallback lib rlib wr cwd uploadDir batchDir timestamp imageFormat imageQuality quality
             pdfDoc f error fs1 R T = (resp, fs', timers)"
    and "path f \<in> set T"
  shows "(status resp = 500 \<and> \<not> isFile fs' (path f))
     \<or> (status resp = 200 \<and> field ''note'' resp \<noteq> None)"
  using assms
  by (auto simp: textFallback_def Let_def isFile_unlinkAll note_absent
      split: sum.splits prod.splits if_splits)

lemma pdfToImage_cleanup:
  assumes "pdfToImage lib rlib wr cwd uploadDir now fs (Some f) imageFormat imageQuality
             = (resp, fs', timers)"
  shows "(status resp = 400 \<longrightarrow> \<not> isFile fs' (path f))
     \<and> (status resp = 200 \<and> field ''note'' resp = None \<longrightarrow>
          isFile fs' (path f) \<and> (3600000, [Unlink (path f)]) \<in> set timers)
     \<and> (status resp = 500
          \<and> (\<exists>fs0. mkdir_recursive wr fs (path_join [uploadDir, ''pdf-images-'' @ showNat now])
                      = Inr fs0) \<longrightarrow>
          \<not> isFile fs' (path f))"
proof (cases "str_includes (mimetype f) ''pdf''")
  case False
  with assms show ?thesis
    by (auto simp: pdfToImage_def isFile_unlinkQuiet)
next
  case pdf: True
  show ?thesis
  proof (cases "access fs (path f)")
    case (Inl e)
    with assms pdf access_isFile [OF Inl] show ?thesis
      by (auto simp: pdfToImage_def Let_def)
  next
    case acc: (Inr u)
    show ?thesis
    proof (cases "case readFile fs (path f) of Inl err \<Rightarrow> Inl err
                  | Inr pdfBytes \<Rightarrow> pdf_load lib False pdfBytes")
      case (Inl e)
      with assms pdf acc show ?thesis
        by (auto simp: pdfToImage_def Let_def isFile_unlinkQuiet)
    next
      case ld: (Inr pdfDoc)
      then obtain pdfBytes where rd: "readFile fs (path f) = Inr pdfBytes"
        by (auto split: sum.splits)
      from rd have isf: "isFile fs (path f)" by (rule readFile_isFile)
      show ?thesis
      proof (cases "length (pages pdfDoc) = 0")
        case True
        with assms pdf acc ld show ?thesis
          by (auto simp: pdfToImage_def Let_def isFile_unlinkQuiet)
      next
        case pg: False
        let ?batchDir = "path_join [uploadDir, ''pdf-images-'' @ showNat now]"
        show ?thesis
        proof (cases "mkdir_recursive wr fs ?batchDir")
          case (Inl e)
          with assms pdf acc ld pg show ?thesis
            by (auto simp: pdfToImage_def Let_def)
        next
          case mk: (Inr fs0)
          from isFile_mkdir [OF mk] isf have isf0: "isFile fs0 (path f)" by simp
          let ?fmt = "toLowerCase (orDefault imageFormat ''png'')"
          let ?qual = "orDefault imageQuality ''medium''"
          let ?q = "if ?qual = ''high'' then 100 else if ?qual = ''low'' then 60 else (80::nat)"
          show ?thesis
          proof (cases "rasterize rlib wr cwd uploadDir ?batchDir now ?fmt ?qual ?q fs0 f")
            case (Inr r)
            with assms pdf acc ld pg mk have
              "rasterize rlib wr cwd uploadDir ?batchDir now ?fmt ?qual ?q fs0 f
                 = Inr (resp, fs', timers)"
              by (simp add: pdfToImage_def Let_def)
            from rasterize_ok [OF this] isf0 show ?thesis by simp
          next
            case (Inl x)
            obtain error fs1 R T where x: "x = (error, fs1, R, T)"
              by (metis prod_cases4)
            from Inl x have T: "path f \<in> set T" by (auto dest: rasterize_err)
            from assms pdf acc ld pg mk Inl x have
              "textFallback lib rlib wr cwd uploadDir ?batchDir now ?fmt ?qual ?q pdfDoc f error
                 fs1 R T = (resp, fs', timers)"
              by (simp add: pdfToImage_def Let_def)
            from textFallback_outcome [OF this T] show ?thesis by auto
          qed
        qed
      qed
    qed
  qed
qed

lemma imageToPDF_cleanup:
  assumes "imageToPDF lib wr cwd uploadDir now fs (Some files) pageSize orientation body = (resp, fs')"
  shows "list_all (\<lambda>f. (status resp = 400 \<or> hasMetadata lib fs f) \<longrightarrow> \<not> isFile fs' (path f)) files"
proof (cases "find (\<lambda>file. \<not> startsWith (mimetype file) ''image/'') files")
  case (Some bad)
  with assms have "fs' = unlinkAll fs (map path files)"
    by (auto simp: imageToPDF_def split: if_splits)
  then show ?thesis
    by (simp add: list_all_iff isFile_unlinkAll)
next
  case None
  show ?thesis
  proof (cases "files = []")
    case True
    then show ?thesis by simp
  next
    case False
    let ?dims = "requestPageDimensions pageSize orientation"
    let ?out = "path_join [uploadDir, artifactName ''image-pdf'' now]"
    obtain P T D where loop:
      "imageLoop lib fs ?dims (orderFiles body files) ([], [], []) = (P, T, D)"
      by (metis prod_cases3)
    from imageLoop_eq [OF loop] have
      T: "T = map path (filter (hasMetadata lib fs) (orderFiles body files))"
      by simp
    have set_ord: "set (orderFiles body files) = set files"
      by (metis orderFiles_mset set_mset_mset)
    have gone: "\<not> isFile fs' (path f)" if "f \<in> set files" and "hasMetadata lib fs f" for f
    proof -
      from that T set_ord have in_T: "path f \<in> set T" by auto
      show ?thesis
      proof (cases "writeFile wr fs ?out (kit_render lib P)")
        case (Inl e)
        with assms None False loop have "fs' = unlinkQuiet (unlinkAll fs T) ?out"
          unfolding imageToPDF_def by (simp add: Let_def)
        with in_T show ?thesis by (simp add: isFile_unlinkQuiet isFile_unlinkAll)
      next
        case (Inr fs1)
        with assms None False loop have "fs' = unlinkAll fs1 T"
          unfolding imageToPDF_def by (simp add: Let_def)
        with in_T show ?thesis by (simp add: isFile_unlinkAll)
      qed
    qed
    have "status resp \<noteq> 400"
      using assms None False loop unfolding imageToPDF_def
      by (auto simp: Let_def split: sum.splits)
    with gone show ?thesis by (simp add: list_all_iff)
  qed
qed

lemma extractText_pending:
  "extractText recognize fs (Some f) = (resp, fs', timers) \<Longrightarrow>
     fs' = fs \<and> timers = [(0, [Unlink (path f)])]"
  by (auto simp: extractText_def delfile_def split: sum.splits)


lemma splitPDF_two_pages:
  "splitPDF demoLib (\<lambda>p. True) ''/app'' ''/app/uploads'' (\<lambda>i. 5) splitStore
     (Some (pdfUpload ''doc.pdf'' ''/app/uploads/pdf-1.pdf''))
   = (Json 200 (JObj
        [(''success'', JBool True),
         (''message'', JStr ''PDF split into 2 pages''),
         (''pages'', JArr
            [JObj [(''fullPath'', JStr ''/app/uploads/split-page-1-5.pdf''),
                   (''pageNumber'', JNum 1),
                   (''filename'', JStr ''split-page-1-5.pdf''),
                   (''url'', JStr ''/uploads/split-page-1-5.pdf''),
                   (''size'', JNum 1)],
             JObj [(''fullPath'', JStr ''/app/uploads/split-page-2-5.pdf''),
                   (''pageNumber'', JNum 2),
                   (''filename'', JStr ''split-page-2-5.pdf''),
                   (''url'', JStr ''/uploads/split-page-2-5.pdf''),
                   (''size'', JNum 1)]]),
         (''originalFile'', JStr ''doc.pdf'')]),
      [(''/app/uploads'', Dir),
       (''/app/uploads/pdf-1.pdf'', File [10, 11]),
       (''/app/uploads/split-page-1-5.pdf'', File [10]),
       (''/app/uploads/split-page-2-5.pdf'', File [11])],
      [(3600000, [Unlink ''/app/uploads/pdf-1.pdf'',
                  Unlink ''/app/uploads/split-page-1-5.pdf'',
                  Unlink ''/app/uploads/split-page-2-5.pdf''])])"
  by (simp add: splitPDF_def splitPage_def splitEntry_def demoLib_def pdfUpload_def splitStore_def
      artifactName_def PDFDocument_create_def addPages_def copyPages_def
      fs_defs path_defs parse_defs Let_def upt_rec)

lemma pdfToImage_two_pages:
  "pdfToImage demoLib demoRaster (\<lambda>p. True) ''/app'' ''/app/uploads'' 7 splitStore
     (Some (pdfUpload ''doc.pdf'' ''/app/uploads/pdf-1.pdf'')) None None
   = (Json 200 (JObj
        [(''success'', JBool True),
         (''message'', JStr ''PDF converted to 2 images''),
         (''images'', JArr
            [JObj [(''fullPath'', JStr ''/app/uploads/pdf-images-7/page-1-7.png''),
                   (''pageNumber'', JNum 1),
                   (''filename'', JStr ''page-1-7.png''),
                   (''url'', JStr ''/uploads/pdf-images-7/page-1-7.png''),
                   (''size'', JNum 1), (''width'', JNum 100), (''height'', JNum 200)],
             JObj [(''fullPath'', JStr ''/app/uploads/pdf-images-7/page-2-7.png''),
                   (''pageNumber'', JNum 2),
                   (''filename'', JStr ''page-2-7.png''),
                   (''url'', JStr ''/uploads/pdf-images-7/page-2-7.png''),
                   (''size'', JNum 1), (''width'', JNum 100), (''height'', JNum 200)]]),
         (''zipUrl'', JStr ''/uploads/pdf-images-7.zip''),
         (''format'', JStr ''png''),
         (''quality'', JStr ''medium''),
         (''originalFile'', JStr ''doc.pdf'')]),
      [(''/app/uploads'', Dir),
       (''/app/uploads/pdf-1.pdf'', File [10, 11]),
       (''/app/uploads/pdf-images-7'', Dir),
       (''/app/uploads/pdf-images-7/page-1-7.png'', File [1]),
       (''/app/uploads/pdf-images-7/page-2-7.png'', File [2]),
       (''/app/uploads/pdf-images-7.zip'', File [1, 2])],
      [(3600000, [Unlink ''/app/uploads/pdf-1.pdf'']),
       (86400000, [RmDir ''/app/uploads/pdf-images-7'', Unlink ''/app/uploads/pdf-images-7.zip''])])"
  by (simp add: pdfToImage_def rasterize_def renderPage_def makeZip_def imagesResponse_def
      imageEntry_def demoLib_def demoRaster_def pdfUpload_def splitStore_def orDefault_def
      toLowerCase_def lowerChar_def fs_defs path_defs parse_defs Let_def upt_rec)

text \<open>
  Claim C3, as stated, fails: a split of a two-page PDF answers 200 while the uploaded
  input is still in the store (a timer is left to remove it an hour later), and a merge
  that succeeds leaves both uploaded inputs in the store.
\<close>

theorem source_cleanup_counterexample:
  "status (fst (splitPDF demoLib (\<lambda>p. True) ''/app'' ''/app/uploads'' (\<lambda>i. 5) splitStore
             (Some (pdfUpload ''doc.pdf'' ''/app/uploads/pdf-1.pdf'')))) = 200
   \<and> isFile (fst (snd (splitPDF demoLib (\<lambda>p. True) ''/app'' ''/app/uploads'' (\<lambda>i. 5) splitStore
             (Some (pdfUpload ''doc.pdf'' ''/app/uploads/pdf-1.pdf'')))))
        (path (pdfUpload ''doc.pdf'' ''/app/uploads/pdf-1.pdf''))
   \<and> status (fst (mergePDFs demoLib (\<lambda>p. True) ''/app'' ''/app/uploads'' 3 orderStore
           (Some [pdfUpload ''a.pdf'' ''/app/uploads/pdfs-1.pdf'',
                  pdfUpload ''b.pdf'' ''/app/uploads/pdfs-2.pdf'']) reversedOrder)) = 200
   \<and> isFile (snd (mergePDFs demoLib (\<lambda>p. True) ''/app'' ''/app/uploads'' 3 orderStore
           (Some [pdfUpload ''a.pdf'' ''/app/uploads/pdfs-1.pdf'',
                  pdfUpload ''b.pdf'' ''/app/uploads/pdfs-2.pdf'']) reversedOrder))
        (path (pdfUpload ''a.pdf'' ''/app/uploads/pdfs-1.pdf''))
   \<and> isFile (snd (mergePDFs demoLib (\<lambda>p. True) ''/app'' ''/app/uploads'' 3 orderStore
           (Some [pdfUpload ''a.pdf'' ''/app/uploads/pdfs-1.pdf'',
                  pdfUpload ''b.pdf'' ''/app/uploads/pdfs-2.pdf'']) reversedOrder))
        (path (pdfUpload ''b.pdf'' ''/app/uploads/pdfs-2.pdf''))"
  unfolding splitPDF_two_pages mergePDFs_reversed
  by (simp add: isFile_def pdfUpload_def)

text \<open>
  Claim C3, amended. Compress, protect and unprotect leave no file at the upload's path
  when they respond, on every path. Split removes the upload before every response
  other than 200; with 200 the upload is still there and a timer is left that unlinks
  it after an hour. PDF-to-image removes the upload before a 400 response and before
  the 500 response that follows the failure of both conversion methods; on the success
  of the rasteriser the upload is still there and a timer is left that unlinks it after
  an hour. Image-to-PDF removes every upload before a 400 response, and otherwise every
  upload whose metadata it read. Text extraction has only started the removal when it
  responds.
\<close>

theorem source_cleanup_by_handler:
  "\<not> isFile (snd (compressPDF lib deflate wr cwd uploadDir nows fs (Some f) level)) (path f)
   \<and> \<not> isFile (snd (protectPDF tool wr cwd uploadDir now fs (Some f) password)) (path f)
   \<and> \<not> isFile (snd (unprotectPDF tool wr cwd uploadDir now fs (Some f) password)) (path f)
   \<and> (splitPDF lib wr cwd uploadDir nows fs (Some f) = (resp, fs', timers) \<longrightarrow>
        (status resp \<noteq> 200 \<longrightarrow> \<not> isFile fs' (path f))
        \<and> (status resp = 200 \<longrightarrow>
             isFile fs' (path f) \<and> (\<exists>rest. timers = [(3600000, Unlink (path f) # rest)])))
   \<and> (pdfToImage lib rlib wr cwd uploadDir now fs (Some f) imageFormat imageQuality
          = (resp, fs', timers) \<longrightarrow>
        (status resp = 400 \<longrightarrow> \<not> isFile fs' (path f))
        \<and> (status resp = 200 \<and> field ''note'' resp = None \<longrightarrow>
             isFile fs' (path f) \<and> (3600000, [Unlink (path f)]) \<in> set timers)
        \<and> (status resp = 500
             \<and> (\<exists>fs0. mkdir_recursive wr fs (path_join [uploadDir, ''pdf-images-'' @ showNat now])
                         = Inr fs0) \<longrightarrow>
             \<not> isFile fs' (path f)))
   \<and> (imageToPDF ilib wr cwd uploadDir now fs (Some files) pageSize orientation body = (resp, fs')
        \<longrightarrow> list_all (\<lambda>f. (status resp = 400 \<or> hasMetadata ilib fs f) \<longrightarrow> \<not> isFile fs' (path f))
              files)
   \<and> (extractText recognize fs (Some f) = (resp, fs', timers) \<longrightarrow>
        fs' = fs \<and> timers = [(0, [Unlink (path f)])])"
proof -
  have c1: "\<not> isFile (snd (compressPDF lib deflate wr cwd uploadDir nows fs (Some f) level)) (path f)"
    by (rule compressPDF_removes_upload)
  have c2: "\<not> isFile (snd (protectPDF tool wr cwd uploadDir now fs (Some f) password)) (path f)"
    by (rule protectPDF_removes_upload)
  have c3: "\<not> isFile (snd (unprotectPDF tool wr cwd uploadDir now fs (Some f) password)) (path f)"
    by (rule unprotectPDF_removes_upload)
  have c4: "splitPDF lib wr cwd uploadDir nows fs (Some f) = (resp, fs', timers) \<longrightarrow>
        (status resp \<noteq> 200 \<longrightarrow> \<not> isFile fs' (path f))
        \<and> (status resp = 200 \<longrightarrow>
             isFile fs' (path f) \<and> (\<exists>rest. timers = [(3600000, Unlink (path f) # rest)]))"
    by (rule impI) (rule splitPDF_cleanup)
  have c5: "pdfToImage lib rlib wr cwd uploadDir now fs (Some f) imageFormat imageQuality
          = (resp, fs', timers) \<longrightarrow>
        (status resp = 400 \<longrightarrow> \<not> isFile fs' (path f))
        \<and> (status resp = 200 \<and> field ''note'' resp = None \<longrightarrow>
             isFile fs' (path f) \<and> (3600000, [Unlink (path f)]) \<in> set timers)
        \<and> (status resp = 500
             \<and> (\<exists>fs0. mkdir_recursive wr fs (path_join [uploadDir, ''pdf-images-'' @ showNat now])
                         = Inr fs0) \<longrightarrow>
             \<not> isFile fs' (path f))"
    by (rule impI) (rule pdfToImage_cleanup)
  have c6: "imageToPDF ilib wr cwd uploadDir now fs (Some files) pageSize orientation body = (resp, fs')
        \<longrightarrow> list_all (\<lambda>f. (status resp = 400 \<or> hasMetadata ilib fs f) \<longrightarrow> \<not> isFile fs' (path f))
              files"
    by (rule impI) (rule imageToPDF_cleanup)
  have c7: "extractText recognize fs (Some f) = (resp, fs', timers) \<longrightarrow>
        fs' = fs \<and> timers = [(0, [Unlink (path f)])]"
    by (rule impI) (rule extractText_pending)
  from c1 c2 c3 c4 c5 c6 c7 show ?thesis
    by (intro conjI)
qed

theorem source_cleanup_by_handler_witness:
  "isFile (fst (snd (splitPDF demoLib (\<lambda>p. True) ''/app'' ''/app/uploads'' (\<lambda>i. 5) splitStore
             (Some (pdfUpload ''doc.pdf'' ''/app/uploads/pdf-1.pdf'')))))
        ''/app/uploads/pdf-1.pdf''
   \<and> (\<exists>rest. snd (snd (splitPDF demoLib (\<lambda>p. True) ''/app'' ''/app/uploads'' (\<lambda>i. 5) splitStore
             (Some (pdfUpload ''doc.pdf'' ''/app/uploads/pdf-1.pdf''))))
          = [(3600000, Unlink ''/app/uploads/pdf-1.pdf'' # rest)])
   \<and> isFile (fst (snd (pdfToImage demoLib demoRaster (\<lambda>p. True) ''/app'' ''/app/uploads'' 7 splitStore
             (Some (pdfUpload ''doc.pdf'' ''/app/uploads/pdf-1.pdf'')) None None)))
        ''/app/uploads/pdf-1.pdf''
   \<and> (3600000, [Unlink ''/app/uploads/pdf-1.pdf''])
        \<in> set (snd (snd (pdfToImage demoLib demoRaster (\<lambda>p. True) ''/app'' ''/app/uploads'' 7 splitStore
             (Some (pdfUpload ''doc.pdf'' ''/app/uploads/pdf-1.pdf'')) None None)))
   \<and> \<not> isFile (snd (compressPDF failingLib (\<lambda>level b. replicate 1700 1) (\<lambda>p. True) ''/app''
             ''/app/uploads'' (\<lambda>l. l) compressStore
             (Some (pdfUpload ''doc.pdf'' ''/app/uploads/pdf-1.pdf'')) (Some ''high'')))
        ''/app/uploads/pdf-1.pdf''"
proof -
  let ?f = "pdfUpload ''doc.pdf'' ''/app/uploads/pdf-1.pdf''"
  let ?s = "splitPDF demoLib (\<lambda>p. True) ''/app'' ''/app/uploads'' (\<lambda>i. 5) splitStore (Some ?f)"
  let ?p = "pdfToImage demoLib demoRaster (\<lambda>p. True) ''/app'' ''/app/uploads'' 7 splitStore
              (Some ?f) None None"
  have pf: "path ?f = ''/app/uploads/pdf-1.pdf''" by (simp add: pdfUpload_def)
  have s200: "status (fst ?s) = 200" unfolding splitPDF_two_pages by simp
  have p200: "status (fst ?p) = 200 \<and> field ''note'' (fst ?p) = None"
    unfolding pdfToImage_two_pages by simp
  have hs: "?s = (fst ?s, fst (snd ?s), snd (snd ?s))" by simp
  have hp: "?p = (fst ?p, fst (snd ?p), snd (snd ?p))" by simp
  note a = source_cleanup_by_handler [where f = ?f, THEN conjunct2, THEN conjunct2,
      THEN conjunct2, THEN conjunct1, THEN mp, OF hs, THEN conjunct2, THEN mp, OF s200]
  note b = source_cleanup_by_handler [where f = ?f, THEN conjunct2, THEN conjunct2,
      THEN conjunct2, THEN conjunct2, THEN conjunct1, THEN mp, OF hp, THEN conjunct2,
      THEN conjunct1, THEN mp, OF p200]
  note c = source_cleanup_by_handler [where f = ?f and fs = compressStore and lib = failingLib
      and deflate = "\<lambda>level b. replicate 1700 1" and wr = "\<lambda>p. True" and cwd = "''/app''"
      and uploadDir = "''/app/uploads''" and nows = "\<lambda>l. l" and level = "Some ''high''",
      THEN conjunct1]
  from a b c show ?thesis
    unfolding pf by (intro conjI) (erule conjunct1 conjunct2)+
qed

subsection \<open>Page dimensions\<close>

lemma orderFiles_filter_length:
  "length (filter P (orderFiles body files)) = length (filter P files)"
proof -
  have "mset (filter P (orderFiles body files)) = mset (filter P files)"
    by (metis orderFiles_mset mset_filter)
  then show ?thesis by (metis size_mset)
qed

text \<open>
  Claim C9. In an image-to-PDF request that succeeds, the document written to the output
  path has one page for every image whose metadata can be read, and every page has the
  size the fixed table gives for the lower-cased page-size keyword (a4 595x842, letter
  612x792, legal 612x1008, a3 842x1191, a5 420x595, any other keyword 595x842, a
  missing keyword a4), with width and height swapped exactly when the lower-cased
  orientation keyword is \<open>landscape\<close>; letter with landscape gives pages of 792x612.
\<close>

theorem imageToPDF_page_dimensions:
  assumes "imageToPDF lib wr cwd uploadDir now fs (Some files) pageSize orientation body = (resp, fs')"
    and "status resp = 200"
    and "path_join [uploadDir, artifactName ''image-pdf'' now] \<notin> set (map path files)"
    and "keyword = toLowerCase (orDefault pageSize ''a4'')"
    and "portrait =
           (if keyword = ''a4'' then (595, 842)
            else if keyword = ''letter'' then (612, 792)
            else if keyword = ''legal'' then (612, 1008)
            else if keyword = ''a3'' then (842, 1191)
            else if keyword = ''a5'' then (420, 595)
            else (595, 842))"
    and "dims =
           (if toLowerCase (orDefault orientation ''portrait'') = ''landscape''
            then (snd portrait, fst portrait) else portrait)"
  shows "map_of fs' (path_join [uploadDir, artifactName ''image-pdf'' now]) =
           Some (File (kit_render lib
             (map (\<lambda>u. \<lparr>pageWidth = fst dims, pageHeight = snd dims,
                         image = (if embeds lib fs u then Some (path u) else None)\<rparr>)
                (filter (hasMetadata lib fs) (orderFiles body files)))))
     \<and> length (filter (hasMetadata lib fs) (orderFiles body files))
         = length (filter (hasMetadata lib fs) files)"
proof -
  have d: "requestPageDimensions pageSize orientation = dims"
    unfolding assms(4,5,6)
    by (simp add: requestPageDimensions_def pageDimensions_def pageSizeTable_def)
  have "pageFor lib fs dims =
          (\<lambda>u. \<lparr>pageWidth = fst dims, pageHeight = snd dims,
                 image = (if embeds lib fs u then Some (path u) else None)\<rparr>)"
    by (rule ext) (simp add: pageFor_def)
  with image_success_output [OF assms(1,2,3)] d show ?thesis
    by (simp add: orderFiles_filter_length)
qed

lemma imageToPDF_tabloid:
  "imageToPDF demoKit (\<lambda>p. True) ''/app'' ''/app/uploads'' 6 imageStore
         (Some [imageUpload ''one.png'' ''image/png'' ''/app/uploads/images-1.png''])
         (Some ''Tabloid'') (Some ''LANDSCAPE'') (\<lambda>k. None) =
   (Json 200
     (JObj
       [(''fullPath'', JStr ''/app/uploads/image-pdf-6.pdf''),
        (''url'', JStr ''/uploads/image-pdf-6.pdf''),
        (''message'', JStr ''Successfully created PDF with 1 images''),
        (''details'',
         JObj
          [(''totalPages'', JNum 1), (''fileCount'', JNum 1),
           (''pageSize'', JStr ''Tabloid''),
           (''orientation'', JStr ''LANDSCAPE'')])]),
    [(''/app/uploads'', Dir),
     (''/app/uploads/images-2.gif'', File [71, 73, 70]),
     (''/app/uploads/images-3.png'', File [3]),
     (''/app/uploads/image-pdf-6.pdf'', File [842, 595, 25])])"
  by (simp add: imageToPDF_def orderFiles_def sortByOrder_def demoKit_def
      imageUpload_def imageStore_def artifactName_def
      requestPageDimensions_def pageDimensions_def pageSizeTable_def orDefault_def
      toLowerCase_def lowerChar_def
      fs_defs path_defs parse_defs Let_def)

theorem imageToPDF_page_dimensions_witness:
  "map_of (snd (imageToPDF demoKit (\<lambda>p. True) ''/app'' ''/app/uploads'' 4 imageStore
           (Some [imageUpload ''one.png'' ''image/png'' ''/app/uploads/images-1.png'',
                  imageUpload ''two.gif'' ''image/gif'' ''/app/uploads/images-2.gif'',
                  imageUpload ''three.png'' ''image/png'' ''/app/uploads/images-3.png''])
           (Some ''letter'') (Some ''landscape'') imageOrder))
        ''/app/uploads/image-pdf-4.pdf''
     = Some (File (kit_render demoKit
         (map (\<lambda>u. \<lparr>pageWidth = 792, pageHeight = 612,
                     image = (if embeds demoKit imageStore u then Some (path u) else None)\<rparr>)
            (filter (hasMetadata demoKit imageStore)
               (orderFiles imageOrder
                  [imageUpload ''one.png'' ''image/png'' ''/app/uploads/images-1.png'',
                   imageUpload ''two.gif'' ''image/gif'' ''/app/uploads/images-2.gif'',
                   imageUpload ''three.png'' ''image/png'' ''/app/uploads/images-3.png''])))))
   \<and> length (filter (hasMetadata demoKit imageStore)
        [imageUpload ''one.png'' ''image/png'' ''/app/uploads/images-1.png'',
         imageUpload ''two.gif'' ''image/gif'' ''/app/uploads/images-2.gif'',
         imageUpload ''three.png'' ''image/png'' ''/app/uploads/images-3.png'']) = 3
   \<and> map_of (snd (imageToPDF demoKit (\<lambda>p. True) ''/app'' ''/app/uploads'' 6 imageStore
           (Some [imageUpload ''one.png'' ''image/png'' ''/app/uploads/images-1.png''])
           (Some ''Tabloid'') (Some ''LANDSCAPE'') (\<lambda>k. None)))
        ''/app/uploads/image-pdf-6.pdf''
     = Some (File (kit_render demoKit
         [\<lparr>pageWidth = 842, pageHeight = 595, image = Some ''/app/uploads/images-1.png''\<rparr>]))"
proof -
  let ?images = "[imageUpload ''one.png'' ''image/png'' ''/app/uploads/images-1.png'',
                  imageUpload ''two.gif'' ''image/gif'' ''/app/uploads/images-2.gif'',
                  imageUpload ''three.png'' ''image/png'' ''/app/uploads/images-3.png'']"
  let ?one = "[imageUpload ''one.png'' ''image/png'' ''/app/uploads/images-1.png'']"
  have l: "toLowerCase (orDefault (Some ''letter'') ''a4'') = ''letter''"
    "toLowerCase (orDefault (Some ''landscape'') ''portrait'') = ''landscape''"
    "toLowerCase (orDefault (Some ''Tabloid'') ''a4'') = ''tabloid''"
    "toLowerCase (orDefault (Some ''LANDSCAPE'') ''portrait'') = ''landscape''"
    by (simp_all add: toLowerCase_def lowerChar_def orDefault_def)
  have ji: "path_join [''/app/uploads'', artifactName ''image-pdf'' 4] = ''/app/uploads/image-pdf-4.pdf''"
    "path_join [''/app/uploads'', artifactName ''image-pdf'' 6] = ''/app/uploads/image-pdf-6.pdf''"
    by (simp_all add: artifactName_def path_defs parse_defs)
  have ni: "path_join [''/app/uploads'', artifactName ''image-pdf'' 4] \<notin> set (map path ?images)"
    "path_join [''/app/uploads'', artifactName ''image-pdf'' 6] \<notin> set (map path ?one)"
    unfolding ji by (simp_all add: imageUpload_def)
  have c: "length (filter (hasMetadata demoKit imageStore) ?images) = 3"
    by (simp add: hasMetadata_def demoKit_def imageStore_def imageUpload_def fs_defs)
  have e: "map (\<lambda>u. \<lparr>pageWidth = 842, pageHeight = 595,
                     image = (if embeds demoKit imageStore u then Some (path u) else None)\<rparr>)
            (filter (hasMetadata demoKit imageStore) (orderFiles (\<lambda>k. None) ?one))
         = [\<lparr>pageWidth = 842, pageHeight = 595, image = Some ''/app/uploads/images-1.png''\<rparr>]"
    by (simp add: orderFiles_def sortByOrder_def hasMetadata_def embeds_def demoKit_def
        imageStore_def imageUpload_def fs_defs parse_defs)
  from imageToPDF_page_dimensions [OF imageToPDF_three _ ni(1) refl refl refl]
  have a: "map_of (snd (imageToPDF demoKit (\<lambda>p. True) ''/app'' ''/app/uploads'' 4 imageStore
           (Some ?images) (Some ''letter'') (Some ''landscape'') imageOrder))
        ''/app/uploads/image-pdf-4.pdf''
     = Some (File (kit_render demoKit
         (map (\<lambda>u. \<lparr>pageWidth = 792, pageHeight = 612,
                     image = (if embeds demoKit imageStore u then Some (path u) else None)\<rparr>)
            (filter (hasMetadata demoKit imageStore) (orderFiles imageOrder ?images)))))"
    by (simp add: l ji imageToPDF_three)
  from imageToPDF_page_dimensions [OF imageToPDF_tabloid _ ni(2) refl refl refl]
  have b: "map_of (snd (imageToPDF demoKit (\<lambda>p. True) ''/app'' ''/app/uploads'' 6 imageStore
           (Some ?one) (Some ''Tabloid'') (Some ''LANDSCAPE'') (\<lambda>k. None)))
        ''/app/uploads/image-pdf-6.pdf''
     = Some (File (kit_render demoKit
         [\<lparr>pageWidth = 842, pageHeight = 595, image = Some ''/app/uploads/images-1.png''\<rparr>]))"
    unfolding l by (simp add: ji imageToPDF_tabloid e)
  show ?thesis
    by (intro conjI a c b)
qed


end
